theory Spec2Isabelle
  imports Complex_Main "HOL-Library.Signed_Division"
begin

section \<open>Numbers\<close>

text \<open>
  The program computes in \<^verbatim>\<open>float\<close>, the binary32 format of IEEE 754, and in
  \<^verbatim>\<open>int\<close>. A \<^verbatim>\<open>float\<close> is read as the real number it holds, and every
  arithmetic operation of the program as the exact operation followed by the rounding
  \<open>round_f32\<close> of its result to the nearest binary32 number, ties to the even
  significand: 24 significant bits, the exponent of the unit in the last place bounded
  below by that of the subnormal numbers.

  The model has no infinities, no NaN and no negative zero: a result of magnitude
  \<open>2\<^sup>1\<^sup>2\<^sup>8\<close> or more, and a quotient whose divisor is zero (which has HOL's value \<open>0\<close>),
  are outside what it describes. An \<^verbatim>\<open>int\<close> is a mathematical integer.

  \<^verbatim>\<open>static_cast<int>(f)\<close> drops the fractional part of \<open>f\<close> (rounds towards zero) and
  \<^verbatim>\<open>a % b\<close> on \<^verbatim>\<open>int\<close> is the remainder of the division that rounds towards zero,
  which is \<open>smod\<close>.
\<close>

definition round_even :: "real \<Rightarrow> int" where
  "round_even q =
     (let f = \<lfloor>q\<rfloor>; d = q - of_int f
      in if d < 1 / 2 then f else if 1 / 2 < d then f + 1 else if even f then f else f + 1)"

text \<open>
  The exponent \<open>e\<close> with \<open>2\<^sup>e \<le> |x| < 2\<^sup>e\<^sup>+\<^sup>1\<close>, and \<open>- 126\<close> for the subnormal numbers;
  the unit in the last place of \<open>x\<close> is \<open>2\<^sup>e\<^sup>-\<^sup>2\<^sup>3\<close>.
\<close>

definition binade :: "real \<Rightarrow> int" where
  "binade x = max (- 126) \<lfloor>log 2 \<bar>x\<bar>\<rfloor>"

definition round_f32 :: "real \<Rightarrow> real" where
  "round_f32 x =
     (if x = 0 then 0
      else of_int (round_even (x / 2 powi (binade x - 23))) * 2 powi (binade x - 23))"

text \<open>
  The operators \<^verbatim>\<open>+\<close>, \<^verbatim>\<open>-\<close>, \<^verbatim>\<open>*\<close>, \<^verbatim>\<open>/\<close> on \<^verbatim>\<open>float\<close>, \<^verbatim>\<open>std::sqrt\<close>, and
  the conversion of an \<^verbatim>\<open>int\<close> to \<^verbatim>\<open>float\<close>. The unary minus is exact.
\<close>

definition fadd :: "real \<Rightarrow> real \<Rightarrow> real" where
  "fadd a b = round_f32 (a + b)"

definition fsub :: "real \<Rightarrow> real \<Rightarrow> real" where
  "fsub a b = round_f32 (a - b)"

definition fmul :: "real \<Rightarrow> real \<Rightarrow> real" where
  "fmul a b = round_f32 (a * b)"

definition fdiv :: "real \<Rightarrow> real \<Rightarrow> real" where
  "fdiv a b = round_f32 (a / b)"

definition fsqrt :: "real \<Rightarrow> real" where
  "fsqrt a = round_f32 (sqrt a)"

definition float_of_int :: "int \<Rightarrow> real" where
  "float_of_int n = round_f32 (of_int n)"

definition static_cast_int :: "real \<Rightarrow> int" where
  "static_cast_int f = (if f < 0 then \<lceil>f\<rceil> else \<lfloor>f\<rfloor>)"

section \<open>Vec3, Ray, Sphere\<close>

text \<open>
  \<^verbatim>\<open>struct Vec3 { float x, y, z; ... }\<close>. The fields are named \<open>vx\<close>, \<open>vy\<close>, \<open>vz\<close>
  here, so that \<open>x\<close> and \<open>y\<close> stay free for the cell coordinates of the renderer.
\<close>

datatype Vec3 = Vec3 (vx: real) (vy: real) (vz: real)

text \<open>\<^verbatim>\<open>operator+\<close>, \<^verbatim>\<open>operator-\<close>, \<^verbatim>\<open>operator*(float)\<close>, \<^verbatim>\<open>dot\<close>, \<^verbatim>\<open>normalize\<close>.\<close>

definition vadd :: "Vec3 \<Rightarrow> Vec3 \<Rightarrow> Vec3" where
  "vadd a v = Vec3 (fadd (vx a) (vx v)) (fadd (vy a) (vy v)) (fadd (vz a) (vz v))"

definition vsub :: "Vec3 \<Rightarrow> Vec3 \<Rightarrow> Vec3" where
  "vsub a v = Vec3 (fsub (vx a) (vx v)) (fsub (vy a) (vy v)) (fsub (vz a) (vz v))"

definition vscale :: "Vec3 \<Rightarrow> real \<Rightarrow> Vec3" where
  "vscale a s = Vec3 (fmul (vx a) s) (fmul (vy a) s) (fmul (vz a) s)"

definition dot :: "Vec3 \<Rightarrow> Vec3 \<Rightarrow> real" where
  "dot a v = fadd (fadd (fmul (vx a) (vx v)) (fmul (vy a) (vy v))) (fmul (vz a) (vz v))"

definition normalize_vec :: "Vec3 \<Rightarrow> Vec3" where
  "normalize_vec a =
     (let mag = fsqrt (fadd (fadd (fmul (vx a) (vx a)) (fmul (vy a) (vy a)))
                            (fmul (vz a) (vz a)))
      in Vec3 (fdiv (vx a) mag) (fdiv (vy a) mag) (fdiv (vz a) mag))"

text \<open>\<^verbatim>\<open>struct Ray\<close>: the constructor stores the direction normalized.\<close>

record Ray =
  origin :: Vec3
  direction :: Vec3

definition mkRay :: "Vec3 \<Rightarrow> Vec3 \<Rightarrow> Ray" where
  "mkRay orig dir = \<lparr>origin = orig, direction = normalize_vec dir\<rparr>"

record Sphere =
  center :: Vec3
  radius :: real

text \<open>
  \<^verbatim>\<open>Sphere::intersect\<close> returns \<^verbatim>\<open>false\<close> (here \<open>None\<close>) on a miss and \<^verbatim>\<open>true\<close>
  with the three out-parameters \<open>t\<close>, \<open>hitPoint\<close>, \<open>normal\<close> set (here \<open>Some\<close> of them)
  on a hit. On the second miss branch the source has already stored \<open>t\<close>; its only
  caller reads \<open>t\<close> after a hit only, so the stored value is not part of the result.
\<close>

definition intersect :: "Sphere \<Rightarrow> Ray \<Rightarrow> (real \<times> Vec3 \<times> Vec3) option" where
  "intersect s ray =
     (let oc = vsub (origin ray) (center s);
          a = dot (direction ray) (direction ray);
          b = fmul 2 (dot oc (direction ray));
          c = fsub (dot oc oc) (fmul (radius s) (radius s));
          discriminant = fsub (fmul b b) (fmul (fmul 4 a) c)
      in if discriminant < 0 then None
         else
           (let t = fdiv (fsub (- b) (fsqrt discriminant)) (fmul 2 a)
            in if t \<le> 0 then None
               else
                 (let hitPoint = vadd (origin ray) (vscale (direction ray) t);
                      normal = normalize_vec (vsub hitPoint (center s))
                  in Some (t, hitPoint, normal))))"

section \<open>Shading\<close>

definition isCheckerboard :: "Vec3 \<Rightarrow> bool" where
  "isCheckerboard point =
     (let checkerX = static_cast_int (of_int \<lfloor>vx point\<rfloor>);
          checkerZ = static_cast_int (of_int \<lfloor>vz point\<rfloor>)
      in (checkerX + checkerZ) smod 2 = 0)"

definition shades :: string where
  "shades = '' .:-=+*''"

definition getShade :: "real \<Rightarrow> bool \<Rightarrow> char" where
  "getShade t0 reflective =
     (let t1 = (if t0 < 0 then 0 else t0);
          t = (if t1 > 1 then 1 else t1);
          index = min (static_cast_int (fmul t (float_of_int (int (length shades - 1)))))
                      (int (length shades - 1))
      in if reflective then shades ! nat index
         else (if isCheckerboard (Vec3 t 0 0) then CHR ''*'' else CHR '' ''))"

section \<open>The frame renderer\<close>

text \<open>
  The frame is the pair of the two vectors \<^verbatim>\<open>render\<close> updates in place: the character
  buffer and the change flags. \<^verbatim>\<open>std::vector::operator[]\<close> is unchecked: an index
  outside the vector has no defined behaviour, which is the result \<open>None\<close> here.
\<close>

type_synonym frame = "char list \<times> bool list"

text \<open>A \<^verbatim>\<open>for\<close> loop over the elements of a list, stopping at the first undefined step.\<close>

fun for_each :: "('a \<Rightarrow> 's \<Rightarrow> 's option) \<Rightarrow> 'a list \<Rightarrow> 's \<Rightarrow> 's option" where
  "for_each body [] s = Some s"
| "for_each body (a # as) s =
     (case body a s of None \<Rightarrow> None | Some s' \<Rightarrow> for_each body as s')"

definition targetAspectRatio :: real where
  "targetAspectRatio = 16 / 9"

text \<open>
  Lines 72 to 77: the pair \<open>(adjustedWidth, adjustedHeight)\<close>. The two quotients are
  taken exactly, with the ratio \<open>16/9\<close>; only their integer parts are used. On the grid of
  the program, 200 by 250, the binary32 quotient has the same integer part (lemma
  \<open>adjusted_binary32_200_250\<close> below).
\<close>

definition adjusted :: "int \<Rightarrow> int \<Rightarrow> int \<times> int" where
  "adjusted width height =
     (let adjustedWidth = width;
          adjustedHeight = static_cast_int (real_of_int width / targetAspectRatio)
      in if adjustedHeight > height
         then (static_cast_int (real_of_int height * targetAspectRatio), height)
         else (adjustedWidth, adjustedHeight))"

text \<open>Lines 88 and 89, with \<open>aspectRatio\<close> of line 70 written out.\<close>

definition view_u :: "int \<Rightarrow> int \<Rightarrow> int \<Rightarrow> int \<Rightarrow> real" where
  "view_u width height adjustedWidth x =
     (let aspectRatio = fdiv (float_of_int width) (float_of_int height)
      in fmul (fdiv (fsub (float_of_int x) (fdiv (float_of_int adjustedWidth) 2))
                    (float_of_int adjustedWidth))
              aspectRatio)"

definition view_v :: "int \<Rightarrow> int \<Rightarrow> real" where
  "view_v adjustedHeight y =
     fdiv (fsub (fdiv (float_of_int adjustedHeight) 2) (float_of_int y))
          (float_of_int adjustedHeight)"

text \<open>Line 67: the one sphere of the scene.\<close>

definition scene_sphere :: Sphere where
  "scene_sphere = \<lparr>center = Vec3 0 2 3, radius = 1\<rparr>"

text \<open>
  Lines 98 and 99: the ray that leaves \<open>hitPoint\<close> in the mirror direction. The product
  \<^verbatim>\<open>normal * 2 * ray.direction.dot(normal)\<close> scales the normal twice, from the left.
\<close>

definition reflectionDir :: "Ray \<Rightarrow> Vec3 \<Rightarrow> Vec3" where
  "reflectionDir ray normal =
     vsub (direction ray) (vscale (vscale normal 2) (dot (direction ray) normal))"

definition reflection_ray :: "Ray \<Rightarrow> Vec3 \<Rightarrow> Vec3 \<Rightarrow> Ray" where
  "reflection_ray ray hitPoint normal = mkRay hitPoint (reflectionDir ray normal)"

text \<open>
  Lines 101 and 103, and again lines 112 and 113: the distance \<open>floorDist\<close> from a point
  along a ray to the plane \<open>y = 0\<close>, and the point \<open>floorPoint\<close> reached there.
\<close>

definition floor_dist :: "Vec3 \<Rightarrow> Ray \<Rightarrow> real" where
  "floor_dist p r = fdiv (- vy p) (vy (direction r))"

definition floor_point :: "Vec3 \<Rightarrow> Ray \<Rightarrow> Vec3" where
  "floor_point p r = vadd p (vscale (direction r) (floor_dist p r))"

text \<open>Lines 93 to 116: the character of a camera ray.\<close>

definition shade_ray :: "Vec3 \<Rightarrow> Ray \<Rightarrow> char" where
  "shade_ray camera ray =
     (case intersect scene_sphere ray of
        Some (t, hitPoint, normal) \<Rightarrow>
          (let reflectionRay = reflection_ray ray hitPoint normal;
               floorDist = floor_dist hitPoint reflectionRay
           in if floorDist > 0
              then getShade 1 (isCheckerboard (floor_point hitPoint reflectionRay))
              else getShade t True)
      | None \<Rightarrow>
          (if vy (direction ray) < 0
           then getShade 1 (isCheckerboard (floor_point camera ray))
           else CHR '' ''))"

text \<open>Lines 88 to 116: the character \<open>newChar\<close> of the cell \<open>(x, y)\<close>.\<close>

definition camera_ray :: "int \<Rightarrow> int \<Rightarrow> Vec3 \<Rightarrow> int \<Rightarrow> int \<Rightarrow> Ray" where
  "camera_ray width height camera x y =
     (let u = view_u width height (fst (adjusted width height)) x;
          v = view_v (snd (adjusted width height)) y
      in mkRay camera (Vec3 u v 1))"

definition newChar :: "int \<Rightarrow> int \<Rightarrow> Vec3 \<Rightarrow> int \<Rightarrow> int \<Rightarrow> char" where
  "newChar width height camera x y = shade_ray camera (camera_ray width height camera x y)"

text \<open>Lines 119 to 122: the buffer is written, and the flag set, only on a difference.\<close>

definition store_cell :: "int \<Rightarrow> char \<Rightarrow> int \<Rightarrow> int \<Rightarrow> frame \<Rightarrow> frame option" where
  "store_cell width c y x fr =
     (case fr of (buffer, changed) \<Rightarrow>
        (let i = y * width + x
         in if i < 0 \<or> int (length buffer) \<le> i then None
            else if c \<noteq> buffer ! nat i
            then (if int (length changed) \<le> i then None
                  else Some (buffer[nat i := c], changed[nat i := True]))
            else Some fr))"

definition render :: "int \<Rightarrow> int \<Rightarrow> Vec3 \<Rightarrow> frame \<Rightarrow> frame option" where
  "render width height camera fr =
     (case fr of (buffer, changed) \<Rightarrow>
        (let adjustedWidth = fst (adjusted width height);
             adjustedHeight = snd (adjusted width height);
             cleared = replicate (length changed) False
         in for_each
              (\<lambda>y. for_each
                     (\<lambda>x. store_cell width (newChar width height camera x y) y x)
                     [0..adjustedWidth - 1])
              [0..adjustedHeight - 1]
              (buffer, cleared)))"

section \<open>The differential display writer\<close>

text \<open>
  What \<^verbatim>\<open>printf\<close> writes for \<^verbatim>\<open>%d\<close>, and for the format
  \<^verbatim>\<open>"\033[%d;%dH"\<close> followed by one character.
\<close>

fun decimal_nat :: "nat \<Rightarrow> string" where
  "decimal_nat n =
     (if n < 10 then [''0123456789'' ! n]
      else decimal_nat (n div 10) @ [''0123456789'' ! (n mod 10)])"

definition decimal :: "int \<Rightarrow> string" where
  "decimal i = (if i < 0 then CHR ''-'' # decimal_nat (nat (- i)) else decimal_nat (nat i))"

definition cursor_put :: "int \<Rightarrow> int \<Rightarrow> char \<Rightarrow> string" where
  "cursor_put row col c =
     [CHR 0x1B, CHR ''[''] @ decimal row @ '';'' @ decimal col @ ''H'' @ [c]"

text \<open>Lines 135 to 139, appending to what has been written to the terminal so far.\<close>

definition display_cell :: "int \<Rightarrow> char list \<Rightarrow> bool list \<Rightarrow> int \<Rightarrow> int \<Rightarrow> string \<Rightarrow> string option" where
  "display_cell width buffer changed y x out =
     (let i = y * width + x
      in if i < 0 \<or> int (length changed) \<le> i then None
         else if changed ! nat i
         then (if int (length buffer) \<le> i then None
               else if buffer ! nat i = CHR ''*''
               then Some (out @ cursor_put (y + 1) (x + 1) CHR ''*'')
               else Some (out @ cursor_put (y + 1) (x + 1) CHR '' ''))
         else Some out)"

definition displayBuffer :: "int \<Rightarrow> int \<Rightarrow> char list \<Rightarrow> bool list \<Rightarrow> string option" where
  "displayBuffer width height buffer changed =
     for_each (\<lambda>y. for_each (\<lambda>x. display_cell width buffer changed y x) [0..width - 1])
       [0..height - 1] []"

section \<open>Notions used to state the properties\<close>

text \<open>
  The cells of the whole grid and of the aspect-corrected sub-rectangle, in the
  row-major order of the two nested loops, as pairs \<open>(y, x)\<close>; the index of a cell in the
  two vectors; and the condition that this index lies inside a vector of \<open>n\<close> elements.
\<close>

definition grid_cells :: "int \<Rightarrow> int \<Rightarrow> (int \<times> int) list" where
  "grid_cells width height = List.product [0..height - 1] [0..width - 1]"

definition sub_cells :: "int \<Rightarrow> int \<Rightarrow> (int \<times> int) list" where
  "sub_cells width height =
     List.product [0..snd (adjusted width height) - 1] [0..fst (adjusted width height) - 1]"

definition cell_ix :: "int \<Rightarrow> int \<times> int \<Rightarrow> nat" where
  "cell_ix width c = nat (fst c * width + snd c)"

definition in_frame :: "int \<Rightarrow> nat \<Rightarrow> int \<times> int \<Rightarrow> bool" where
  "in_frame width n c \<longleftrightarrow> 0 \<le> fst c * width + snd c \<and> fst c * width + snd c < int n"

text \<open>The intensity after the two clamping assignments of \<^verbatim>\<open>getShade\<close>.\<close>

definition clamp01 :: "real \<Rightarrow> real" where
  "clamp01 t = (if t < 0 then 0 else if t > 1 then 1 else t)"

text \<open>
  The coefficients of the quadratic \<open>a t\<^sup>2 + b t + c = 0\<close> that \<^verbatim>\<open>intersect\<close> solves,
  its discriminant, its near root, and the point of a ray at parameter \<open>t\<close>.
\<close>

definition quad_a :: "Ray \<Rightarrow> real" where
  "quad_a ray = dot (direction ray) (direction ray)"

definition quad_b :: "Sphere \<Rightarrow> Ray \<Rightarrow> real" where
  "quad_b s ray = fmul 2 (dot (vsub (origin ray) (center s)) (direction ray))"

definition quad_c :: "Sphere \<Rightarrow> Ray \<Rightarrow> real" where
  "quad_c s ray =
     fsub (dot (vsub (origin ray) (center s)) (vsub (origin ray) (center s)))
          (fmul (radius s) (radius s))"

definition quad_discriminant :: "Sphere \<Rightarrow> Ray \<Rightarrow> real" where
  "quad_discriminant s ray =
     fsub (fmul (quad_b s ray) (quad_b s ray)) (fmul (fmul 4 (quad_a ray)) (quad_c s ray))"



text \<open>
  The number by which \<^verbatim>\<open>normalize\<close> divides; the cells of the aspect-corrected
  sub-rectangle, which are the cells that \<^verbatim>\<open>render\<close> visits; and the vectors whose
  coordinates are all below a bound in absolute value.
\<close>

definition magnitude :: "Vec3 \<Rightarrow> real" where
  "magnitude a =
     fsqrt (fadd (fadd (fmul (vx a) (vx a)) (fmul (vy a) (vy a))) (fmul (vz a) (vz a)))"

definition in_sub_rectangle :: "int \<Rightarrow> int \<Rightarrow> int \<Rightarrow> int \<Rightarrow> bool" where
  "in_sub_rectangle width height x y \<longleftrightarrow>
     0 \<le> x \<and> x < fst (adjusted width height) \<and> 0 \<le> y \<and> y < snd (adjusted width height)"

definition coords_below :: "real \<Rightarrow> Vec3 \<Rightarrow> bool" where
  "coords_below b p \<longleftrightarrow> abs (vx p) < b \<and> abs (vy p) < b \<and> abs (vz p) < b"

text \<open>
  What the display writer sends for one cell: nothing when the flag of the cell is clear,
  else the cursor sequence followed by an asterisk when the buffer holds an asterisk there
  and by a space when it holds anything else.
\<close>

definition cell_update :: "int \<Rightarrow> char list \<Rightarrow> bool list \<Rightarrow> int \<times> int \<Rightarrow> string" where
  "cell_update width buffer changed c =
     (if changed ! cell_ix width c
      then cursor_put (fst c + 1) (snd c + 1)
             (if buffer ! cell_ix width c = CHR ''*'' then CHR ''*'' else CHR '' '')
      else [])"

section \<open>The specification's reading of four operations\<close>

text \<open>
  The definitions of this section follow the words of the specification, not the source;
  they are compared with the program below.

  Shading with \<open>reflective\<close> set: \<open>palette[round(t \<times> (paletteSize - 1))]\<close> for the
  clamped \<open>t\<close>.
\<close>

definition getShade_spec :: "real \<Rightarrow> char" where
  "getShade_spec t =
     shades ! nat (round (fmul (clamp01 t) (float_of_int (int (length shades - 1)))))"

text \<open>
  The horizontal view-plane coordinate, scaled by the aspect ratio of the sub-rectangle
  itself.
\<close>

definition view_u_spec :: "int \<Rightarrow> int \<Rightarrow> int \<Rightarrow> real" where
  "view_u_spec adjustedWidth adjustedHeight x =
     fmul (fdiv (fsub (float_of_int x) (fdiv (float_of_int adjustedWidth) 2))
                (float_of_int adjustedWidth))
          (fdiv (float_of_int adjustedWidth) (float_of_int adjustedHeight))"

text \<open>
  The crossing of the floor computed from the mirror direction \<open>reflectionDir\<close> itself:
  \<open>floorDist = - hitPoint.y / reflectionDir.y\<close> and
  \<open>floorPoint = hitPoint + reflectionDir floorDist\<close>.
\<close>

definition floor_dist_spec :: "Vec3 \<Rightarrow> Vec3 \<Rightarrow> real" where
  "floor_dist_spec hitPoint reflDir = fdiv (- vy hitPoint) (vy reflDir)"

definition floor_point_spec :: "Vec3 \<Rightarrow> Vec3 \<Rightarrow> Vec3" where
  "floor_point_spec hitPoint reflDir =
     vadd hitPoint (vscale reflDir (floor_dist_spec hitPoint reflDir))"

text \<open>
  The display writer drawing, for every flagged cell, exactly the character the buffer
  holds there.
\<close>

definition cell_update_spec :: "int \<Rightarrow> char list \<Rightarrow> bool list \<Rightarrow> int \<times> int \<Rightarrow> string" where
  "cell_update_spec width buffer changed c =
     (if changed ! cell_ix width c
      then cursor_put (fst c + 1) (snd c + 1) (buffer ! cell_ix width c)
      else [])"

definition displayBuffer_spec :: "int \<Rightarrow> int \<Rightarrow> char list \<Rightarrow> bool list \<Rightarrow> string" where
  "displayBuffer_spec width height buffer changed =
     concat (map (cell_update_spec width buffer changed) (grid_cells width height))"

section \<open>Rounding lemmas\<close>

lemma round_even_near:
  assumes "\<bar>q - of_int n\<bar> < 1 / 2"
  shows "round_even q = n"
proof (cases "of_int n \<le> q")
  case True
  with assms have "\<lfloor>q\<rfloor> = n" by (simp add: floor_eq_iff)
  with assms True show ?thesis by (simp add: round_even_def Let_def)
next
  case False
  with assms have f: "\<lfloor>q\<rfloor> = n - 1" by (simp add: floor_eq_iff)
  from assms False have "1 / 2 < q - of_int (n - 1)" by simp
  with f show ?thesis by (simp add: round_even_def Let_def)
qed

lemma round_even_ge:
  assumes "of_int m \<le> q"
  shows "m \<le> round_even q"
proof -
  from assms have "m \<le> \<lfloor>q\<rfloor>" by (simp add: le_floor_iff)
  then show ?thesis by (simp add: round_even_def Let_def)
qed

lemma round_even_le:
  assumes "q \<le> of_int m"
  shows "round_even q \<le> m"
proof (cases "q = of_int m")
  case True
  then show ?thesis by (simp add: round_even_def Let_def)
next
  case False
  with assms have "q < of_int m" by simp
  then have "\<lfloor>q\<rfloor> < m" by (simp add: floor_less_iff)
  then show ?thesis by (simp add: round_even_def Let_def)
qed

lemma binade_eq:
  assumes "- 126 \<le> e" "2 powi e \<le> \<bar>x\<bar>" "\<bar>x\<bar> < 2 powi (e + 1)"
  shows "binade x = e"
proof -
  have p: "0 < \<bar>x\<bar>"
    using assms(2) zero_less_power_int [of "2::real" e] by linarith
  have "(2::real) powr real_of_int k = 2 powi k" for k
    by (simp add: powr_real_of_int')
  with assms have "2 powr real_of_int e \<le> \<bar>x\<bar> \<and> \<bar>x\<bar> < 2 powr (real_of_int e + 1)"
    by (metis of_int_1 of_int_add)
  with p have "\<lfloor>log 2 \<bar>x\<bar>\<rfloor> = e"
    by (simp add: floor_log_eq_powr_iff)
  with assms(1) show ?thesis by (simp add: binade_def)
qed

lemma round_f32_near:
  assumes "- 126 \<le> e" "2 powi e \<le> \<bar>z\<bar>" "\<bar>z\<bar> < 2 powi (e + 1)"
    and "\<bar>z - of_int n * 2 powi (e - 23)\<bar> < 2 powi (e - 24)"
  shows "round_f32 z = of_int n * 2 powi (e - 23)"
proof -
  let ?u = "(2::real) powi (e - 23)"
  have u: "0 < ?u" by simp
  have h: "(2::real) powi (e - 24) = ?u / 2"
    by (simp add: power_int_diff)
  have "\<not> (2::real) powi e \<le> 0" by (simp add: not_le)
  with assms(2) have z: "z \<noteq> 0" by auto
  have "\<bar>z / ?u - of_int n\<bar> = \<bar>z - of_int n * ?u\<bar> / ?u"
    using u by (simp add: field_simps abs_mult [symmetric] abs_divide)
  also have "\<dots> < 1 / 2"
    using assms(4) u unfolding h by (simp add: field_simps)
  finally have "round_even (z / ?u) = n"
    by (rule round_even_near)
  with z show ?thesis
    by (simp add: round_f32_def binade_eq [OF assms(1-3)])
qed

lemma round_f32_zero: "round_f32 0 = 0"
  by (simp add: round_f32_def)

lemma round_f32_nonneg:
  assumes "0 \<le> x"
  shows "0 \<le> round_f32 x"
proof (cases "x = 0")
  case True
  then show ?thesis by (simp add: round_f32_def)
next
  case False
  from assms have "of_int 0 \<le> x / 2 powi (binade x - 23)" by simp
  then have "0 \<le> round_even (x / 2 powi (binade x - 23))" by (rule round_even_ge)
  then show ?thesis by (simp add: round_f32_def)
qed

lemma binade_floor_log:
  assumes "0 < x"
  shows "2 powi \<lfloor>log 2 x\<rfloor> \<le> x" "x < 2 powi (\<lfloor>log 2 x\<rfloor> + 1)"
proof -
  have p: "(2::real) powr real_of_int k = 2 powi k" for k
    by (simp add: powr_real_of_int')
  have "\<lfloor>log 2 x\<rfloor> = \<lfloor>log 2 x\<rfloor>" ..
  with assms
  have "2 powr real_of_int \<lfloor>log 2 x\<rfloor> \<le> x \<and> x < 2 powr real_of_int (\<lfloor>log 2 x\<rfloor> + 1)"
    by (simp only: floor_log_eq_powr_iff [of x 2 "\<lfloor>log 2 x\<rfloor>"] one_less_numeral_iff
        semiring_norm)
  then show "2 powi \<lfloor>log 2 x\<rfloor> \<le> x" "x < 2 powi (\<lfloor>log 2 x\<rfloor> + 1)"
    by (simp_all only: p)
qed

lemma binade_upper:
  assumes "0 < x" "x < 2 powi (k + 1)" "- 126 \<le> k"
  shows "binade x \<le> k"
proof -
  from binade_floor_log(1) [OF assms(1)] assms(2)
  have lt: "(2::real) powi \<lfloor>log 2 x\<rfloor> < 2 powi (k + 1)" by simp
  have "\<not> k + 1 \<le> \<lfloor>log 2 x\<rfloor>"
  proof
    assume "k + 1 \<le> \<lfloor>log 2 x\<rfloor>"
    then have "(2::real) powi (k + 1) \<le> 2 powi \<lfloor>log 2 x\<rfloor>"
      by (rule power_int_increasing) simp
    with lt show False by simp
  qed
  moreover from assms(1) have "\<bar>x\<bar> = x" by simp
  ultimately show ?thesis using assms(3) by (simp add: binade_def)
qed

lemma round_f32_le_int:
  assumes "0 < x" "x \<le> of_int m" "x < 2 ^ 24"
  shows "round_f32 x \<le> of_int m"
proof -
  define k where "k = nat (23 - binade x)"
  from assms(1,3) have "binade x \<le> 23"
    by (intro binade_upper) simp_all
  then have u: "(2::real) powi (binade x - 23) = 1 / 2 ^ k"
    by (simp add: k_def power_int_def divide_simps)
  have "x / 2 powi (binade x - 23) = x * 2 ^ k"
    by (simp add: u)
  also have "\<dots> \<le> of_int (m * 2 ^ k)"
    using assms(2) by simp
  finally have "round_even (x / 2 powi (binade x - 23)) \<le> m * 2 ^ k"
    by (rule round_even_le)
  then have "of_int (round_even (x / 2 powi (binade x - 23))) \<le> (of_int (m * 2 ^ k) :: real)"
    by (simp only: of_int_le_iff)
  then have "of_int (round_even (x / 2 powi (binade x - 23))) * (1 / 2 ^ k) \<le> (of_int m :: real)"
    by (simp add: field_simps)
  with assms(1) show ?thesis
    by (simp add: round_f32_def u)
qed

lemma round_f32_ge_one:
  assumes "1 \<le> x"
  shows "1 \<le> round_f32 x"
proof -
  from assms have p: "0 < x" by simp
  from assms have "0 \<le> log 2 x" by simp
  then have e: "0 \<le> \<lfloor>log 2 x\<rfloor>" by simp
  moreover from p have "\<bar>x\<bar> = x" by simp
  ultimately have b: "binade x = \<lfloor>log 2 x\<rfloor>" by (simp add: binade_def)
  let ?e = "binade x"
  have "of_int (2 ^ 23) = (2::real) powi ?e / 2 powi (?e - 23)"
    by (simp add: power_int_diff)
  also have "\<dots> \<le> x / 2 powi (?e - 23)"
    using binade_floor_log(1) [OF p] by (simp add: b divide_right_mono)
  finally have "2 ^ 23 \<le> round_even (x / 2 powi (?e - 23))"
    by (rule round_even_ge)
  then have "(of_int (2 ^ 23) :: real) \<le> of_int (round_even (x / 2 powi (?e - 23)))"
    by (simp only: of_int_le_iff)
  then have A: "(2 ^ 23 :: real) * 2 powi (?e - 23)
      \<le> of_int (round_even (x / 2 powi (?e - 23))) * 2 powi (?e - 23)"
    by (simp add: mult_right_mono)
  have B: "(2 ^ 23 :: real) * 2 powi (?e - 23) = 2 powi ?e"
    by (simp add: power_int_diff)
  have C: "(1::real) \<le> 2 powi ?e"
    using e b by (simp add: one_le_power_int)
  from A B C have "(1::real) \<le> of_int (round_even (x / 2 powi (?e - 23))) * 2 powi (?e - 23)"
    by linarith
  with p show ?thesis
    by (simp add: round_f32_def)
qed

lemma fsqrt_near:
  fixes x :: real
  assumes "- 126 \<le> e"
    and "(0::real) \<le> of_int n * 2 powi (e - 23) - 2 powi (e - 24)"
    and "2 powi e * 2 powi e \<le> x" "x < 2 powi (e + 1) * 2 powi (e + 1)"
    and "(of_int n * 2 powi (e - 23) - 2 powi (e - 24))
           * (of_int n * 2 powi (e - 23) - 2 powi (e - 24)) < x"
    and "x < (of_int n * 2 powi (e - 23) + 2 powi (e - 24))
           * (of_int n * 2 powi (e - 23) + 2 powi (e - 24))"
  shows "fsqrt x = of_int n * 2 powi (e - 23)"
proof -
  let ?y = "of_int n * (2::real) powi (e - 23)"
  let ?h = "(2::real) powi (e - 24)"
  have h: "0 < ?h" by simp
  have pe: "0 \<le> (2::real) powi e" "0 \<le> (2::real) powi (e + 1)" by simp_all
  from assms(3) have x: "0 \<le> x"
    by (meson order_trans zero_le_square)
  have lo: "2 powi e \<le> sqrt x"
    using assms(3) pe(1) by (simp add: real_le_rsqrt power2_eq_square)
  have hi: "sqrt x < 2 powi (e + 1)"
    using assms(4) pe(2) x by (simp add: real_less_lsqrt power2_eq_square)
  have a: "?y - ?h < sqrt x"
    using assms(2,5) by (simp add: real_less_rsqrt power2_eq_square)
  have "0 \<le> ?y + ?h" using assms(2) h by linarith
  then have b: "sqrt x < ?y + ?h"
    using assms(6) x by (simp add: real_less_lsqrt power2_eq_square)
  from a b have "\<bar>sqrt x - ?y\<bar> < ?h" by (simp add: abs_less_iff)
  moreover from lo hi x have "2 powi e \<le> \<bar>sqrt x\<bar>" "\<bar>sqrt x\<bar> < 2 powi (e + 1)" by simp_all
  ultimately show ?thesis
    unfolding fsqrt_def using assms(1) by (intro round_f32_near)
qed

lemma round_even_tie:
  assumes "\<bar>q - of_int m\<bar> = 1 / 2" "even m"
  shows "round_even q = m"
proof (cases "of_int m \<le> q")
  case True
  with assms(1) have q: "q = of_int m + 1 / 2" by simp
  then have "\<lfloor>q\<rfloor> = m" by (simp add: floor_eq_iff)
  with q assms(2) show ?thesis by (simp add: round_even_def Let_def)
next
  case False
  with assms(1) have q: "q = of_int (m - 1) + 1 / 2" by simp
  then have f: "\<lfloor>q\<rfloor> = m - 1" by (simp add: floor_eq_iff)
  from assms(2) have "odd (m - 1)" by simp
  with q f show ?thesis by (simp add: round_even_def Let_def)
qed

lemma round_f32_tie:
  assumes "- 126 \<le> e" "2 powi e \<le> \<bar>z\<bar>" "\<bar>z\<bar> < 2 powi (e + 1)"
    and "\<bar>z - of_int n * 2 powi (e - 23)\<bar> = 2 powi (e - 24)" "even n"
  shows "round_f32 z = of_int n * 2 powi (e - 23)"
proof -
  let ?u = "(2::real) powi (e - 23)"
  have u: "0 < ?u" by simp
  have h: "(2::real) powi (e - 24) = ?u / 2"
    by (simp add: power_int_diff)
  have "\<not> (2::real) powi e \<le> 0" by (simp add: not_le)
  with assms(2) have z: "z \<noteq> 0" by auto
  have "\<bar>z / ?u - of_int n\<bar> = \<bar>z - of_int n * ?u\<bar> / ?u"
    using u by (simp add: field_simps abs_mult [symmetric] abs_divide)
  also have "\<dots> = 1 / 2"
    using assms(4) u unfolding h by (simp add: field_simps)
  finally have "round_even (z / ?u) = n"
    using assms(5) by (rule round_even_tie)
  with z show ?thesis
    by (simp add: round_f32_def binade_eq [OF assms(1-3)])
qed

section \<open>Shading lemmas\<close>

lemma float_of_int_6: "float_of_int 6 = 6"
  using round_f32_near [of 2 6 12582912] by (simp add: float_of_int_def)

lemma static_cast_int_nonneg: "0 \<le> f \<Longrightarrow> static_cast_int f = \<lfloor>f\<rfloor>"
  by (simp add: static_cast_int_def)

lemma static_cast_int_of_int: "static_cast_int (of_int k) = k"
  by (simp add: static_cast_int_def)

lemma static_cast_int_pos: "0 < static_cast_int f \<Longrightarrow> static_cast_int f = \<lfloor>f\<rfloor> \<and> 0 \<le> f"
  by (auto simp add: static_cast_int_def split: if_splits)

lemma smod_two: "(k::int) smod 2 = 0 \<longleftrightarrow> even k"
  by (auto simp add: signed_modulo_int_def sgn_if)

lemma isCheckerboard_even: "isCheckerboard p \<longleftrightarrow> even (\<lfloor>vx p\<rfloor> + \<lfloor>vz p\<rfloor>)"
  by (simp add: isCheckerboard_def static_cast_int_of_int smod_two Let_def)

lemma clamp01_range: "0 \<le> clamp01 t \<and> clamp01 t \<le> 1"
  by (simp add: clamp01_def)


text \<open>The rounded product of a clamped intensity with 6 stays between 0 and 6.\<close>

lemma fmul_6_bounds:
  assumes "0 \<le> c" "c \<le> 1"
  shows "0 \<le> fmul c 6 \<and> fmul c 6 \<le> 6"
proof (cases "c = 0")
  case True
  then show ?thesis by (simp add: fmul_def round_f32_def)
next
  case False
  with assms have "0 < c * 6" "c * 6 \<le> of_int 6" "c * 6 < 2 ^ 24" by simp_all
  from round_f32_le_int [OF this] round_f32_nonneg [of "c * 6"] assms(1)
  show ?thesis by (simp add: fmul_def)
qed

lemma shade_index:
  "min (static_cast_int (fmul (clamp01 t) 6)) 6 = \<lfloor>fmul (clamp01 t) 6\<rfloor>"
proof -
  from clamp01_range [of t] have r: "0 \<le> fmul (clamp01 t) 6" "fmul (clamp01 t) 6 \<le> 6"
    using fmul_6_bounds [of "clamp01 t"] by simp_all
  then have "\<lfloor>fmul (clamp01 t) 6\<rfloor> \<le> 6"
    by (simp add: floor_le_iff)
  with r show ?thesis
    by (simp add: static_cast_int_nonneg)
qed

lemma getShade_clamp:
  "getShade t reflective =
     (if reflective then shades ! nat \<lfloor>fmul (clamp01 t) 6\<rfloor>
      else if isCheckerboard (Vec3 (clamp01 t) 0 0) then CHR ''*'' else CHR '' '')"
proof -
  have "(if (if t < 0 then 0 else t) > 1 then 1 else (if t < 0 then 0 else t)) = clamp01 t"
    by (simp add: clamp01_def)
  then show ?thesis
    using shade_index [of t] by (simp add: getShade_def shades_def float_of_int_6)
qed

section \<open>Intersection lemmas\<close>



lemma shade_ray_hit:
  assumes "intersect scene_sphere ray = Some (t, hitPoint, normal)"
  shows "shade_ray camera ray =
     (if 0 < floor_dist hitPoint (reflection_ray ray hitPoint normal)
      then getShade 1 (isCheckerboard (floor_point hitPoint (reflection_ray ray hitPoint normal)))
      else getShade t True)"
  using assms by (simp add: shade_ray_def Let_def)

section \<open>Loops over cells\<close>

lemma for_each_map_Pair:
  "for_each (\<lambda>x. g y x) xs s = for_each (\<lambda>(y, x). g y x) (map (Pair y) xs) s"
  by (induction xs arbitrary: s) (auto split: option.splits)

lemma for_each_append:
  "for_each body (as @ bs) s =
     (case for_each body as s of None \<Rightarrow> None | Some s' \<Rightarrow> for_each body bs s')"
  by (induction as arbitrary: s) (auto split: option.splits)

text \<open>Two nested loops are one loop over the cells in row-major order.\<close>

lemma for_each_nested:
  "for_each (\<lambda>y. for_each (\<lambda>x. g y x) xs) ys s
     = for_each (\<lambda>(y, x). g y x) (List.product ys xs) s"
proof (induction ys arbitrary: s)
  case Nil
  show ?case by simp
next
  case (Cons y ys)
  show ?case
    by (simp add: for_each_append Cons.IH for_each_map_Pair [of g y xs] split: option.splits)
qed

lemma store_cell_in:
  assumes "in_frame width (length buffer) (y, x)" "in_frame width (length changed) (y, x)"
  shows "store_cell width c y x (buffer, changed) =
     Some (if c \<noteq> buffer ! cell_ix width (y, x)
           then (buffer[cell_ix width (y, x) := c], changed[cell_ix width (y, x) := True])
           else (buffer, changed))"
  using assms by (simp add: store_cell_def in_frame_def cell_ix_def Let_def)

lemma store_cell_Some:
  assumes "store_cell width c y x (buffer, changed) = Some (buffer', changed')"
  shows "length buffer' = length buffer \<and> length changed' = length changed
    \<and> cell_ix width (y, x) < length buffer
    \<and> buffer' = buffer[cell_ix width (y, x) := c]
    \<and> changed' = (if c \<noteq> buffer ! cell_ix width (y, x)
                    then changed[cell_ix width (y, x) := True] else changed)"
  using assms by (auto simp add: store_cell_def cell_ix_def Let_def split: if_splits)

lemma store_loop_total:
  assumes "\<forall>c \<in> set cs. in_frame width (length buffer) c \<and> in_frame width (length changed) c"
  shows "\<exists>buffer' changed'.
           for_each (\<lambda>(y, x). store_cell width (f y x) y x) cs (buffer, changed)
             = Some (buffer', changed')"
  using assms
proof (induction cs arbitrary: buffer changed)
  case Nil
  show ?case by simp
next
  case (Cons a cs)
  obtain y x where a: "a = (y, x)" by (cases a)
  from Cons.prems a
  have "in_frame width (length buffer) (y, x)" "in_frame width (length changed) (y, x)"
    by simp_all
  from store_cell_in [OF this, of "f y x"]
  obtain b1 c1 where st: "store_cell width (f y x) y x (buffer, changed) = Some (b1, c1)"
    and len: "length b1 = length buffer" "length c1 = length changed"
    by (cases "f y x \<noteq> buffer ! cell_ix width (y, x)") simp_all
  from Cons.prems len
  have "\<forall>c \<in> set cs. in_frame width (length b1) c \<and> in_frame width (length c1) c"
    by simp
  from Cons.IH [OF this] show ?case
    by (simp add: a st)
qed

lemma store_loop_length:
  assumes "for_each (\<lambda>(y, x). store_cell width (f y x) y x) cs (buffer, changed)
             = Some (buffer', changed')"
  shows "length buffer' = length buffer \<and> length changed' = length changed"
  using assms
proof (induction cs arbitrary: buffer changed)
  case Nil
  then show ?case by simp
next
  case (Cons a cs)
  obtain y x where a: "a = (y, x)" by (cases a)
  from Cons.prems a obtain b1 c1 where
    st: "store_cell width (f y x) y x (buffer, changed) = Some (b1, c1)"
    and rest: "for_each (\<lambda>(y, x). store_cell width (f y x) y x) cs (b1, c1)
                 = Some (buffer', changed')"
    by (auto split: option.splits)
  from Cons.IH [OF rest] store_cell_Some [OF st] show ?case by simp
qed

text \<open>A cell that the loop does not visit keeps its character and its flag.\<close>

lemma store_loop_frame:
  assumes "for_each (\<lambda>(y, x). store_cell width (f y x) y x) cs (buffer, changed)
             = Some (buffer', changed')"
    and "i \<notin> cell_ix width ` set cs"
  shows "buffer' ! i = buffer ! i \<and> changed' ! i = changed ! i"
  using assms
proof (induction cs arbitrary: buffer changed)
  case Nil
  then show ?case by simp
next
  case (Cons a cs)
  obtain y x where a: "a = (y, x)" by (cases a)
  from Cons.prems a obtain b1 c1 where
    st: "store_cell width (f y x) y x (buffer, changed) = Some (b1, c1)"
    and rest: "for_each (\<lambda>(y, x). store_cell width (f y x) y x) cs (b1, c1)
                 = Some (buffer', changed')"
    by (auto split: option.splits)
  from Cons.prems a have ne: "i \<noteq> cell_ix width (y, x)"
    and notin: "i \<notin> cell_ix width ` set cs"
    by auto
  from store_cell_Some [OF st] ne have "b1 ! i = buffer ! i \<and> c1 ! i = changed ! i"
    by simp
  with Cons.IH [OF rest notin] show ?case by simp
qed

text \<open>
  A cell that the loop visits, once, ends with its new character, and with its flag set
  when that character differs from the old one.
\<close>

lemma store_loop_written:
  assumes "for_each (\<lambda>(y, x). store_cell width (f y x) y x) cs (buffer, changed)
             = Some (buffer', changed')"
    and "distinct (map (cell_ix width) cs)"
    and "(y, x) \<in> set cs"
  shows "buffer' ! cell_ix width (y, x) = f y x
       \<and> changed' ! cell_ix width (y, x)
           = (changed ! cell_ix width (y, x) \<or> f y x \<noteq> buffer ! cell_ix width (y, x))"
  using assms
proof (induction cs arbitrary: buffer changed)
  case Nil
  then show ?case by simp
next
  case (Cons a cs)
  obtain y' x' where a: "a = (y', x')" by (cases a)
  from Cons.prems(1) a obtain b1 c1 where
    st: "store_cell width (f y' x') y' x' (buffer, changed) = Some (b1, c1)"
    and rest: "for_each (\<lambda>(y, x). store_cell width (f y x) y x) cs (b1, c1)
                 = Some (buffer', changed')"
    by (auto split: option.splits)
  note s = store_cell_Some [OF st]
  from Cons.prems(2) a have notin: "cell_ix width (y', x') \<notin> cell_ix width ` set cs"
    and dist: "distinct (map (cell_ix width) cs)"
    by auto
  show ?case
  proof (cases "(y, x) \<in> set cs")
    case True
    then have "cell_ix width (y, x) \<in> cell_ix width ` set cs"
      by (rule imageI)
    with notin have ne: "cell_ix width (y, x) \<noteq> cell_ix width (y', x')"
      by metis
    from s ne have "b1 ! cell_ix width (y, x) = buffer ! cell_ix width (y, x)"
      "c1 ! cell_ix width (y, x) = changed ! cell_ix width (y, x)"
      by simp_all
    with Cons.IH [OF rest dist True] show ?thesis by simp
  next
    case False
    with Cons.prems(3) a have eq: "y = y'" "x = x'" by auto
    from s have "cell_ix width (y', x') < length changed
        \<or> f y' x' = buffer ! cell_ix width (y', x')"
      using st by (auto simp add: store_cell_def cell_ix_def Let_def split: if_splits)
    with s have "b1 ! cell_ix width (y', x') = f y' x'"
      "c1 ! cell_ix width (y', x')
         = (changed ! cell_ix width (y', x') \<or> f y' x' \<noteq> buffer ! cell_ix width (y', x'))"
      by auto
    with store_loop_frame [OF rest notin] show ?thesis
      by (simp add: eq)
  qed
qed

text \<open>A buffer that already holds every new character is left as it is, flags included.\<close>

lemma store_loop_fixpoint:
  assumes "\<forall>c \<in> set cs. in_frame width (length buffer) c
             \<and> buffer ! cell_ix width c = f (fst c) (snd c)"
  shows "for_each (\<lambda>(y, x). store_cell width (f y x) y x) cs (buffer, changed)
             = Some (buffer, changed)"
  using assms
  by (induction cs) (auto simp add: store_cell_def in_frame_def cell_ix_def Let_def)

section \<open>The grid and the sub-rectangle\<close>

lemma adjusted_height_le: "snd (adjusted width height) \<le> height"
  by (simp add: adjusted_def Let_def)

lemma adjusted_width_le:
  assumes "0 < snd (adjusted width height)"
  shows "fst (adjusted width height) \<le> width"
proof (cases "static_cast_int (real_of_int width / targetAspectRatio) > height")
  case False
  then show ?thesis by (simp add: adjusted_def Let_def)
next
  case True
  with assms have h: "0 < height"
    and a: "fst (adjusted width height) = static_cast_int (real_of_int height * targetAspectRatio)"
    by (simp_all add: adjusted_def Let_def)
  from True h have "0 < static_cast_int (real_of_int width / targetAspectRatio)" by simp
  from static_cast_int_pos [OF this] True
  have "height + 1 \<le> \<lfloor>real_of_int width / targetAspectRatio\<rfloor>"
    by simp
  then have "real_of_int (height + 1) \<le> real_of_int width / targetAspectRatio"
    by (simp only: le_floor_iff)
  then have "real_of_int (height + 1) * 16 \<le> real_of_int width * 9"
    by (simp add: targetAspectRatio_def)
  then have le: "real_of_int height * 16 / 9 \<le> real_of_int width"
    by simp
  from h have "0 \<le> real_of_int height * targetAspectRatio"
    by (simp add: targetAspectRatio_def)
  then have "static_cast_int (real_of_int height * targetAspectRatio)
      = \<lfloor>real_of_int height * 16 / 9\<rfloor>"
    by (simp add: static_cast_int_def targetAspectRatio_def)
  also have "\<dots> \<le> width"
    using le by (simp add: floor_le_iff)
  finally show ?thesis by (simp add: a)
qed

lemma sub_cells_iff:
  "(y, x) \<in> set (sub_cells width height) \<longleftrightarrow>
     0 \<le> y \<and> y < snd (adjusted width height) \<and> 0 \<le> x \<and> x < fst (adjusted width height)"
  by (auto simp add: sub_cells_def)

lemma grid_index_bound:
  fixes x y width height :: int
  assumes "0 \<le> y" "y < height" "0 \<le> x" "x < width"
  shows "0 \<le> y * width + x \<and> y * width + x < width * height"
proof -
  from assms have w: "0 < width" by simp
  from assms w have "0 \<le> y * width" by simp
  with assms have lo: "0 \<le> y * width + x" by simp
  from assms have "y + 1 \<le> height" by simp
  with w have "(y + 1) * width \<le> height * width"
    by (simp only: mult_right_mono less_imp_le)
  with assms show ?thesis using lo by (simp add: algebra_simps)
qed

lemma grid_index_inj:
  fixes x y x' y' width :: int
  assumes "0 \<le> x" "x < width" "0 \<le> x'" "x' < width" "y * width + x = y' * width + x'"
  shows "y = y' \<and> x = x'"
proof -
  from assms have w: "width \<noteq> 0" by auto
  have d: "(y * width + x) div width = y" if "0 \<le> x" "x < width" for x y :: int
    using that w by (simp add: div_pos_pos_trivial)
  from d [OF assms(1,2), of y] d [OF assms(3,4), of y'] assms(5) have "y = y'" by simp
  with assms show ?thesis by simp
qed

lemma sub_cells_in_grid:
  assumes "(y, x) \<in> set (sub_cells width height)"
  shows "0 \<le> y \<and> y < height \<and> 0 \<le> x \<and> x < width"
proof -
  from assms have r: "0 \<le> y" "y < snd (adjusted width height)"
    "0 \<le> x" "x < fst (adjusted width height)"
    by (simp_all add: sub_cells_iff)
  then have "0 < snd (adjusted width height)" by simp
  from adjusted_width_le [OF this] adjusted_height_le [of width height] r
  show ?thesis by simp
qed

lemma sub_cells_in_frame:
  assumes "c \<in> set (sub_cells width height)" "width * height \<le> int n"
  shows "in_frame width n c"
proof -
  obtain y x where c: "c = (y, x)" by (cases c)
  from sub_cells_in_grid [OF assms(1) [unfolded c]]
  have "0 \<le> y" "y < height" "0 \<le> x" "x < width" by simp_all
  from grid_index_bound [OF this] assms(2) show ?thesis
    by (simp add: in_frame_def c)
qed

lemma grid_cells_in_frame:
  assumes "c \<in> set (grid_cells width height)" "width * height \<le> int n"
  shows "in_frame width n c"
proof -
  obtain y x where c: "c = (y, x)" by (cases c)
  from assms c have "0 \<le> y" "y < height" "0 \<le> x" "x < width"
    by (simp_all add: grid_cells_def)
  from grid_index_bound [OF this] assms(2) show ?thesis
    by (simp add: in_frame_def c)
qed

lemma cell_ix_inj:
  assumes g: "0 \<le> y" "y < height" "0 \<le> x" "x < width"
    and g': "0 \<le> y'" "y' < height" "0 \<le> x'" "x' < width"
    and eq: "cell_ix width (y, x) = cell_ix width (y', x')"
  shows "y = y' \<and> x = x'"
proof -
  from grid_index_bound [OF g] grid_index_bound [OF g'] eq
  have "y * width + x = y' * width + x'"
    by (simp add: cell_ix_def nat_eq_iff)
  from grid_index_inj [OF g(3,4) g'(3,4) this] show ?thesis .
qed

lemma sub_cells_distinct: "distinct (map (cell_ix width) (sub_cells width height))"
proof -
  have d: "distinct (sub_cells width height)"
    by (simp add: sub_cells_def distinct_product)
  have "inj_on (cell_ix width) (set (sub_cells width height))"
  proof (rule inj_onI)
    fix c c'
    assume m: "c \<in> set (sub_cells width height)" "c' \<in> set (sub_cells width height)"
      and eq: "cell_ix width c = cell_ix width c'"
    obtain y x where c: "c = (y, x)" by (cases c)
    obtain y' x' where c': "c' = (y', x')" by (cases c')
    from sub_cells_in_grid [OF m(1) [unfolded c]]
    have g: "0 \<le> y" "y < height" "0 \<le> x" "x < width" by simp_all
    from sub_cells_in_grid [OF m(2) [unfolded c']]
    have g': "0 \<le> y'" "y' < height" "0 \<le> x'" "x' < width" by simp_all
    from cell_ix_inj [OF g g' eq [unfolded c c']] show "c = c'"
      by (simp add: c c')
  qed
  with d show ?thesis by (simp add: distinct_map)
qed

lemma outside_not_written:
  assumes g: "0 \<le> y" "y < height" "0 \<le> x" "x < width"
    and out: "fst (adjusted width height) \<le> x \<or> snd (adjusted width height) \<le> y"
  shows "cell_ix width (y, x) \<notin> cell_ix width ` set (sub_cells width height)"
proof
  assume "cell_ix width (y, x) \<in> cell_ix width ` set (sub_cells width height)"
  then obtain y' x' where m: "(y', x') \<in> set (sub_cells width height)"
    and eq: "cell_ix width (y, x) = cell_ix width (y', x')"
    by auto
  from sub_cells_in_grid [OF m]
  have g': "0 \<le> y'" "y' < height" "0 \<le> x'" "x' < width" by simp_all
  from cell_ix_inj [OF g g' eq] m out show False
    by (simp add: sub_cells_iff)
qed

section \<open>The renderer and the display writer as loops over cells\<close>

lemma render_cells:
  "render width height camera (buffer, changed) =
     for_each (\<lambda>(y, x). store_cell width (newChar width height camera x y) y x)
       (sub_cells width height) (buffer, replicate (length changed) False)"
  by (simp add: render_def Let_def sub_cells_def
      for_each_nested [of "\<lambda>y x. store_cell width (newChar width height camera x y) y x"])

text \<open>On buffers that hold the whole grid, \<^verbatim>\<open>render\<close> returns.\<close>

lemma render_total:
  assumes "width * height \<le> int (length buffer)" "width * height \<le> int (length changed)"
  shows "\<exists>buffer' changed'.
           render width height camera (buffer, changed) = Some (buffer', changed')"
proof -
  have "\<forall>c \<in> set (sub_cells width height).
          in_frame width (length buffer) c
          \<and> in_frame width (length (replicate (length changed) False)) c"
    using assms by (simp add: sub_cells_in_frame)
  from store_loop_total [OF this] show ?thesis
    by (simp only: render_cells)
qed

lemma render_length:
  assumes "render width height camera (buffer, changed) = Some (buffer', changed')"
  shows "length buffer' = length buffer \<and> length changed' = length changed"
  using store_loop_length [OF assms [unfolded render_cells]] by simp

lemma render_inside:
  assumes r: "render width height camera (buffer, changed) = Some (buffer', changed')"
    and c: "0 \<le> x" "x < fst (adjusted width height)" "0 \<le> y" "y < snd (adjusted width height)"
  shows "buffer' ! nat (y * width + x) = newChar width height camera x y"
proof -
  from c have "(y, x) \<in> set (sub_cells width height)"
    by (simp add: sub_cells_iff)
  from store_loop_written [OF r [unfolded render_cells] sub_cells_distinct this]
  show ?thesis by (simp add: cell_ix_def)
qed

lemma display_cell_in:
  assumes "in_frame width (length buffer) (y, x)" "in_frame width (length changed) (y, x)"
  shows "display_cell width buffer changed y x out
           = Some (out @ cell_update width buffer changed (y, x))"
  using assms by (simp add: display_cell_def cell_update_def in_frame_def cell_ix_def Let_def)

lemma display_loop:
  assumes "\<forall>c \<in> set cs. in_frame width (length buffer) c \<and> in_frame width (length changed) c"
  shows "for_each (\<lambda>(y, x). display_cell width buffer changed y x) cs out
           = Some (out @ concat (map (cell_update width buffer changed) cs))"
  using assms
proof (induction cs arbitrary: out)
  case Nil
  show ?case by simp
next
  case (Cons a cs)
  obtain y x where a: "a = (y, x)" by (cases a)
  from Cons.prems a
  have "in_frame width (length buffer) (y, x)" "in_frame width (length changed) (y, x)"
    by simp_all
  note step = display_cell_in [OF this]
  from Cons.prems
  have "\<forall>c \<in> set cs. in_frame width (length buffer) c \<and> in_frame width (length changed) c"
    by simp
  from Cons.IH [OF this] show ?case
    by (simp add: a step)
qed

lemma displayBuffer_cells:
  "displayBuffer width height buffer changed
     = for_each (\<lambda>(y, x). display_cell width buffer changed y x) (grid_cells width height) []"
  by (simp add: displayBuffer_def grid_cells_def
      for_each_nested [of "\<lambda>y x. display_cell width buffer changed y x"])

lemma cell_update_two_chars:
  assumes "changed ! cell_ix width c \<longrightarrow> buffer ! cell_ix width c \<in> {CHR ''*'', CHR '' ''}"
  shows "cell_update width buffer changed c = cell_update_spec width buffer changed c"
  using assms by (auto simp add: cell_update_def cell_update_spec_def)

section \<open>Normalization and reflection lemmas\<close>

lemma normalize_vec_magnitude:
  "normalize_vec a =
     Vec3 (fdiv (vx a) (magnitude a)) (fdiv (vy a) (magnitude a)) (fdiv (vz a) (magnitude a))"
  by (simp add: normalize_vec_def magnitude_def Let_def)

lemma fmul_1_1: "fmul 1 1 = 1"
  using round_f32_near [of 0 "1" 8388608] by (simp add: fmul_def)

lemma fmul_self_nonneg: "0 \<le> fmul a a"
  by (simp add: fmul_def round_f32_nonneg)

text \<open>
  The magnitude of \<open>(u, v, 1)\<close> is at least 1 after every rounding: the two squares are
  rounded to numbers that are not negative, and no rounding takes a number from 1 onwards
  below 1.
\<close>

lemma magnitude_forward:
  "1 \<le> magnitude (Vec3 u v 1)"
proof -
  have "0 \<le> fmul u u + fmul v v"
    using fmul_self_nonneg [of u] fmul_self_nonneg [of v] by simp
  then have "0 \<le> fadd (fmul u u) (fmul v v)"
    by (simp add: fadd_def round_f32_nonneg)
  then have "1 \<le> fadd (fmul u u) (fmul v v) + 1"
    by simp
  then have "1 \<le> fadd (fadd (fmul u u) (fmul v v)) 1"
    unfolding fadd_def [of "fadd (fmul u u) (fmul v v)" 1] by (rule round_f32_ge_one)
  then have "1 \<le> sqrt (fadd (fadd (fmul u u) (fmul v v)) 1)"
    by simp
  then have "1 \<le> fsqrt (fadd (fadd (fmul u u) (fmul v v)) 1)"
    unfolding fsqrt_def by (rule round_f32_ge_one)
  then show ?thesis
    by (simp add: magnitude_def fmul_1_1)
qed

lemma floor_dist_reflection:
  "floor_dist hitPoint (reflection_ray ray hitPoint normal) =
     fdiv (- vy hitPoint)
       (vy (normalize_vec
              (vsub (direction ray) (vscale (vscale normal 2) (dot (direction ray) normal)))))"
  by (simp add: floor_dist_def reflection_ray_def reflectionDir_def mkRay_def)

lemma floor_point_reflection:
  "floor_point hitPoint (reflection_ray ray hitPoint normal) =
     vadd hitPoint
       (vscale (normalize_vec
                  (vsub (direction ray) (vscale (vscale normal 2) (dot (direction ray) normal))))
          (floor_dist hitPoint (reflection_ray ray hitPoint normal)))"
  by (simp add: floor_point_def reflection_ray_def reflectionDir_def mkRay_def)

section \<open>The palette at some intensities\<close>

lemma fmul_1_6: "fmul 1 6 = 6"
  using round_f32_near [of 2 "6" 12582912] by (simp add: fmul_def)

lemma fmul_5_16: "fmul (5 / 16) 6 = 15 / 8"
  using round_f32_near [of 0 "15 / 8" 15728640] by (simp add: fmul_def)

text \<open>
  The exact product is \<open>41943039/8388608\<close>, below 5 by less than half a unit in the last
  place: it is rounded to 5.
\<close>

lemma fmul_rounds_up: "fmul (13981013 / 16777216) 6 = 5"
  using round_f32_near [of 2 "41943039 / 8388608" 10485760] by (simp add: fmul_def)


lemma getShade_floor_tile:
  "getShade 1 (isCheckerboard p)
     = (if even (\<lfloor>vx p\<rfloor> + \<lfloor>vz p\<rfloor>) then CHR ''*'' else CHR '' '')"
  by (simp add: getShade_clamp isCheckerboard_even clamp01_def fmul_1_6 shades_def)

section \<open>The program's grid\<close>

lemma adjusted_200_250: "adjusted 200 250 = (200, 112)"
  by (simp add: adjusted_def targetAspectRatio_def static_cast_int_def Let_def)

text \<open>
  Line 73 in binary32: \<open>16/9\<close> is rounded to \<open>14913081/8388608\<close>, the quotient of 200 by it
  to \<open>112.5\<close>, and the integer part is the 112 of the exact quotient.
\<close>

lemma adjusted_binary32_200_250:
  "static_cast_int (fdiv (float_of_int 200) (fdiv 16 9)) = snd (adjusted 200 250)"
proof -
  have [simp]: "fdiv 16 9 = 14913081 / 8388608"
    using round_f32_near [of 0 "16 / 9" 14913081] by (simp add: fdiv_def)
  have [simp]: "float_of_int 200 = 200"
    using round_f32_near [of 7 "200" 13107200] by (simp add: float_of_int_def)
  have [simp]: "fdiv 200 (14913081 / 8388608) = 225 / 2"
    using round_f32_near [of 6 "1677721600 / 14913081" 14745600] by (simp add: fdiv_def)
  show ?thesis
    by (simp add: adjusted_200_250 static_cast_int_def)
qed

lemma in_sub_rectangle_200_250:
  "in_sub_rectangle 200 250 x y \<longleftrightarrow> 0 \<le> x \<and> x < 200 \<and> 0 \<le> y \<and> y < 112"
  by (simp add: in_sub_rectangle_def adjusted_200_250)

lemma grid_cells_1_1: "grid_cells 1 1 = [(0, 0)]"
  by (simp add: grid_cells_def upto.simps)

section \<open>The computation of some cells, operation by operation\<close>

text \<open>
  The centre cell \<open>(100, 56)\<close> of the program's grid seen from \<open>(0, 2.5, 1.5)\<close>: the ray runs
  along \<open>(0, 0, 1)\<close>, hits the sphere after a distance below 1 and is reflected upwards.
\<close>

lemma sky_cell:
  shows sky_cell_ray: "camera_ray 200 250 (Vec3 0 (5 / 2) (3 / 2)) 100 56 = \<lparr>origin =
     Vec3 0 (5 / 2) (3 / 2), direction = Vec3 0 0 1\<rparr>"
    and sky_cell_hit: "intersect scene_sphere (camera_ray 200 250 (Vec3 0 (5 / 2) (3 / 2)) 100
     56) = Some (10636329 / 16777216, Vec3 0 (5 / 2) (4475269 / 2097152), Vec3 0 (1 / 2) (-
     (1816187 / 2097152)))"
    and sky_cell_mag: "magnitude (vsub (Vec3 0 (5 / 2) (4475269 / 2097152)) (center
     scene_sphere)) = 1"
    and sky_cell_mirror: "Vec3 0 (1816187 / 2097152) (- (4194305 / 8388608)) = vsub (direction
     (camera_ray 200 250 (Vec3 0 (5 / 2) (3 / 2)) 100 56)) (vscale (vscale (Vec3 0 (1 / 2) (-
     (1816187 / 2097152))) 2) (dot (direction (camera_ray 200 250 (Vec3 0 (5 / 2) (3 / 2)) 100
     56)) (Vec3 0 (1 / 2) (- (1816187 / 2097152)))))"
    and sky_cell_dir: "Vec3 0 (7264747 / 8388608) (- (8388609 / 16777216)) = normalize_vec
     (Vec3 0 (1816187 / 2097152) (- (4194305 / 8388608)))"
    and sky_cell_quot: "- (6053957 / 2097152) = fdiv (- vy (Vec3 0 (5 / 2) (4475269 /
     2097152))) (vy (Vec3 0 (7264747 / 8388608) (- (8388609 / 16777216))))"
    and sky_cell_spec_dist: "floor_dist_spec (Vec3 0 (5 / 2) (4475269 / 2097152)) (Vec3 0
     (1816187 / 2097152) (- (4194305 / 8388608))) = - (1513489 / 524288)"
    and sky_cell_char: "newChar 200 250 (Vec3 0 (5 / 2) (3 / 2)) 100 56 = CHR ''-''"
proof -
  have [simp]: "float_of_int 200 = 200"
    using round_f32_near [of 7 "200" 13107200] by (simp add: float_of_int_def)
  have [simp]: "float_of_int 250 = 250"
    using round_f32_near [of 7 "250" 16384000] by (simp add: float_of_int_def)
  have [simp]: "fdiv 200 250 = 13421773 / 16777216"
    using round_f32_near [of "- 1" "4 / 5" 13421773] by (simp add: fdiv_def)
  have [simp]: "float_of_int 100 = 100"
    using round_f32_near [of 6 "100" 13107200] by (simp add: float_of_int_def)
  have [simp]: "fdiv 200 2 = 100"
    using round_f32_near [of 6 "100" 13107200] by (simp add: fdiv_def)
  have [simp]: "fsub 100 100 = 0"
    by (simp add: fsub_def round_f32_zero)
  have [simp]: "fdiv 0 200 = 0"
    by (simp add: fdiv_def round_f32_zero)
  have [simp]: "fmul 0 (13421773 / 16777216) = 0"
    by (simp add: fmul_def round_f32_zero)
  have [simp]: "float_of_int 112 = 112"
    using round_f32_near [of 6 "112" 14680064] by (simp add: float_of_int_def)
  have [simp]: "fdiv 112 2 = 56"
    using round_f32_near [of 5 "56" 14680064] by (simp add: fdiv_def)
  have [simp]: "float_of_int 56 = 56"
    using round_f32_near [of 5 "56" 14680064] by (simp add: float_of_int_def)
  have [simp]: "fsub 56 56 = 0"
    by (simp add: fsub_def round_f32_zero)
  have [simp]: "fdiv 0 112 = 0"
    by (simp add: fdiv_def round_f32_zero)
  have [simp]: "fmul 0 0 = 0"
    by (simp add: fmul_def round_f32_zero)
  have [simp]: "fadd 0 0 = 0"
    by (simp add: fadd_def round_f32_zero)
  have [simp]: "fmul 1 1 = 1"
    using round_f32_near [of 0 "1" 8388608] by (simp add: fmul_def)
  have [simp]: "fadd 0 1 = 1"
    using round_f32_near [of 0 "1" 8388608] by (simp add: fadd_def)
  have [simp]: "fsqrt 1 = 1"
    using fsqrt_near [of 0 8388608 "1"] by simp
  have [simp]: "fdiv 0 1 = 0"
    by (simp add: fdiv_def round_f32_zero)
  have [simp]: "fdiv 1 1 = 1"
    using round_f32_near [of 0 "1" 8388608] by (simp add: fdiv_def)
  have [simp]: "fsub 0 0 = 0"
    by (simp add: fsub_def round_f32_zero)
  have [simp]: "fsub (5 / 2) 2 = 1 / 2"
    using round_f32_near [of "- 1" "1 / 2" 8388608] by (simp add: fsub_def)
  have [simp]: "fsub (3 / 2) 3 = - (3 / 2)"
    using round_f32_near [of 0 "- (3 / 2)" "- 12582912"] by (simp add: fsub_def)
  have [simp]: "fmul (1 / 2) 0 = 0"
    by (simp add: fmul_def round_f32_zero)
  have [simp]: "fmul (- (3 / 2)) 1 = - (3 / 2)"
    using round_f32_near [of 0 "- (3 / 2)" "- 12582912"] by (simp add: fmul_def)
  have [simp]: "fadd 0 (- (3 / 2)) = - (3 / 2)"
    using round_f32_near [of 0 "- (3 / 2)" "- 12582912"] by (simp add: fadd_def)
  have [simp]: "fmul 2 (- (3 / 2)) = - 3"
    using round_f32_near [of 1 "- 3" "- 12582912"] by (simp add: fmul_def)
  have [simp]: "fmul (1 / 2) (1 / 2) = 1 / 4"
    using round_f32_near [of "- 2" "1 / 4" 8388608] by (simp add: fmul_def)
  have [simp]: "fadd 0 (1 / 4) = 1 / 4"
    using round_f32_near [of "- 2" "1 / 4" 8388608] by (simp add: fadd_def)
  have [simp]: "fmul (- (3 / 2)) (- (3 / 2)) = 9 / 4"
    using round_f32_near [of 1 "9 / 4" 9437184] by (simp add: fmul_def)
  have [simp]: "fadd (1 / 4) (9 / 4) = 5 / 2"
    using round_f32_near [of 1 "5 / 2" 10485760] by (simp add: fadd_def)
  have [simp]: "fsub (5 / 2) 1 = 3 / 2"
    using round_f32_near [of 0 "3 / 2" 12582912] by (simp add: fsub_def)
  have [simp]: "fmul (- 3) (- 3) = 9"
    using round_f32_near [of 3 "9" 9437184] by (simp add: fmul_def)
  have [simp]: "fmul 4 1 = 4"
    using round_f32_near [of 2 "4" 8388608] by (simp add: fmul_def)
  have [simp]: "fmul 4 (3 / 2) = 6"
    using round_f32_near [of 2 "6" 12582912] by (simp add: fmul_def)
  have [simp]: "fsub 9 6 = 3"
    using round_f32_near [of 1 "3" 12582912] by (simp add: fsub_def)
  have [simp]: "fsqrt 3 = 14529495 / 8388608"
    using fsqrt_near [of 0 14529495 "3"] by simp
  have [simp]: "fsub 3 (14529495 / 8388608) = 10636329 / 8388608"
    using round_f32_near [of 0 "10636329 / 8388608" 10636329] by (simp add: fsub_def)
  have [simp]: "fmul 2 1 = 2"
    using round_f32_near [of 1 "2" 8388608] by (simp add: fmul_def)
  have [simp]: "fdiv (10636329 / 8388608) 2 = 10636329 / 16777216"
    using round_f32_near [of "- 1" "10636329 / 16777216" 10636329] by (simp add: fdiv_def)
  have [simp]: "fmul 0 (10636329 / 16777216) = 0"
    by (simp add: fmul_def round_f32_zero)
  have [simp]: "fmul 1 (10636329 / 16777216) = 10636329 / 16777216"
    using round_f32_near [of "- 1" "10636329 / 16777216" 10636329] by (simp add: fmul_def)
  have [simp]: "fadd (5 / 2) 0 = 5 / 2"
    using round_f32_near [of 1 "5 / 2" 10485760] by (simp add: fadd_def)
  have [simp]: "fadd (3 / 2) (10636329 / 16777216) = 4475269 / 2097152"
    using round_f32_near [of 1 "35802153 / 16777216" 8950538] by (simp add: fadd_def)
  have [simp]: "fsub (4475269 / 2097152) 3 = - (1816187 / 2097152)"
    using round_f32_near [of "- 1" "- (1816187 / 2097152)" "- 14529496"] by (simp add: fsub_def)
  have [simp]: "fmul (- (1816187 / 2097152)) (- (1816187 / 2097152)) = 12582913 / 16777216"
    using round_f32_near [of "- 1" "3298535218969 / 4398046511104" 12582913] by (simp add: fmul_def)
  have [simp]: "fadd (1 / 4) (12582913 / 16777216) = 1"
    using round_f32_tie [of 0 "16777217 / 16777216" 8388608] by (simp add: fadd_def)
  have [simp]: "fdiv (1 / 2) 1 = 1 / 2"
    using round_f32_near [of "- 1" "1 / 2" 8388608] by (simp add: fdiv_def)
  have [simp]: "fdiv (- (1816187 / 2097152)) 1 = - (1816187 / 2097152)"
    using round_f32_near [of "- 1" "- (1816187 / 2097152)" "- 14529496"] by (simp add: fdiv_def)
  have [simp]: "fmul 0 2 = 0"
    by (simp add: fmul_def round_f32_zero)
  have [simp]: "fmul (1 / 2) 2 = 1"
    using round_f32_near [of 0 "1" 8388608] by (simp add: fmul_def)
  have [simp]: "fmul (- (1816187 / 2097152)) 2 = - (1816187 / 1048576)"
    using round_f32_near [of 0 "- (1816187 / 1048576)" "- 14529496"] by (simp add: fmul_def)
  have [simp]: "fmul 0 (1 / 2) = 0"
    by (simp add: fmul_def round_f32_zero)
  have [simp]: "fmul 1 (- (1816187 / 2097152)) = - (1816187 / 2097152)"
    using round_f32_near [of "- 1" "- (1816187 / 2097152)" "- 14529496"] by (simp add: fmul_def)
  have [simp]: "fadd 0 (- (1816187 / 2097152)) = - (1816187 / 2097152)"
    using round_f32_near [of "- 1" "- (1816187 / 2097152)" "- 14529496"] by (simp add: fadd_def)
  have [simp]: "fmul 0 (- (1816187 / 2097152)) = 0"
    by (simp add: fmul_def round_f32_zero)
  have [simp]: "fmul (- (1816187 / 1048576)) (- (1816187 / 2097152)) = 12582913 / 8388608"
    using round_f32_near [of 0 "3298535218969 / 2199023255552" 12582913] by (simp add: fmul_def)
  have [simp]: "fsub 0 (- (1816187 / 2097152)) = 1816187 / 2097152"
    using round_f32_near [of "- 1" "1816187 / 2097152" 14529496] by (simp add: fsub_def)
  have [simp]: "fsub 1 (12582913 / 8388608) = - (4194305 / 8388608)"
    using round_f32_near [of "- 1" "- (4194305 / 8388608)" "- 8388610"] by (simp add: fsub_def)
  have [simp]: "fmul (1816187 / 2097152) (1816187 / 2097152) = 12582913 / 16777216"
    using round_f32_near [of "- 1" "3298535218969 / 4398046511104" 12582913] by (simp add: fmul_def)
  have [simp]: "fadd 0 (12582913 / 16777216) = 12582913 / 16777216"
    using round_f32_near [of "- 1" "12582913 / 16777216" 12582913] by (simp add: fadd_def)
  have [simp]: "fmul (- (4194305 / 8388608)) (- (4194305 / 8388608)) = 2097153 / 8388608"
    using round_f32_near [of "- 2" "17592194433025 / 70368744177664" 8388612] by (simp add: fmul_def)
  have [simp]: "fadd (12582913 / 16777216) (2097153 / 8388608) = 4194305 / 4194304"
    using round_f32_tie [of 0 "16777219 / 16777216" 8388610] by (simp add: fadd_def)
  have [simp]: "fsqrt (4194305 / 4194304) = 8388609 / 8388608"
    using fsqrt_near [of 0 8388609 "4194305 / 4194304"] by simp
  have [simp]: "fdiv 0 (8388609 / 8388608) = 0"
    by (simp add: fdiv_def round_f32_zero)
  have [simp]: "fdiv (1816187 / 2097152) (8388609 / 8388608) = 7264747 / 8388608"
    using round_f32_near [of "- 1" "7264748 / 8388609" 14529494] by (simp add: fdiv_def)
  have [simp]: "fdiv (- (4194305 / 8388608)) (8388609 / 8388608) = - (8388609 / 16777216)"
    using round_f32_near [of "- 1" "- (4194305 / 8388609)" "- 8388609"] by (simp add: fdiv_def)
  have [simp]: "fdiv (- (5 / 2)) (7264747 / 8388608) = - (6053957 / 2097152)"
    using round_f32_near [of 1 "- (20971520 / 7264747)" "- 12107914"] by (simp add: fdiv_def)
  have [simp]: "fmul (10636329 / 16777216) 6 = 7977247 / 2097152"
    using round_f32_tie [of 1 "31908987 / 8388608" 15954494] by (simp add: fmul_def)
  have [simp]: "fdiv (- (5 / 2)) (1816187 / 2097152) = - (1513489 / 524288)"
    using round_f32_near [of 1 "- (5242880 / 1816187)" "- 12107912"] by (simp add: fdiv_def)
  show ray: "camera_ray 200 250 (Vec3 0 (5 / 2) (3 / 2)) 100 56 = \<lparr>origin = Vec3 0 (5 /
     2) (3 / 2), direction = Vec3 0 0 1\<rparr>"
    by (simp add: camera_ray_def adjusted_200_250 view_u_def view_v_def mkRay_def normalize_vec_def)
  show hit: "intersect scene_sphere (camera_ray 200 250 (Vec3 0 (5 / 2) (3 / 2)) 100 56) = Some
     (10636329 / 16777216, Vec3 0 (5 / 2) (4475269 / 2097152), Vec3 0 (1 / 2) (- (1816187 /
     2097152)))"
    by (simp add: ray intersect_def scene_sphere_def vsub_def vadd_def vscale_def dot_def normalize_vec_def)
  show mag: "magnitude (vsub (Vec3 0 (5 / 2) (4475269 / 2097152)) (center scene_sphere)) = 1"
    by (simp add: magnitude_def scene_sphere_def vsub_def)
  show mirror: "Vec3 0 (1816187 / 2097152) (- (4194305 / 8388608)) = vsub (direction
     (camera_ray 200 250 (Vec3 0 (5 / 2) (3 / 2)) 100 56)) (vscale (vscale (Vec3 0 (1 / 2) (-
     (1816187 / 2097152))) 2) (dot (direction (camera_ray 200 250 (Vec3 0 (5 / 2) (3 / 2)) 100
     56)) (Vec3 0 (1 / 2) (- (1816187 / 2097152)))))"
    by (simp add: ray vsub_def vadd_def vscale_def dot_def)
  show dir: "Vec3 0 (7264747 / 8388608) (- (8388609 / 16777216)) = normalize_vec (Vec3 0
     (1816187 / 2097152) (- (4194305 / 8388608)))"
    by (simp add: normalize_vec_def)
  show quot: "- (6053957 / 2097152) = fdiv (- vy (Vec3 0 (5 / 2) (4475269 / 2097152))) (vy
     (Vec3 0 (7264747 / 8388608) (- (8388609 / 16777216))))"
    by simp
  have refl: "reflection_ray (camera_ray 200 250 (Vec3 0 (5 / 2) (3 / 2)) 100 56) (Vec3 0 (5 /
     2) (4475269 / 2097152)) (Vec3 0 (1 / 2) (- (1816187 / 2097152))) = \<lparr>origin = Vec3 0
     (5 / 2) (4475269 / 2097152), direction = Vec3 0 (7264747 / 8388608) (- (8388609 /
     16777216))\<rparr>"
    by (simp add: ray reflection_ray_def reflectionDir_def mkRay_def vsub_def vadd_def vscale_def dot_def normalize_vec_def)
  have dist: "floor_dist (Vec3 0 (5 / 2) (4475269 / 2097152)) (reflection_ray (camera_ray 200
     250 (Vec3 0 (5 / 2) (3 / 2)) 100 56) (Vec3 0 (5 / 2) (4475269 / 2097152)) (Vec3 0 (1 / 2)
     (- (1816187 / 2097152)))) = - (6053957 / 2097152)"
    by (simp add: refl floor_dist_def)
  show spec_dist: "floor_dist_spec (Vec3 0 (5 / 2) (4475269 / 2097152)) (Vec3 0 (1816187 /
     2097152) (- (4194305 / 8388608))) = - (1513489 / 524288)"
    by (simp add: floor_dist_spec_def)
  show char: "newChar 200 250 (Vec3 0 (5 / 2) (3 / 2)) 100 56 = CHR ''-''"
    by (simp add: newChar_def shade_ray_def hit dist getShade_def shades_def
        static_cast_int_def float_of_int_6)
qed

text \<open>
  The cell \<open>(100, 45)\<close> of the program's first frame, the camera at \<open>(0, 1, - 6)\<close>: the ray
  hits the sphere and its reflection reaches the floor.
\<close>

lemma floor_cell:
  shows floor_cell_ray: "camera_ray 200 250 (Vec3 0 1 (- 6)) 100 45 = \<lparr>origin = Vec3 0 1
     (- 6), direction = Vec3 0 (13118977 / 134217728) (16696881 / 16777216)\<rparr>"
    and floor_cell_hit: "intersect scene_sphere (camera_ray 200 250 (Vec3 0 1 (- 6)) 100 45) =
     Some (4226463 / 524288, Vec3 0 (7499195 / 4194304) (2120995 / 1048576), Vec3 0 (- (7115281
     / 33554432)) (- (16395675 / 16777216)))"
    and floor_cell_mag: "magnitude (vsub (Vec3 0 (7499195 / 4194304) (2120995 / 1048576))
     (center scene_sphere)) = 8388635 / 8388608"
    and floor_cell_mirror: "Vec3 0 (- (10855555 / 33554432)) (- (15874955 / 16777216)) = vsub
     (direction (camera_ray 200 250 (Vec3 0 1 (- 6)) 100 45)) (vscale (vscale (Vec3 0 (-
     (7115281 / 33554432)) (- (16395675 / 16777216))) 2) (dot (direction (camera_ray 200 250
     (Vec3 0 1 (- 6)) 100 45)) (Vec3 0 (- (7115281 / 33554432)) (- (16395675 / 16777216)))))"
    and floor_cell_dir: "Vec3 0 (- (10855555 / 33554432)) (- (15874955 / 16777216)) =
     normalize_vec (Vec3 0 (- (10855555 / 33554432)) (- (15874955 / 16777216)))"
    and floor_cell_quot: "11589975 / 2097152 = fdiv (- vy (Vec3 0 (7499195 / 4194304) (2120995
     / 1048576))) (vy (Vec3 0 (- (10855555 / 33554432)) (- (15874955 / 16777216))))"
    and floor_cell_cross: "Vec3 0 0 (- (420293 / 131072)) = vadd (Vec3 0 (7499195 / 4194304)
     (2120995 / 1048576)) (vscale (Vec3 0 (- (10855555 / 33554432)) (- (15874955 / 16777216)))
     (11589975 / 2097152))"
    and floor_cell_char: "newChar 200 250 (Vec3 0 1 (- 6)) 100 45 = CHR ''*''"
proof -
  have [simp]: "float_of_int 200 = 200"
    using round_f32_near [of 7 "200" 13107200] by (simp add: float_of_int_def)
  have [simp]: "float_of_int 250 = 250"
    using round_f32_near [of 7 "250" 16384000] by (simp add: float_of_int_def)
  have [simp]: "fdiv 200 250 = 13421773 / 16777216"
    using round_f32_near [of "- 1" "4 / 5" 13421773] by (simp add: fdiv_def)
  have [simp]: "float_of_int 100 = 100"
    using round_f32_near [of 6 "100" 13107200] by (simp add: float_of_int_def)
  have [simp]: "fdiv 200 2 = 100"
    using round_f32_near [of 6 "100" 13107200] by (simp add: fdiv_def)
  have [simp]: "fsub 100 100 = 0"
    by (simp add: fsub_def round_f32_zero)
  have [simp]: "fdiv 0 200 = 0"
    by (simp add: fdiv_def round_f32_zero)
  have [simp]: "fmul 0 (13421773 / 16777216) = 0"
    by (simp add: fmul_def round_f32_zero)
  have [simp]: "float_of_int 112 = 112"
    using round_f32_near [of 6 "112" 14680064] by (simp add: float_of_int_def)
  have [simp]: "fdiv 112 2 = 56"
    using round_f32_near [of 5 "56" 14680064] by (simp add: fdiv_def)
  have [simp]: "float_of_int 45 = 45"
    using round_f32_near [of 5 "45" 11796480] by (simp add: float_of_int_def)
  have [simp]: "fsub 56 45 = 11"
    using round_f32_near [of 3 "11" 11534336] by (simp add: fsub_def)
  have [simp]: "fdiv 11 112 = 6591049 / 67108864"
    using round_f32_near [of "- 4" "11 / 112" 13182098] by (simp add: fdiv_def)
  have [simp]: "fmul 0 0 = 0"
    by (simp add: fmul_def round_f32_zero)
  have [simp]: "fmul (6591049 / 67108864) (6591049 / 67108864) = 5178681 / 536870912"
    using round_f32_near [of "- 7" "43441926920401 / 4503599627370496" 10357362] by (simp add: fmul_def)
  have [simp]: "fadd 0 (5178681 / 536870912) = 5178681 / 536870912"
    using round_f32_near [of "- 7" "5178681 / 536870912" 10357362] by (simp add: fadd_def)
  have [simp]: "fmul 1 1 = 1"
    using round_f32_near [of 0 "1" 8388608] by (simp add: fmul_def)
  have [simp]: "fadd (5178681 / 536870912) 1 = 8469525 / 8388608"
    using round_f32_near [of 0 "542049593 / 536870912" 8469525] by (simp add: fadd_def)
  have [simp]: "fsqrt (8469525 / 8388608) = 8428969 / 8388608"
    using fsqrt_near [of 0 8428969 "8469525 / 8388608"] by simp
  have [simp]: "fdiv 0 (8428969 / 8388608) = 0"
    by (simp add: fdiv_def round_f32_zero)
  have [simp]: "fdiv (6591049 / 67108864) (8428969 / 8388608) = 13118977 / 134217728"
    using round_f32_near [of "- 4" "6591049 / 67431752" 13118977] by (simp add: fdiv_def)
  have [simp]: "fdiv 1 (8428969 / 8388608) = 16696881 / 16777216"
    using round_f32_near [of "- 1" "8388608 / 8428969" 16696881] by (simp add: fdiv_def)
  have [simp]: "fsub 0 0 = 0"
    by (simp add: fsub_def round_f32_zero)
  have [simp]: "fsub 1 2 = - 1"
    using round_f32_near [of 0 "- 1" "- 8388608"] by (simp add: fsub_def)
  have [simp]: "fsub (- 6) 3 = - 9"
    using round_f32_near [of 3 "- 9" "- 9437184"] by (simp add: fsub_def)
  have [simp]: "fmul (13118977 / 134217728) (13118977 / 134217728) = 5129205 / 536870912"
    using round_f32_near [of "- 7" "172107557526529 / 18014398509481984" 10258410] by (simp add: fmul_def)
  have [simp]: "fadd 0 (5129205 / 536870912) = 5129205 / 536870912"
    using round_f32_near [of "- 7" "5129205 / 536870912" 10258410] by (simp add: fadd_def)
  have [simp]: "fmul (16696881 / 16777216) (16696881 / 16777216) = 16616931 / 16777216"
    using round_f32_near [of "- 1" "278785835128161 / 281474976710656" 16616931] by (simp add: fmul_def)
  have [simp]: "fadd (5129205 / 536870912) (16616931 / 16777216) = 8388609 / 8388608"
    using round_f32_near [of 0 "536870997 / 536870912" 8388609] by (simp add: fadd_def)
  have [simp]: "fmul (- 1) (13118977 / 134217728) = - (13118977 / 134217728)"
    using round_f32_near [of "- 4" "- (13118977 / 134217728)" "- 13118977"] by (simp add: fmul_def)
  have [simp]: "fadd 0 (- (13118977 / 134217728)) = - (13118977 / 134217728)"
    using round_f32_near [of "- 4" "- (13118977 / 134217728)" "- 13118977"] by (simp add: fadd_def)
  have [simp]: "fmul (- 9) (16696881 / 16777216) = - (2347999 / 262144)"
    using round_f32_near [of 3 "- (150271929 / 16777216)" "- 9391996"] by (simp add: fmul_def)
  have [simp]: "fadd (- (13118977 / 134217728)) (- (2347999 / 262144)) = - (1186811 / 131072)"
    using round_f32_near [of 3 "- (1215294465 / 134217728)" "- 9494488"] by (simp add: fadd_def)
  have [simp]: "fmul 2 (- (1186811 / 131072)) = - (1186811 / 65536)"
    using round_f32_near [of 4 "- (1186811 / 65536)" "- 9494488"] by (simp add: fmul_def)
  have [simp]: "fmul (- 1) (- 1) = 1"
    using round_f32_near [of 0 "1" 8388608] by (simp add: fmul_def)
  have [simp]: "fadd 0 1 = 1"
    using round_f32_near [of 0 "1" 8388608] by (simp add: fadd_def)
  have [simp]: "fmul (- 9) (- 9) = 81"
    using round_f32_near [of 6 "81" 10616832] by (simp add: fmul_def)
  have [simp]: "fadd 1 81 = 82"
    using round_f32_near [of 6 "82" 10747904] by (simp add: fadd_def)
  have [simp]: "fsub 82 1 = 81"
    using round_f32_near [of 6 "81" 10616832] by (simp add: fsub_def)
  have [simp]: "fmul (- (1186811 / 65536)) (- (1186811 / 65536)) = 10746157 / 32768"
    using round_f32_near [of 8 "1408520349721 / 4294967296" 10746157] by (simp add: fmul_def)
  have [simp]: "fmul 4 (8388609 / 8388608) = 8388609 / 2097152"
    using round_f32_near [of 2 "8388609 / 2097152" 8388609] by (simp add: fmul_def)
  have [simp]: "fmul (8388609 / 2097152) 81 = 10616833 / 32768"
    using round_f32_near [of 8 "679477329 / 2097152" 10616833] by (simp add: fmul_def)
  have [simp]: "fsub (10746157 / 32768) (10616833 / 32768) = 32331 / 8192"
    using round_f32_near [of 1 "32331 / 8192" 16553472] by (simp add: fsub_def)
  have [simp]: "fsqrt (32331 / 8192) = 16664969 / 8388608"
    using fsqrt_near [of 0 16664969 "32331 / 8192"] by simp
  have [simp]: "fsub (1186811 / 65536) (16664969 / 8388608) = 8452927 / 524288"
    using round_f32_near [of 4 "135246839 / 8388608" 8452927] by (simp add: fsub_def)
  have [simp]: "fmul 2 (8388609 / 8388608) = 8388609 / 4194304"
    using round_f32_near [of 1 "8388609 / 4194304" 8388609] by (simp add: fmul_def)
  have [simp]: "fdiv (8452927 / 524288) (8388609 / 4194304) = 4226463 / 524288"
    using round_f32_near [of 3 "67623416 / 8388609" 8452926] by (simp add: fdiv_def)
  have [simp]: "fmul 0 (4226463 / 524288) = 0"
    by (simp add: fmul_def round_f32_zero)
  have [simp]: "fmul (13118977 / 134217728) (4226463 / 524288) = 3304891 / 4194304"
    using round_f32_near [of "- 1" "55446870888351 / 70368744177664" 13219564] by (simp add: fmul_def)
  have [simp]: "fmul (16696881 / 16777216) (4226463 / 524288) = 8412451 / 1048576"
    using round_f32_near [of 3 "70568749761903 / 8796093022208" 8412451] by (simp add: fmul_def)
  have [simp]: "fadd 0 0 = 0"
    by (simp add: fadd_def round_f32_zero)
  have [simp]: "fadd 1 (3304891 / 4194304) = 7499195 / 4194304"
    using round_f32_near [of 0 "7499195 / 4194304" 14998390] by (simp add: fadd_def)
  have [simp]: "fadd (- 6) (8412451 / 1048576) = 2120995 / 1048576"
    using round_f32_near [of 1 "2120995 / 1048576" 8483980] by (simp add: fadd_def)
  have [simp]: "fsub (7499195 / 4194304) 2 = - (889413 / 4194304)"
    using round_f32_near [of "- 3" "- (889413 / 4194304)" "- 14230608"] by (simp add: fsub_def)
  have [simp]: "fsub (2120995 / 1048576) 3 = - (1024733 / 1048576)"
    using round_f32_near [of "- 1" "- (1024733 / 1048576)" "- 16395728"] by (simp add: fsub_def)
  have [simp]: "fmul (- (889413 / 4194304)) (- (889413 / 4194304)) = 12070549 / 268435456"
    using round_f32_near [of "- 5" "791055484569 / 17592186044416" 12070549] by (simp add: fmul_def)
  have [simp]: "fadd 0 (12070549 / 268435456) = 12070549 / 268435456"
    using round_f32_near [of "- 5" "12070549 / 268435456" 12070549] by (simp add: fadd_def)
  have [simp]: "fmul (- (1024733 / 1048576)) (- (1024733 / 1048576)) = 8011457 / 8388608"
    using round_f32_near [of "- 1" "1050077721289 / 1099511627776" 16022914] by (simp add: fmul_def)
  have [simp]: "fadd (12070549 / 268435456) (8011457 / 8388608) = 4194331 / 4194304"
    using round_f32_near [of 0 "268437173 / 268435456" 8388662] by (simp add: fadd_def)
  have [simp]: "fsqrt (4194331 / 4194304) = 8388635 / 8388608"
    using fsqrt_near [of 0 8388635 "4194331 / 4194304"] by simp
  have [simp]: "fdiv 0 (8388635 / 8388608) = 0"
    by (simp add: fdiv_def round_f32_zero)
  have [simp]: "fdiv (- (889413 / 4194304)) (8388635 / 8388608) = - (7115281 / 33554432)"
    using round_f32_near [of "- 3" "- (1778826 / 8388635)" "- 14230562"] by (simp add: fdiv_def)
  have [simp]: "fdiv (- (1024733 / 1048576)) (8388635 / 8388608) = - (16395675 / 16777216)"
    using round_f32_near [of "- 1" "- (8197864 / 8388635)" "- 16395675"] by (simp add: fdiv_def)
  have [simp]: "fmul 0 2 = 0"
    by (simp add: fmul_def round_f32_zero)
  have [simp]: "fmul (- (7115281 / 33554432)) 2 = - (7115281 / 16777216)"
    using round_f32_near [of "- 2" "- (7115281 / 16777216)" "- 14230562"] by (simp add: fmul_def)
  have [simp]: "fmul (- (16395675 / 16777216)) 2 = - (16395675 / 8388608)"
    using round_f32_near [of 0 "- (16395675 / 8388608)" "- 16395675"] by (simp add: fmul_def)
  have [simp]: "fmul (13118977 / 134217728) (- (7115281 / 33554432)) = - (173869 / 8388608)"
    using round_f32_near [of "- 6" "- (93345207787537 / 4503599627370496)" "- 11127616"] by (simp add: fmul_def)
  have [simp]: "fadd 0 (- (173869 / 8388608)) = - (173869 / 8388608)"
    using round_f32_near [of "- 6" "- (173869 / 8388608)" "- 11127616"] by (simp add: fadd_def)
  have [simp]: "fmul (16696881 / 16777216) (- (16395675 / 16777216)) = - (16317167 / 16777216)"
    using round_f32_near [of "- 1" "- (273756634389675 / 281474976710656)" "- 16317167"] by (simp add: fmul_def)
  have [simp]: "fadd (- (173869 / 8388608)) (- (16317167 / 16777216)) = - (16664905 / 16777216)"
    using round_f32_near [of "- 1" "- (16664905 / 16777216)" "- 16664905"] by (simp add: fadd_def)
  have [simp]: "fmul 0 (- (16664905 / 16777216)) = 0"
    by (simp add: fmul_def round_f32_zero)
  have [simp]: "fmul (- (7115281 / 16777216)) (- (16664905 / 16777216)) = 14135299 / 33554432"
    using round_f32_near [of "- 2" "118575481913305 / 281474976710656" 14135299] by (simp add: fmul_def)
  have [simp]: "fmul (- (16395675 / 8388608)) (- (16664905 / 16777216)) = 8142959 / 4194304"
    using round_f32_near [of 0 "273232366285875 / 140737488355328" 16285918] by (simp add: fmul_def)
  have [simp]: "fsub (13118977 / 134217728) (14135299 / 33554432) = - (10855555 / 33554432)"
    using round_f32_near [of "- 2" "- (43422219 / 134217728)" "- 10855555"] by (simp add: fsub_def)
  have [simp]: "fsub (16696881 / 16777216) (8142959 / 4194304) = - (15874955 / 16777216)"
    using round_f32_near [of "- 1" "- (15874955 / 16777216)" "- 15874955"] by (simp add: fsub_def)
  have [simp]: "fmul (- (10855555 / 33554432)) (- (10855555 / 33554432)) = 14047989 / 134217728"
    using round_f32_near [of "- 4" "117843074358025 / 1125899906842624" 14047989] by (simp add: fmul_def)
  have [simp]: "fadd 0 (14047989 / 134217728) = 14047989 / 134217728"
    using round_f32_near [of "- 4" "14047989 / 134217728" 14047989] by (simp add: fadd_def)
  have [simp]: "fmul (- (15874955 / 16777216)) (- (15874955 / 16777216)) = 15021217 / 16777216"
    using round_f32_near [of "- 1" "252014196252025 / 281474976710656" 15021217] by (simp add: fmul_def)
  have [simp]: "fadd (14047989 / 134217728) (15021217 / 16777216) = 1"
    using round_f32_near [of "- 1" "134217725 / 134217728" 16777216] by (simp add: fadd_def)
  have [simp]: "fsqrt 1 = 1"
    using fsqrt_near [of 0 8388608 "1"] by simp
  have [simp]: "fdiv 0 1 = 0"
    by (simp add: fdiv_def round_f32_zero)
  have [simp]: "fdiv (- (10855555 / 33554432)) 1 = - (10855555 / 33554432)"
    using round_f32_near [of "- 2" "- (10855555 / 33554432)" "- 10855555"] by (simp add: fdiv_def)
  have [simp]: "fdiv (- (15874955 / 16777216)) 1 = - (15874955 / 16777216)"
    using round_f32_near [of "- 1" "- (15874955 / 16777216)" "- 15874955"] by (simp add: fdiv_def)
  have [simp]: "fdiv (- (7499195 / 4194304)) (- (10855555 / 33554432)) = 11589975 / 2097152"
    using round_f32_near [of 2 "11998712 / 2171111" 11589975] by (simp add: fdiv_def)
  have [simp]: "fmul 0 (11589975 / 2097152) = 0"
    by (simp add: fmul_def round_f32_zero)
  have [simp]: "fmul (- (10855555 / 33554432)) (11589975 / 2097152) = - (7499195 / 4194304)"
    using round_f32_near [of 0 "- (125815611061125 / 70368744177664)" "- 14998390"] by (simp add: fmul_def)
  have [simp]: "fmul (- (15874955 / 16777216)) (11589975 / 2097152) = - (5483339 / 1048576)"
    using round_f32_near [of 2 "- (183990331576125 / 35184372088832)" "- 10966678"] by (simp add: fmul_def)
  have [simp]: "fadd (7499195 / 4194304) (- (7499195 / 4194304)) = 0"
    by (simp add: fadd_def round_f32_zero)
  have [simp]: "fadd (2120995 / 1048576) (- (5483339 / 1048576)) = - (420293 / 131072)"
    using round_f32_near [of 1 "- (420293 / 131072)" "- 13449376"] by (simp add: fadd_def)
  have [simp]: "fmul 1 6 = 6"
    using round_f32_near [of 2 "6" 12582912] by (simp add: fmul_def)
  show ray: "camera_ray 200 250 (Vec3 0 1 (- 6)) 100 45 = \<lparr>origin = Vec3 0 1 (- 6),
     direction = Vec3 0 (13118977 / 134217728) (16696881 / 16777216)\<rparr>"
    by (simp add: camera_ray_def adjusted_200_250 view_u_def view_v_def mkRay_def normalize_vec_def)
  show hit: "intersect scene_sphere (camera_ray 200 250 (Vec3 0 1 (- 6)) 100 45) = Some
     (4226463 / 524288, Vec3 0 (7499195 / 4194304) (2120995 / 1048576), Vec3 0 (- (7115281 /
     33554432)) (- (16395675 / 16777216)))"
    by (simp add: ray intersect_def scene_sphere_def vsub_def vadd_def vscale_def dot_def normalize_vec_def)
  show mag: "magnitude (vsub (Vec3 0 (7499195 / 4194304) (2120995 / 1048576)) (center
     scene_sphere)) = 8388635 / 8388608"
    by (simp add: magnitude_def scene_sphere_def vsub_def)
  show mirror: "Vec3 0 (- (10855555 / 33554432)) (- (15874955 / 16777216)) = vsub (direction
     (camera_ray 200 250 (Vec3 0 1 (- 6)) 100 45)) (vscale (vscale (Vec3 0 (- (7115281 /
     33554432)) (- (16395675 / 16777216))) 2) (dot (direction (camera_ray 200 250 (Vec3 0 1 (-
     6)) 100 45)) (Vec3 0 (- (7115281 / 33554432)) (- (16395675 / 16777216)))))"
    by (simp add: ray vsub_def vadd_def vscale_def dot_def)
  show dir: "Vec3 0 (- (10855555 / 33554432)) (- (15874955 / 16777216)) = normalize_vec (Vec3 0
     (- (10855555 / 33554432)) (- (15874955 / 16777216)))"
    by (simp add: normalize_vec_def)
  show quot: "11589975 / 2097152 = fdiv (- vy (Vec3 0 (7499195 / 4194304) (2120995 / 1048576)))
     (vy (Vec3 0 (- (10855555 / 33554432)) (- (15874955 / 16777216))))"
    by simp
  have refl: "reflection_ray (camera_ray 200 250 (Vec3 0 1 (- 6)) 100 45) (Vec3 0 (7499195 /
     4194304) (2120995 / 1048576)) (Vec3 0 (- (7115281 / 33554432)) (- (16395675 / 16777216)))
     = \<lparr>origin = Vec3 0 (7499195 / 4194304) (2120995 / 1048576), direction = Vec3 0 (-
     (10855555 / 33554432)) (- (15874955 / 16777216))\<rparr>"
    by (simp add: ray reflection_ray_def reflectionDir_def mkRay_def vsub_def vadd_def vscale_def dot_def normalize_vec_def)
  have dist: "floor_dist (Vec3 0 (7499195 / 4194304) (2120995 / 1048576)) (reflection_ray
     (camera_ray 200 250 (Vec3 0 1 (- 6)) 100 45) (Vec3 0 (7499195 / 4194304) (2120995 /
     1048576)) (Vec3 0 (- (7115281 / 33554432)) (- (16395675 / 16777216)))) = 11589975 /
     2097152"
    by (simp add: refl floor_dist_def)
  show cross: "Vec3 0 0 (- (420293 / 131072)) = vadd (Vec3 0 (7499195 / 4194304) (2120995 /
     1048576)) (vscale (Vec3 0 (- (10855555 / 33554432)) (- (15874955 / 16777216))) (11589975 /
     2097152))"
    by (simp add: vsub_def vadd_def vscale_def dot_def)
  have point: "floor_point (Vec3 0 (7499195 / 4194304) (2120995 / 1048576)) (reflection_ray
     (camera_ray 200 250 (Vec3 0 1 (- 6)) 100 45) (Vec3 0 (7499195 / 4194304) (2120995 /
     1048576)) (Vec3 0 (- (7115281 / 33554432)) (- (16395675 / 16777216)))) = Vec3 0 0 (-
     (420293 / 131072))"
    by (simp add: refl floor_point_def floor_dist_def vsub_def vadd_def vscale_def dot_def)
  show char: "newChar 200 250 (Vec3 0 1 (- 6)) 100 45 = CHR ''*''"
    by (simp add: newChar_def shade_ray_def hit dist point getShade_def shades_def
        static_cast_int_def isCheckerboard_even float_of_int_6)
qed

text \<open>
  The cell \<open>(92, 40)\<close> seen from \<open>(0, 1, - 4)\<close>: the reflection reaches the floor at
  \<open>z = - 11\<close>, on the edge of a tile, when it is followed along the direction that the
  reflection ray stores, and just beyond that edge when it is followed along the
  direction before normalization.
\<close>

lemma tile_edge_cell:
  shows tile_edge_cell_ray: "camera_ray 200 250 (Vec3 0 1 (- 4)) 92 40 = \<lparr>origin = Vec3
     0 1 (- 4), direction = Vec3 (- (8499339 / 268435456)) (9485869 / 67108864) (8300135 /
     8388608)\<rparr>"
    and tile_edge_cell_hit: "intersect scene_sphere (camera_ray 200 250 (Vec3 0 1 (- 4)) 92 40)
     = Some (12777759 / 2097152, Vec3 (- (3236607 / 16777216)) (1951647 / 1048576) (2127193 /
     1048576), Vec3 (- (12946463 / 67108864)) (- (4656173 / 33554432)) (- (16296605 /
     16777216)))"
    and tile_edge_cell_mag: "magnitude (vsub (Vec3 (- (3236607 / 16777216)) (1951647 / 1048576)
     (2127193 / 1048576)) (center scene_sphere)) = 8388585 / 8388608"
    and tile_edge_cell_mirror: "Vec3 (- (13680233 / 33554432)) (- (8666033 / 67108864)) (-
     (7582779 / 8388608)) = vsub (direction (camera_ray 200 250 (Vec3 0 1 (- 4)) 92 40))
     (vscale (vscale (Vec3 (- (12946463 / 67108864)) (- (4656173 / 33554432)) (- (16296605 /
     16777216))) 2) (dot (direction (camera_ray 200 250 (Vec3 0 1 (- 4)) 92 40)) (Vec3 (-
     (12946463 / 67108864)) (- (4656173 / 33554432)) (- (16296605 / 16777216)))))"
    and tile_edge_cell_dir: "Vec3 (- (6840115 / 16777216)) (- (8666031 / 67108864)) (- (7582777
     / 8388608)) = normalize_vec (Vec3 (- (13680233 / 33554432)) (- (8666033 / 67108864)) (-
     (7582779 / 8388608)))"
    and tile_edge_cell_quot: "3778339 / 262144 = fdiv (- vy (Vec3 (- (3236607 / 16777216))
     (1951647 / 1048576) (2127193 / 1048576))) (vy (Vec3 (- (6840115 / 16777216)) (- (8666031 /
     67108864)) (- (7582777 / 8388608))))"
    and tile_edge_cell_cross: "Vec3 (- (6364043 / 1048576)) 0 (- 11) = vadd (Vec3 (- (3236607 /
     16777216)) (1951647 / 1048576) (2127193 / 1048576)) (vscale (Vec3 (- (6840115 / 16777216))
     (- (8666031 / 67108864)) (- (7582777 / 8388608))) (3778339 / 262144))"
    and tile_edge_cell_spec_dist: "floor_dist_spec (Vec3 (- (3236607 / 16777216)) (1951647 /
     1048576) (2127193 / 1048576)) (Vec3 (- (13680233 / 33554432)) (- (8666033 / 67108864)) (-
     (7582779 / 8388608))) = 15113353 / 1048576"
    and tile_edge_cell_spec_point: "floor_point_spec (Vec3 (- (3236607 / 16777216)) (1951647 /
     1048576) (2127193 / 1048576)) (Vec3 (- (13680233 / 33554432)) (- (8666033 / 67108864)) (-
     (7582779 / 8388608))) = Vec3 (- (6364043 / 1048576)) 0 (- (11534337 / 1048576))"
    and tile_edge_cell_char: "newChar 200 250 (Vec3 0 1 (- 4)) 92 40 = CHR ''*''"
proof -
  have [simp]: "float_of_int 200 = 200"
    using round_f32_near [of 7 "200" 13107200] by (simp add: float_of_int_def)
  have [simp]: "float_of_int 250 = 250"
    using round_f32_near [of 7 "250" 16384000] by (simp add: float_of_int_def)
  have [simp]: "fdiv 200 250 = 13421773 / 16777216"
    using round_f32_near [of "- 1" "4 / 5" 13421773] by (simp add: fdiv_def)
  have [simp]: "float_of_int 92 = 92"
    using round_f32_near [of 6 "92" 12058624] by (simp add: float_of_int_def)
  have [simp]: "fdiv 200 2 = 100"
    using round_f32_near [of 6 "100" 13107200] by (simp add: fdiv_def)
  have [simp]: "fsub 92 100 = - 8"
    using round_f32_near [of 3 "- 8" "- 8388608"] by (simp add: fsub_def)
  have [simp]: "fdiv (- 8) 200 = - (5368709 / 134217728)"
    using round_f32_near [of "- 5" "- (1 / 25)" "- 10737418"] by (simp add: fdiv_def)
  have [simp]: "fmul (- (5368709 / 134217728)) (13421773 / 16777216) = - (8589935 / 268435456)"
    using round_f32_near [of "- 5" "- (72057593501057 / 2251799813685248)" "- 8589935"] by (simp add: fmul_def)
  have [simp]: "float_of_int 112 = 112"
    using round_f32_near [of 6 "112" 14680064] by (simp add: float_of_int_def)
  have [simp]: "fdiv 112 2 = 56"
    using round_f32_near [of 5 "56" 14680064] by (simp add: fdiv_def)
  have [simp]: "float_of_int 40 = 40"
    using round_f32_near [of 5 "40" 10485760] by (simp add: float_of_int_def)
  have [simp]: "fsub 56 40 = 16"
    using round_f32_near [of 4 "16" 8388608] by (simp add: fsub_def)
  have [simp]: "fdiv 16 112 = 9586981 / 67108864"
    using round_f32_near [of "- 3" "1 / 7" 9586981] by (simp add: fdiv_def)
  have [simp]: "fmul (- (8589935 / 268435456)) (- (8589935 / 268435456)) = 4398047 / 4294967296"
    using round_f32_near [of "- 10" "73786983304225 / 72057594037927936" 8796094] by (simp add: fmul_def)
  have [simp]: "fmul (9586981 / 67108864) (9586981 / 67108864) = 5478275 / 268435456"
    using round_f32_near [of "- 6" "91910204694361 / 4503599627370496" 10956550] by (simp add: fmul_def)
  have [simp]: "fadd (4398047 / 4294967296) (5478275 / 268435456) = 5753153 / 268435456"
    using round_f32_near [of "- 6" "92050447 / 4294967296" 11506306] by (simp add: fadd_def)
  have [simp]: "fmul 1 1 = 1"
    using round_f32_near [of 0 "1" 8388608] by (simp add: fmul_def)
  have [simp]: "fadd (5753153 / 268435456) 1 = 4284197 / 4194304"
    using round_f32_near [of 0 "274188609 / 268435456" 8568394] by (simp add: fadd_def)
  have [simp]: "fsqrt (4284197 / 4194304) = 1059753 / 1048576"
    using fsqrt_near [of 0 8478024 "4284197 / 4194304"] by simp
  have [simp]: "fdiv (- (8589935 / 268435456)) (1059753 / 1048576) = - (8499339 / 268435456)"
    using round_f32_near [of "- 5" "- (8589935 / 271296768)" "- 8499339"] by (simp add: fdiv_def)
  have [simp]: "fdiv (9586981 / 67108864) (1059753 / 1048576) = 9485869 / 67108864"
    using round_f32_near [of "- 3" "9586981 / 67824192" 9485869] by (simp add: fdiv_def)
  have [simp]: "fdiv 1 (1059753 / 1048576) = 8300135 / 8388608"
    using round_f32_near [of "- 1" "1048576 / 1059753" 16600270] by (simp add: fdiv_def)
  have [simp]: "fsub 0 0 = 0"
    by (simp add: fsub_def round_f32_zero)
  have [simp]: "fsub 1 2 = - 1"
    using round_f32_near [of 0 "- 1" "- 8388608"] by (simp add: fsub_def)
  have [simp]: "fsub (- 4) 3 = - 7"
    using round_f32_near [of 2 "- 7" "- 14680064"] by (simp add: fsub_def)
  have [simp]: "fmul (- (8499339 / 268435456)) (- (8499339 / 268435456)) = 2152883 / 2147483648"
    using round_f32_near [of "- 10" "72238763436921 / 72057594037927936" 8611532] by (simp add: fmul_def)
  have [simp]: "fmul (9485869 / 67108864) (9485869 / 67108864) = 41901 / 2097152"
    using round_f32_near [of "- 6" "89981710685161 / 4503599627370496" 10726656] by (simp add: fmul_def)
  have [simp]: "fadd (2152883 / 2147483648) (41901 / 2097152) = 11264877 / 536870912"
    using round_f32_near [of "- 6" "45059507 / 2147483648" 11264877] by (simp add: fadd_def)
  have [simp]: "fmul (8300135 / 8388608) (8300135 / 8388608) = 8212595 / 8388608"
    using round_f32_near [of "- 1" "68892241018225 / 70368744177664" 16425190] by (simp add: fmul_def)
  have [simp]: "fadd (11264877 / 536870912) (8212595 / 8388608) = 8388609 / 8388608"
    using round_f32_near [of 0 "536870957 / 536870912" 8388609] by (simp add: fadd_def)
  have [simp]: "fmul 0 (- (8499339 / 268435456)) = 0"
    by (simp add: fmul_def round_f32_zero)
  have [simp]: "fmul (- 1) (9485869 / 67108864) = - (9485869 / 67108864)"
    using round_f32_near [of "- 3" "- (9485869 / 67108864)" "- 9485869"] by (simp add: fmul_def)
  have [simp]: "fadd 0 (- (9485869 / 67108864)) = - (9485869 / 67108864)"
    using round_f32_near [of "- 3" "- (9485869 / 67108864)" "- 9485869"] by (simp add: fadd_def)
  have [simp]: "fmul (- 7) (8300135 / 8388608) = - (3631309 / 524288)"
    using round_f32_near [of 2 "- (58100945 / 8388608)" "- 14525236"] by (simp add: fmul_def)
  have [simp]: "fadd (- (9485869 / 67108864)) (- (3631309 / 524288)) = - (14821669 / 2097152)"
    using round_f32_near [of 2 "- (474293421 / 67108864)" "- 14821669"] by (simp add: fadd_def)
  have [simp]: "fmul 2 (- (14821669 / 2097152)) = - (14821669 / 1048576)"
    using round_f32_near [of 3 "- (14821669 / 1048576)" "- 14821669"] by (simp add: fmul_def)
  have [simp]: "fmul 0 0 = 0"
    by (simp add: fmul_def round_f32_zero)
  have [simp]: "fmul (- 1) (- 1) = 1"
    using round_f32_near [of 0 "1" 8388608] by (simp add: fmul_def)
  have [simp]: "fadd 0 1 = 1"
    using round_f32_near [of 0 "1" 8388608] by (simp add: fadd_def)
  have [simp]: "fmul (- 7) (- 7) = 49"
    using round_f32_near [of 5 "49" 12845056] by (simp add: fmul_def)
  have [simp]: "fadd 1 49 = 50"
    using round_f32_near [of 5 "50" 13107200] by (simp add: fadd_def)
  have [simp]: "fsub 50 1 = 49"
    using round_f32_near [of 5 "49" 12845056] by (simp add: fsub_def)
  have [simp]: "fmul (- (14821669 / 1048576)) (- (14821669 / 1048576)) = 3273515 / 16384"
    using round_f32_near [of 7 "219681871945561 / 1099511627776" 13094060] by (simp add: fmul_def)
  have [simp]: "fmul 4 (8388609 / 8388608) = 8388609 / 2097152"
    using round_f32_near [of 2 "8388609 / 2097152" 8388609] by (simp add: fmul_def)
  have [simp]: "fmul (8388609 / 2097152) 49 = 6422529 / 32768"
    using round_f32_near [of 7 "411041841 / 2097152" 12845058] by (simp add: fmul_def)
  have [simp]: "fsub (3273515 / 16384) (6422529 / 32768) = 124501 / 32768"
    using round_f32_near [of 1 "124501 / 32768" 15936128] by (simp add: fsub_def)
  have [simp]: "fsqrt (124501 / 32768) = 16351265 / 8388608"
    using fsqrt_near [of 0 16351265 "124501 / 32768"] by simp
  have [simp]: "fsub (14821669 / 1048576) (16351265 / 8388608) = 12777761 / 1048576"
    using round_f32_near [of 3 "102222087 / 8388608" 12777761] by (simp add: fsub_def)
  have [simp]: "fmul 2 (8388609 / 8388608) = 8388609 / 4194304"
    using round_f32_near [of 1 "8388609 / 4194304" 8388609] by (simp add: fmul_def)
  have [simp]: "fdiv (12777761 / 1048576) (8388609 / 4194304) = 12777759 / 2097152"
    using round_f32_near [of 2 "51111044 / 8388609" 12777759] by (simp add: fdiv_def)
  have [simp]: "fmul (- (8499339 / 268435456)) (12777759 / 2097152) = - (3236607 / 16777216)"
    using round_f32_near [of "- 3" "- (108602505401301 / 562949953421312)" "- 12946428"] by (simp add: fmul_def)
  have [simp]: "fmul (9485869 / 67108864) (12777759 / 2097152) = 14449137 / 16777216"
    using round_f32_near [of "- 1" "121208147987571 / 140737488355328" 14449137] by (simp add: fmul_def)
  have [simp]: "fmul (8300135 / 8388608) (12777759 / 2097152) = 6321497 / 1048576"
    using round_f32_near [of 2 "106057124697465 / 17592186044416" 12642994] by (simp add: fmul_def)
  have [simp]: "fadd 0 (- (3236607 / 16777216)) = - (3236607 / 16777216)"
    using round_f32_near [of "- 3" "- (3236607 / 16777216)" "- 12946428"] by (simp add: fadd_def)
  have [simp]: "fadd 1 (14449137 / 16777216) = 1951647 / 1048576"
    using round_f32_tie [of 0 "31226353 / 16777216" 15613176] by (simp add: fadd_def)
  have [simp]: "fadd (- 4) (6321497 / 1048576) = 2127193 / 1048576"
    using round_f32_near [of 1 "2127193 / 1048576" 8508772] by (simp add: fadd_def)
  have [simp]: "fsub (- (3236607 / 16777216)) 0 = - (3236607 / 16777216)"
    using round_f32_near [of "- 3" "- (3236607 / 16777216)" "- 12946428"] by (simp add: fsub_def)
  have [simp]: "fsub (1951647 / 1048576) 2 = - (145505 / 1048576)"
    using round_f32_near [of "- 3" "- (145505 / 1048576)" "- 9312320"] by (simp add: fsub_def)
  have [simp]: "fsub (2127193 / 1048576) 3 = - (1018535 / 1048576)"
    using round_f32_near [of "- 1" "- (1018535 / 1048576)" "- 16296560"] by (simp add: fsub_def)
  have [simp]: "fmul (- (3236607 / 16777216)) (- (3236607 / 16777216)) = 4995167 / 134217728"
    using round_f32_near [of "- 5" "10475624872449 / 281474976710656" 9990334] by (simp add: fmul_def)
  have [simp]: "fmul (- (145505 / 1048576)) (- (145505 / 1048576)) = 10337747 / 536870912"
    using round_f32_near [of "- 6" "21171705025 / 1099511627776" 10337747] by (simp add: fmul_def)
  have [simp]: "fadd (4995167 / 134217728) (10337747 / 536870912) = 1894901 / 33554432"
    using round_f32_tie [of "- 5" "30318415 / 536870912" 15159208] by (simp add: fadd_def)
  have [simp]: "fmul (- (1018535 / 1048576)) (- (1018535 / 1048576)) = 7914837 / 8388608"
    using round_f32_near [of "- 1" "1037413546225 / 1099511627776" 15829674] by (simp add: fmul_def)
  have [simp]: "fadd (1894901 / 33554432) (7914837 / 8388608) = 4194281 / 4194304"
    using round_f32_tie [of "- 1" "33554249 / 33554432" 16777124] by (simp add: fadd_def)
  have [simp]: "fsqrt (4194281 / 4194304) = 8388585 / 8388608"
    using fsqrt_near [of "- 1" 16777170 "4194281 / 4194304"] by simp
  have [simp]: "fdiv (- (3236607 / 16777216)) (8388585 / 8388608) = - (12946463 / 67108864)"
    using round_f32_near [of "- 3" "- (359623 / 1864130)" "- 12946463"] by (simp add: fdiv_def)
  have [simp]: "fdiv (- (145505 / 1048576)) (8388585 / 8388608) = - (4656173 / 33554432)"
    using round_f32_near [of "- 3" "- (232808 / 1677717)" "- 9312346"] by (simp add: fdiv_def)
  have [simp]: "fdiv (- (1018535 / 1048576)) (8388585 / 8388608) = - (16296605 / 16777216)"
    using round_f32_near [of "- 1" "- (1629656 / 1677717)" "- 16296605"] by (simp add: fdiv_def)
  have [simp]: "fmul (- (12946463 / 67108864)) 2 = - (12946463 / 33554432)"
    using round_f32_near [of "- 2" "- (12946463 / 33554432)" "- 12946463"] by (simp add: fmul_def)
  have [simp]: "fmul (- (4656173 / 33554432)) 2 = - (4656173 / 16777216)"
    using round_f32_near [of "- 2" "- (4656173 / 16777216)" "- 9312346"] by (simp add: fmul_def)
  have [simp]: "fmul (- (16296605 / 16777216)) 2 = - (16296605 / 8388608)"
    using round_f32_near [of 0 "- (16296605 / 8388608)" "- 16296605"] by (simp add: fmul_def)
  have [simp]: "fmul (- (8499339 / 268435456)) (- (12946463 / 67108864)) = 6558679 / 1073741824"
    using round_f32_near [of "- 8" "110036377887957 / 18014398509481984" 13117358] by (simp add: fmul_def)
  have [simp]: "fmul (9485869 / 67108864) (- (4656173 / 33554432)) = - (10530435 / 536870912)"
    using round_f32_near [of "- 6" "- (44167847119337 / 2251799813685248)" "- 10530435"] by (simp add: fmul_def)
  have [simp]: "fadd (6558679 / 1073741824) (- (10530435 / 536870912)) = - (14502191 / 1073741824)"
    using round_f32_near [of "- 7" "- (14502191 / 1073741824)" "- 14502191"] by (simp add: fadd_def)
  have [simp]: "fmul (8300135 / 8388608) (- (16296605 / 16777216)) = - (2015591 / 2097152)"
    using round_f32_near [of "- 1" "- (135264021541675 / 140737488355328)" "- 16124728"] by (simp add: fmul_def)
  have [simp]: "fadd (- (14502191 / 1073741824)) (- (2015591 / 2097152)) = - (16351325 / 16777216)"
    using round_f32_near [of "- 1" "- (1046484783 / 1073741824)" "- 16351325"] by (simp add: fadd_def)
  have [simp]: "fmul (- (12946463 / 33554432)) (- (16351325 / 16777216)) = 1577227 / 4194304"
    using round_f32_near [of "- 2" "211691824113475 / 562949953421312" 12617816] by (simp add: fmul_def)
  have [simp]: "fmul (- (4656173 / 16777216)) (- (16351325 / 16777216)) = 9075951 / 33554432"
    using round_f32_near [of "- 2" "76134597979225 / 281474976710656" 9075951] by (simp add: fmul_def)
  have [simp]: "fmul (- (16296605 / 8388608)) (- (16351325 / 16777216)) = 7941457 / 4194304"
    using round_f32_near [of 0 "266471084751625 / 140737488355328" 15882914] by (simp add: fmul_def)
  have [simp]: "fsub (- (8499339 / 268435456)) (1577227 / 4194304) = - (13680233 / 33554432)"
    using round_f32_near [of "- 2" "- (109441867 / 268435456)" "- 13680233"] by (simp add: fsub_def)
  have [simp]: "fsub (9485869 / 67108864) (9075951 / 33554432) = - (8666033 / 67108864)"
    using round_f32_near [of "- 3" "- (8666033 / 67108864)" "- 8666033"] by (simp add: fsub_def)
  have [simp]: "fsub (8300135 / 8388608) (7941457 / 4194304) = - (7582779 / 8388608)"
    using round_f32_near [of "- 1" "- (7582779 / 8388608)" "- 15165558"] by (simp add: fsub_def)
  have [simp]: "fmul (- (13680233 / 33554432)) (- (13680233 / 33554432)) = 1394367 / 8388608"
    using round_f32_near [of "- 3" "187148774934289 / 1125899906842624" 11154936] by (simp add: fmul_def)
  have [simp]: "fmul (- (8666033 / 67108864)) (- (8666033 / 67108864)) = 8952633 / 536870912"
    using round_f32_near [of "- 6" "75100127957089 / 4503599627370496" 8952633] by (simp add: fmul_def)
  have [simp]: "fadd (1394367 / 8388608) (8952633 / 536870912) = 12274015 / 67108864"
    using round_f32_near [of "- 3" "98192121 / 536870912" 12274015] by (simp add: fadd_def)
  have [simp]: "fmul (- (7582779 / 8388608)) (- (7582779 / 8388608)) = 856795 / 1048576"
    using round_f32_near [of "- 1" "57498537362841 / 70368744177664" 13708720] by (simp add: fmul_def)
  have [simp]: "fadd (12274015 / 67108864) (856795 / 1048576) = 2097153 / 2097152"
    using round_f32_near [of 0 "67108895 / 67108864" 8388612] by (simp add: fadd_def)
  have [simp]: "fsqrt (2097153 / 2097152) = 4194305 / 4194304"
    using fsqrt_near [of 0 8388610 "2097153 / 2097152"] by simp
  have [simp]: "fdiv (- (13680233 / 33554432)) (4194305 / 4194304) = - (6840115 / 16777216)"
    using round_f32_near [of "- 2" "- (13680233 / 33554440)" "- 13680230"] by (simp add: fdiv_def)
  have [simp]: "fdiv (- (8666033 / 67108864)) (4194305 / 4194304) = - (8666031 / 67108864)"
    using round_f32_near [of "- 3" "- (8666033 / 67108880)" "- 8666031"] by (simp add: fdiv_def)
  have [simp]: "fdiv (- (7582779 / 8388608)) (4194305 / 4194304) = - (7582777 / 8388608)"
    using round_f32_near [of "- 1" "- (7582779 / 8388610)" "- 15165554"] by (simp add: fdiv_def)
  have [simp]: "fdiv (- (1951647 / 1048576)) (- (8666031 / 67108864)) = 3778339 / 262144"
    using round_f32_near [of 3 "41635136 / 2888677" 15113356] by (simp add: fdiv_def)
  have [simp]: "fmul (- (6840115 / 16777216)) (3778339 / 262144) = - (6161755 / 1048576)"
    using round_f32_near [of 2 "- (25844273268985 / 4398046511104)" "- 12323510"] by (simp add: fmul_def)
  have [simp]: "fmul (- (8666031 / 67108864)) (3778339 / 262144) = - (1951647 / 1048576)"
    using round_f32_near [of 0 "- (32743202902509 / 17592186044416)" "- 15613176"] by (simp add: fmul_def)
  have [simp]: "fmul (- (7582777 / 8388608)) (3778339 / 262144) = - (13661529 / 1048576)"
    using round_f32_near [of 3 "- (28650302067403 / 2199023255552)" "- 13661529"] by (simp add: fmul_def)
  have [simp]: "fadd (- (3236607 / 16777216)) (- (6161755 / 1048576)) = - (6364043 / 1048576)"
    using round_f32_near [of 2 "- (101824687 / 16777216)" "- 12728086"] by (simp add: fadd_def)
  have [simp]: "fadd (1951647 / 1048576) (- (1951647 / 1048576)) = 0"
    by (simp add: fadd_def round_f32_zero)
  have [simp]: "fadd (2127193 / 1048576) (- (13661529 / 1048576)) = - 11"
    using round_f32_near [of 3 "- 11" "- 11534336"] by (simp add: fadd_def)
  have [simp]: "fmul 1 6 = 6"
    using round_f32_near [of 2 "6" 12582912] by (simp add: fmul_def)
  have [simp]: "fdiv (- (1951647 / 1048576)) (- (8666033 / 67108864)) = 15113353 / 1048576"
    using round_f32_near [of 3 "124905408 / 8666033" 15113353] by (simp add: fdiv_def)
  have [simp]: "fmul (- (13680233 / 33554432)) (15113353 / 1048576) = - (6161755 / 1048576)"
    using round_f32_near [of 2 "- (206754190451249 / 35184372088832)" "- 12323510"] by (simp add: fmul_def)
  have [simp]: "fmul (- (8666033 / 67108864)) (15113353 / 1048576) = - (1951647 / 1048576)"
    using round_f32_near [of 0 "- (130972815838649 / 70368744177664)" "- 15613176"] by (simp add: fmul_def)
  have [simp]: "fmul (- (7582779 / 8388608)) (15113353 / 1048576) = - (6830765 / 524288)"
    using round_f32_near [of 3 "- (114601215747987 / 8796093022208)" "- 13661530"] by (simp add: fmul_def)
  have [simp]: "fadd (2127193 / 1048576) (- (6830765 / 524288)) = - (11534337 / 1048576)"
    using round_f32_near [of 3 "- (11534337 / 1048576)" "- 11534337"] by (simp add: fadd_def)
  show ray: "camera_ray 200 250 (Vec3 0 1 (- 4)) 92 40 = \<lparr>origin = Vec3 0 1 (- 4),
     direction = Vec3 (- (8499339 / 268435456)) (9485869 / 67108864) (8300135 /
     8388608)\<rparr>"
    by (simp add: camera_ray_def adjusted_200_250 view_u_def view_v_def mkRay_def normalize_vec_def)
  show hit: "intersect scene_sphere (camera_ray 200 250 (Vec3 0 1 (- 4)) 92 40) = Some
     (12777759 / 2097152, Vec3 (- (3236607 / 16777216)) (1951647 / 1048576) (2127193 /
     1048576), Vec3 (- (12946463 / 67108864)) (- (4656173 / 33554432)) (- (16296605 /
     16777216)))"
    by (simp add: ray intersect_def scene_sphere_def vsub_def vadd_def vscale_def dot_def normalize_vec_def)
  show mag: "magnitude (vsub (Vec3 (- (3236607 / 16777216)) (1951647 / 1048576) (2127193 /
     1048576)) (center scene_sphere)) = 8388585 / 8388608"
    by (simp add: magnitude_def scene_sphere_def vsub_def)
  show mirror: "Vec3 (- (13680233 / 33554432)) (- (8666033 / 67108864)) (- (7582779 / 8388608))
     = vsub (direction (camera_ray 200 250 (Vec3 0 1 (- 4)) 92 40)) (vscale (vscale (Vec3 (-
     (12946463 / 67108864)) (- (4656173 / 33554432)) (- (16296605 / 16777216))) 2) (dot
     (direction (camera_ray 200 250 (Vec3 0 1 (- 4)) 92 40)) (Vec3 (- (12946463 / 67108864)) (-
     (4656173 / 33554432)) (- (16296605 / 16777216)))))"
    by (simp add: ray vsub_def vadd_def vscale_def dot_def)
  show dir: "Vec3 (- (6840115 / 16777216)) (- (8666031 / 67108864)) (- (7582777 / 8388608)) =
     normalize_vec (Vec3 (- (13680233 / 33554432)) (- (8666033 / 67108864)) (- (7582779 /
     8388608)))"
    by (simp add: normalize_vec_def)
  show quot: "3778339 / 262144 = fdiv (- vy (Vec3 (- (3236607 / 16777216)) (1951647 / 1048576)
     (2127193 / 1048576))) (vy (Vec3 (- (6840115 / 16777216)) (- (8666031 / 67108864)) (-
     (7582777 / 8388608))))"
    by simp
  have refl: "reflection_ray (camera_ray 200 250 (Vec3 0 1 (- 4)) 92 40) (Vec3 (- (3236607 /
     16777216)) (1951647 / 1048576) (2127193 / 1048576)) (Vec3 (- (12946463 / 67108864)) (-
     (4656173 / 33554432)) (- (16296605 / 16777216))) = \<lparr>origin = Vec3 (- (3236607 /
     16777216)) (1951647 / 1048576) (2127193 / 1048576), direction = Vec3 (- (6840115 /
     16777216)) (- (8666031 / 67108864)) (- (7582777 / 8388608))\<rparr>"
    by (simp add: ray reflection_ray_def reflectionDir_def mkRay_def vsub_def vadd_def vscale_def dot_def normalize_vec_def)
  have dist: "floor_dist (Vec3 (- (3236607 / 16777216)) (1951647 / 1048576) (2127193 /
     1048576)) (reflection_ray (camera_ray 200 250 (Vec3 0 1 (- 4)) 92 40) (Vec3 (- (3236607 /
     16777216)) (1951647 / 1048576) (2127193 / 1048576)) (Vec3 (- (12946463 / 67108864)) (-
     (4656173 / 33554432)) (- (16296605 / 16777216)))) = 3778339 / 262144"
    by (simp add: refl floor_dist_def)
  show cross: "Vec3 (- (6364043 / 1048576)) 0 (- 11) = vadd (Vec3 (- (3236607 / 16777216))
     (1951647 / 1048576) (2127193 / 1048576)) (vscale (Vec3 (- (6840115 / 16777216)) (-
     (8666031 / 67108864)) (- (7582777 / 8388608))) (3778339 / 262144))"
    by (simp add: vsub_def vadd_def vscale_def dot_def)
  have point: "floor_point (Vec3 (- (3236607 / 16777216)) (1951647 / 1048576) (2127193 /
     1048576)) (reflection_ray (camera_ray 200 250 (Vec3 0 1 (- 4)) 92 40) (Vec3 (- (3236607 /
     16777216)) (1951647 / 1048576) (2127193 / 1048576)) (Vec3 (- (12946463 / 67108864)) (-
     (4656173 / 33554432)) (- (16296605 / 16777216)))) = Vec3 (- (6364043 / 1048576)) 0 (- 11)"
    by (simp add: refl floor_point_def floor_dist_def vsub_def vadd_def vscale_def dot_def)
  show spec_dist: "floor_dist_spec (Vec3 (- (3236607 / 16777216)) (1951647 / 1048576) (2127193
     / 1048576)) (Vec3 (- (13680233 / 33554432)) (- (8666033 / 67108864)) (- (7582779 /
     8388608))) = 15113353 / 1048576"
    by (simp add: floor_dist_spec_def)
  show spec_point: "floor_point_spec (Vec3 (- (3236607 / 16777216)) (1951647 / 1048576)
     (2127193 / 1048576)) (Vec3 (- (13680233 / 33554432)) (- (8666033 / 67108864)) (- (7582779
     / 8388608))) = Vec3 (- (6364043 / 1048576)) 0 (- (11534337 / 1048576))"
    by (simp add: floor_point_spec_def floor_dist_spec_def vsub_def vadd_def vscale_def dot_def)
  show char: "newChar 200 250 (Vec3 0 1 (- 4)) 92 40 = CHR ''*''"
    by (simp add: newChar_def shade_ray_def hit dist point getShade_def shades_def
        static_cast_int_def isCheckerboard_even float_of_int_6)
qed

text \<open>
  The cell \<open>(89, 43)\<close> of the first frame: a reflection that reaches the floor far away, on
  a tile that the program draws blank.
\<close>

lemma first_frame_89_43:
  shows first_frame_89_43_ray: "camera_ray 200 250 (Vec3 0 1 (- 6)) 89 43 = \<lparr>origin =
     Vec3 0 1 (- 6), direction = Vec3 (- (5860601 / 134217728)) (15460189 / 134217728)
     (16649435 / 16777216)\<rparr>"
    and first_frame_89_43_hit: "intersect scene_sphere (camera_ray 200 250 (Vec3 0 1 (- 6)) 89
     43) = Some (8524083 / 1048576, Vec3 (- (5955249 / 16777216)) (8121771 / 4194304) (2167705
     / 1048576), Vec3 (- (2977621 / 8388608)) (- (4269387 / 67108864)) (- (15648349 /
     16777216)))"
    and first_frame_89_43_mag: "magnitude (vsub (Vec3 (- (5955249 / 16777216)) (8121771 /
     4194304) (2167705 / 1048576)) (center scene_sphere)) = 4194309 / 4194304"
    and first_frame_89_43_mirror: "Vec3 (- (1457465 / 2097152)) (- (207423 / 134217728)) (-
     (12063383 / 16777216)) = vsub (direction (camera_ray 200 250 (Vec3 0 1 (- 6)) 89 43))
     (vscale (vscale (Vec3 (- (2977621 / 8388608)) (- (4269387 / 67108864)) (- (15648349 /
     16777216))) 2) (dot (direction (camera_ray 200 250 (Vec3 0 1 (- 6)) 89 43)) (Vec3 (-
     (2977621 / 8388608)) (- (4269387 / 67108864)) (- (15648349 / 16777216)))))"
    and first_frame_89_43_dir: "Vec3 (- (11659721 / 16777216)) (- (13275073 / 8589934592)) (-
     (1507923 / 2097152)) = normalize_vec (Vec3 (- (1457465 / 2097152)) (- (207423 /
     134217728)) (- (12063383 / 16777216)))"
    and first_frame_89_43_quot: "2566101 / 2048 = fdiv (- vy (Vec3 (- (5955249 / 16777216))
     (8121771 / 4194304) (2167705 / 1048576))) (vy (Vec3 (- (11659721 / 16777216)) (- (13275073
     / 8589934592)) (- (1507923 / 2097152))))"
    and first_frame_89_43_cross: "Vec3 (- (7136397 / 8192)) (- (1 / 8388608)) (- (14727035 /
     16384)) = vadd (Vec3 (- (5955249 / 16777216)) (8121771 / 4194304) (2167705 / 1048576))
     (vscale (Vec3 (- (11659721 / 16777216)) (- (13275073 / 8589934592)) (- (1507923 /
     2097152))) (2566101 / 2048))"
    and first_frame_89_43_char: "newChar 200 250 (Vec3 0 1 (- 6)) 89 43 = CHR '' ''"
proof -
  have [simp]: "float_of_int 200 = 200"
    using round_f32_near [of 7 "200" 13107200] by (simp add: float_of_int_def)
  have [simp]: "float_of_int 250 = 250"
    using round_f32_near [of 7 "250" 16384000] by (simp add: float_of_int_def)
  have [simp]: "fdiv 200 250 = 13421773 / 16777216"
    using round_f32_near [of "- 1" "4 / 5" 13421773] by (simp add: fdiv_def)
  have [simp]: "float_of_int 89 = 89"
    using round_f32_near [of 6 "89" 11665408] by (simp add: float_of_int_def)
  have [simp]: "fdiv 200 2 = 100"
    using round_f32_near [of 6 "100" 13107200] by (simp add: fdiv_def)
  have [simp]: "fsub 89 100 = - 11"
    using round_f32_near [of 3 "- 11" "- 11534336"] by (simp add: fsub_def)
  have [simp]: "fdiv (- 11) 200 = - (7381975 / 134217728)"
    using round_f32_near [of "- 5" "- (11 / 200)" "- 14763950"] by (simp add: fdiv_def)
  have [simp]: "fmul (- (7381975 / 134217728)) (13421773 / 16777216) = - (1476395 / 33554432)"
    using round_f32_near [of "- 5" "- (99079192741675 / 2251799813685248)" "- 11811160"] by (simp add: fmul_def)
  have [simp]: "float_of_int 112 = 112"
    using round_f32_near [of 6 "112" 14680064] by (simp add: float_of_int_def)
  have [simp]: "fdiv 112 2 = 56"
    using round_f32_near [of 5 "56" 14680064] by (simp add: fdiv_def)
  have [simp]: "float_of_int 43 = 43"
    using round_f32_near [of 5 "43" 11272192] by (simp add: float_of_int_def)
  have [simp]: "fsub 56 43 = 13"
    using round_f32_near [of 3 "13" 13631488] by (simp add: fsub_def)
  have [simp]: "fdiv 13 112 = 15578843 / 134217728"
    using round_f32_near [of "- 4" "13 / 112" 15578843] by (simp add: fdiv_def)
  have [simp]: "fmul (- (1476395 / 33554432)) (- (1476395 / 33554432)) = 16630113 / 8589934592"
    using round_f32_near [of "- 10" "2179742196025 / 1125899906842624" 16630113] by (simp add: fmul_def)
  have [simp]: "fmul (15578843 / 134217728) (15578843 / 134217728) = 3616517 / 268435456"
    using round_f32_near [of "- 7" "242700349218649 / 18014398509481984" 14466068] by (simp add: fmul_def)
  have [simp]: "fadd (16630113 / 8589934592) (3616517 / 268435456) = 258513 / 16777216"
    using round_f32_near [of "- 7" "132358657 / 8589934592" 16544832] by (simp add: fadd_def)
  have [simp]: "fmul 1 1 = 1"
    using round_f32_near [of 0 "1" 8388608] by (simp add: fmul_def)
  have [simp]: "fadd (258513 / 16777216) 1 = 1064733 / 1048576"
    using round_f32_tie [of 0 "17035729 / 16777216" 8517864] by (simp add: fadd_def)
  have [simp]: "fsqrt (1064733 / 1048576) = 8452989 / 8388608"
    using fsqrt_near [of 0 8452989 "1064733 / 1048576"] by simp
  have [simp]: "fdiv (- (1476395 / 33554432)) (8452989 / 8388608) = - (5860601 / 134217728)"
    using round_f32_near [of "- 5" "- (1476395 / 33811956)" "- 11721202"] by (simp add: fdiv_def)
  have [simp]: "fdiv (15578843 / 134217728) (8452989 / 8388608) = 15460189 / 134217728"
    using round_f32_near [of "- 4" "15578843 / 135247824" 15460189] by (simp add: fdiv_def)
  have [simp]: "fdiv 1 (8452989 / 8388608) = 16649435 / 16777216"
    using round_f32_near [of "- 1" "8388608 / 8452989" 16649435] by (simp add: fdiv_def)
  have [simp]: "fsub 0 0 = 0"
    by (simp add: fsub_def round_f32_zero)
  have [simp]: "fsub 1 2 = - 1"
    using round_f32_near [of 0 "- 1" "- 8388608"] by (simp add: fsub_def)
  have [simp]: "fsub (- 6) 3 = - 9"
    using round_f32_near [of 3 "- 9" "- 9437184"] by (simp add: fsub_def)
  have [simp]: "fmul (- (5860601 / 134217728)) (- (5860601 / 134217728)) = 4094439 / 2147483648"
    using round_f32_near [of "- 10" "34346644081201 / 18014398509481984" 16377756] by (simp add: fmul_def)
  have [simp]: "fmul (15460189 / 134217728) (15460189 / 134217728) = 7123275 / 536870912"
    using round_f32_near [of "- 7" "239017443915721 / 18014398509481984" 14246550] by (simp add: fmul_def)
  have [simp]: "fadd (4094439 / 2147483648) (7123275 / 536870912) = 8146885 / 536870912"
    using round_f32_tie [of "- 7" "32587539 / 2147483648" 16293770] by (simp add: fadd_def)
  have [simp]: "fmul (16649435 / 16777216) (16649435 / 16777216) = 16522627 / 16777216"
    using round_f32_near [of "- 1" "277203685819225 / 281474976710656" 16522627] by (simp add: fmul_def)
  have [simp]: "fadd (8146885 / 536870912) (16522627 / 16777216) = 8388609 / 8388608"
    using round_f32_near [of 0 "536870949 / 536870912" 8388609] by (simp add: fadd_def)
  have [simp]: "fmul 0 (- (5860601 / 134217728)) = 0"
    by (simp add: fmul_def round_f32_zero)
  have [simp]: "fmul (- 1) (15460189 / 134217728) = - (15460189 / 134217728)"
    using round_f32_near [of "- 4" "- (15460189 / 134217728)" "- 15460189"] by (simp add: fmul_def)
  have [simp]: "fadd 0 (- (15460189 / 134217728)) = - (15460189 / 134217728)"
    using round_f32_near [of "- 4" "- (15460189 / 134217728)" "- 15460189"] by (simp add: fadd_def)
  have [simp]: "fmul (- 9) (16649435 / 16777216) = - (9365307 / 1048576)"
    using round_f32_near [of 3 "- (149844915 / 16777216)" "- 9365307"] by (simp add: fmul_def)
  have [simp]: "fadd (- (15460189 / 134217728)) (- (9365307 / 1048576)) = - (4743045 / 524288)"
    using round_f32_near [of 3 "- (1214219485 / 134217728)" "- 9486090"] by (simp add: fadd_def)
  have [simp]: "fmul 2 (- (4743045 / 524288)) = - (4743045 / 262144)"
    using round_f32_near [of 4 "- (4743045 / 262144)" "- 9486090"] by (simp add: fmul_def)
  have [simp]: "fmul 0 0 = 0"
    by (simp add: fmul_def round_f32_zero)
  have [simp]: "fmul (- 1) (- 1) = 1"
    using round_f32_near [of 0 "1" 8388608] by (simp add: fmul_def)
  have [simp]: "fadd 0 1 = 1"
    using round_f32_near [of 0 "1" 8388608] by (simp add: fadd_def)
  have [simp]: "fmul (- 9) (- 9) = 81"
    using round_f32_near [of 6 "81" 10616832] by (simp add: fmul_def)
  have [simp]: "fadd 1 81 = 82"
    using round_f32_near [of 6 "82" 10747904] by (simp add: fadd_def)
  have [simp]: "fsub 82 1 = 81"
    using round_f32_near [of 6 "81" 10616832] by (simp add: fsub_def)
  have [simp]: "fmul (- (4743045 / 262144)) (- (4743045 / 262144)) = 2681789 / 8192"
    using round_f32_near [of 8 "22496475872025 / 68719476736" 10727156] by (simp add: fmul_def)
  have [simp]: "fmul 4 (8388609 / 8388608) = 8388609 / 2097152"
    using round_f32_near [of 2 "8388609 / 2097152" 8388609] by (simp add: fmul_def)
  have [simp]: "fmul (8388609 / 2097152) 81 = 10616833 / 32768"
    using round_f32_near [of 8 "679477329 / 2097152" 10616833] by (simp add: fmul_def)
  have [simp]: "fsub (2681789 / 8192) (10616833 / 32768) = 110323 / 32768"
    using round_f32_near [of 1 "110323 / 32768" 14121344] by (simp add: fsub_def)
  have [simp]: "fsqrt (110323 / 32768) = 15392103 / 8388608"
    using fsqrt_near [of 0 15392103 "110323 / 32768"] by simp
  have [simp]: "fsub (4743045 / 262144) (15392103 / 8388608) = 2131021 / 131072"
    using round_f32_near [of 4 "136385337 / 8388608" 8524084] by (simp add: fsub_def)
  have [simp]: "fmul 2 (8388609 / 8388608) = 8388609 / 4194304"
    using round_f32_near [of 1 "8388609 / 4194304" 8388609] by (simp add: fmul_def)
  have [simp]: "fdiv (2131021 / 131072) (8388609 / 4194304) = 8524083 / 1048576"
    using round_f32_near [of 3 "68192672 / 8388609" 8524083] by (simp add: fdiv_def)
  have [simp]: "fmul (- (5860601 / 134217728)) (8524083 / 1048576) = - (5955249 / 16777216)"
    using round_f32_near [of "- 2" "- (49956249353883 / 140737488355328)" "- 11910498"] by (simp add: fmul_def)
  have [simp]: "fmul (15460189 / 134217728) (8524083 / 1048576) = 15709869 / 16777216"
    using round_f32_near [of "- 1" "131783934231687 / 140737488355328" 15709869] by (simp add: fmul_def)
  have [simp]: "fmul (16649435 / 16777216) (8524083 / 1048576) = 8459161 / 1048576"
    using round_f32_near [of 3 "141921165843105 / 17592186044416" 8459161] by (simp add: fmul_def)
  have [simp]: "fadd 0 (- (5955249 / 16777216)) = - (5955249 / 16777216)"
    using round_f32_near [of "- 2" "- (5955249 / 16777216)" "- 11910498"] by (simp add: fadd_def)
  have [simp]: "fadd 1 (15709869 / 16777216) = 8121771 / 4194304"
    using round_f32_tie [of 0 "32487085 / 16777216" 16243542] by (simp add: fadd_def)
  have [simp]: "fadd (- 6) (8459161 / 1048576) = 2167705 / 1048576"
    using round_f32_near [of 1 "2167705 / 1048576" 8670820] by (simp add: fadd_def)
  have [simp]: "fsub (- (5955249 / 16777216)) 0 = - (5955249 / 16777216)"
    using round_f32_near [of "- 2" "- (5955249 / 16777216)" "- 11910498"] by (simp add: fsub_def)
  have [simp]: "fsub (8121771 / 4194304) 2 = - (266837 / 4194304)"
    using round_f32_near [of "- 4" "- (266837 / 4194304)" "- 8538784"] by (simp add: fsub_def)
  have [simp]: "fsub (2167705 / 1048576) 3 = - (978023 / 1048576)"
    using round_f32_near [of "- 1" "- (978023 / 1048576)" "- 15648368"] by (simp add: fsub_def)
  have [simp]: "fmul (- (5955249 / 16777216)) (- (5955249 / 16777216)) = 8455513 / 67108864"
    using round_f32_near [of "- 3" "35464990652001 / 281474976710656" 8455513] by (simp add: fmul_def)
  have [simp]: "fmul (- (266837 / 4194304)) (- (266837 / 4194304)) = 8691649 / 2147483648"
    using round_f32_near [of "- 8" "71201984569 / 17592186044416" 8691649] by (simp add: fmul_def)
  have [simp]: "fadd (8455513 / 67108864) (8691649 / 2147483648) = 8727127 / 67108864"
    using round_f32_near [of "- 3" "279268065 / 2147483648" 8727127] by (simp add: fadd_def)
  have [simp]: "fmul (- (978023 / 1048576)) (- (978023 / 1048576)) = 7297737 / 8388608"
    using round_f32_near [of "- 1" "956528988529 / 1099511627776" 14595474] by (simp add: fmul_def)
  have [simp]: "fadd (8727127 / 67108864) (7297737 / 8388608) = 2097157 / 2097152"
    using round_f32_near [of 0 "67109023 / 67108864" 8388628] by (simp add: fadd_def)
  have [simp]: "fsqrt (2097157 / 2097152) = 4194309 / 4194304"
    using fsqrt_near [of 0 8388618 "2097157 / 2097152"] by simp
  have [simp]: "fdiv (- (5955249 / 16777216)) (4194309 / 4194304) = - (2977621 / 8388608)"
    using round_f32_near [of "- 2" "- (1985083 / 5592412)" "- 11910484"] by (simp add: fdiv_def)
  have [simp]: "fdiv (- (266837 / 4194304)) (4194309 / 4194304) = - (4269387 / 67108864)"
    using round_f32_near [of "- 4" "- (266837 / 4194309)" "- 8538774"] by (simp add: fdiv_def)
  have [simp]: "fdiv (- (978023 / 1048576)) (4194309 / 4194304) = - (15648349 / 16777216)"
    using round_f32_near [of "- 1" "- (3912092 / 4194309)" "- 15648349"] by (simp add: fdiv_def)
  have [simp]: "fmul (- (2977621 / 8388608)) 2 = - (2977621 / 4194304)"
    using round_f32_near [of "- 1" "- (2977621 / 4194304)" "- 11910484"] by (simp add: fmul_def)
  have [simp]: "fmul (- (4269387 / 67108864)) 2 = - (4269387 / 33554432)"
    using round_f32_near [of "- 3" "- (4269387 / 33554432)" "- 8538774"] by (simp add: fmul_def)
  have [simp]: "fmul (- (15648349 / 16777216)) 2 = - (15648349 / 8388608)"
    using round_f32_near [of 0 "- (15648349 / 8388608)" "- 15648349"] by (simp add: fmul_def)
  have [simp]: "fmul (- (5860601 / 134217728)) (- (2977621 / 8388608)) = 16642235 / 1073741824"
    using round_f32_near [of "- 7" "17450648610221 / 1125899906842624" 16642235] by (simp add: fmul_def)
  have [simp]: "fmul (15460189 / 134217728) (- (4269387 / 67108864)) = - (15736945 / 2147483648)"
    using round_f32_near [of "- 8" "- (66005529934143 / 9007199254740992)" "- 15736945"] by (simp add: fmul_def)
  have [simp]: "fadd (16642235 / 1073741824) (- (15736945 / 2147483648)) = 4386881 / 536870912"
    using round_f32_tie [of "- 7" "17547525 / 2147483648" 8773762] by (simp add: fadd_def)
  have [simp]: "fmul (16649435 / 16777216) (- (15648349 / 16777216)) = - (7764583 / 8388608)"
    using round_f32_near [of "- 1" "- (260536169532815 / 281474976710656)" "- 15529166"] by (simp add: fmul_def)
  have [simp]: "fadd (4386881 / 536870912) (- (7764583 / 8388608)) = - (3848019 / 4194304)"
    using round_f32_near [of "- 1" "- (492546431 / 536870912)" "- 15392076"] by (simp add: fadd_def)
  have [simp]: "fmul (- (2977621 / 4194304)) (- (3848019 / 4194304)) = 10927145 / 16777216"
    using round_f32_near [of "- 1" "11457942182799 / 17592186044416" 10927145] by (simp add: fmul_def)
  have [simp]: "fmul (- (4269387 / 33554432)) (- (3848019 / 4194304)) = 3916903 / 33554432"
    using round_f32_near [of "- 4" "16428682294353 / 140737488355328" 15667612] by (simp add: fmul_def)
  have [simp]: "fmul (- (15648349 / 8388608)) (- (3848019 / 4194304)) = 14356409 / 8388608"
    using round_f32_near [of 0 "60215144270631 / 35184372088832" 14356409] by (simp add: fmul_def)
  have [simp]: "fsub (- (5860601 / 134217728)) (10927145 / 16777216) = - (1457465 / 2097152)"
    using round_f32_near [of "- 1" "- (93277761 / 134217728)" "- 11659720"] by (simp add: fsub_def)
  have [simp]: "fsub (15460189 / 134217728) (3916903 / 33554432) = - (207423 / 134217728)"
    using round_f32_near [of "- 10" "- (207423 / 134217728)" "- 13275072"] by (simp add: fsub_def)
  have [simp]: "fsub (16649435 / 16777216) (14356409 / 8388608) = - (12063383 / 16777216)"
    using round_f32_near [of "- 1" "- (12063383 / 16777216)" "- 12063383"] by (simp add: fsub_def)
  have [simp]: "fmul (- (1457465 / 2097152)) (- (1457465 / 2097152)) = 2025799 / 4194304"
    using round_f32_near [of "- 2" "2124204226225 / 4398046511104" 16206392] by (simp add: fmul_def)
  have [simp]: "fmul (- (207423 / 134217728)) (- (207423 / 134217728)) = 2625995 / 1099511627776"
    using round_f32_near [of "- 19" "43024300929 / 18014398509481984" 10503980] by (simp add: fmul_def)
  have [simp]: "fadd (2025799 / 4194304) (2625995 / 1099511627776) = 2025809 / 4194304"
    using round_f32_near [of "- 2" "531053679051 / 1099511627776" 16206472] by (simp add: fadd_def)
  have [simp]: "fmul (- (12063383 / 16777216)) (- (12063383 / 16777216)) = 4336989 / 8388608"
    using round_f32_near [of "- 1" "145525209404689 / 281474976710656" 8673978] by (simp add: fmul_def)
  have [simp]: "fadd (2025809 / 4194304) (4336989 / 8388608) = 8388607 / 8388608"
    using round_f32_near [of "- 1" "8388607 / 8388608" 16777214] by (simp add: fadd_def)
  have [simp]: "fsqrt (8388607 / 8388608) = 16777215 / 16777216"
    using fsqrt_near [of "- 1" 16777215 "8388607 / 8388608"] by simp
  have [simp]: "fdiv (- (1457465 / 2097152)) (16777215 / 16777216) = - (11659721 / 16777216)"
    using round_f32_near [of "- 1" "- (2331944 / 3355443)" "- 11659721"] by (simp add: fdiv_def)
  have [simp]: "fdiv (- (207423 / 134217728)) (16777215 / 16777216) = - (13275073 / 8589934592)"
    using round_f32_near [of "- 10" "- (23047 / 14913080)" "- 13275073"] by (simp add: fdiv_def)
  have [simp]: "fdiv (- (12063383 / 16777216)) (16777215 / 16777216) = - (1507923 / 2097152)"
    using round_f32_near [of "- 1" "- (12063383 / 16777215)" "- 12063384"] by (simp add: fdiv_def)
  have [simp]: "fdiv (- (8121771 / 4194304)) (- (13275073 / 8589934592)) = 2566101 / 2048"
    using round_f32_near [of 10 "2376198144 / 1896439" 10264404] by (simp add: fdiv_def)
  have [simp]: "fmul (- (11659721 / 16777216)) (2566101 / 2048) = - (7133489 / 8192)"
    using round_f32_near [of 9 "- (29920021717821 / 34359738368)" "- 14266978"] by (simp add: fmul_def)
  have [simp]: "fmul (- (13275073 / 8589934592)) (2566101 / 2048) = - (16243543 / 8388608)"
    using round_f32_near [of 0 "- (34065178100373 / 17592186044416)" "- 16243543"] by (simp add: fmul_def)
  have [simp]: "fmul (- (1507923 / 2097152)) (2566101 / 2048) = - (14760905 / 16384)"
    using round_f32_near [of 9 "- (3869482718223 / 4294967296)" "- 14760905"] by (simp add: fmul_def)
  have [simp]: "fadd (- (5955249 / 16777216)) (- (7133489 / 8192)) = - (7136397 / 8192)"
    using round_f32_near [of 9 "- (14615340721 / 16777216)" "- 14272794"] by (simp add: fadd_def)
  have [simp]: "fadd (8121771 / 4194304) (- (16243543 / 8388608)) = - (1 / 8388608)"
    using round_f32_near [of "- 23" "- (1 / 8388608)" "- 8388608"] by (simp add: fadd_def)
  have [simp]: "fadd (2167705 / 1048576) (- (14760905 / 16384)) = - (14727035 / 16384)"
    using round_f32_near [of 9 "- (942530215 / 1048576)" "- 14727035"] by (simp add: fadd_def)
  have [simp]: "fmul 1 6 = 6"
    using round_f32_near [of 2 "6" 12582912] by (simp add: fmul_def)
  show ray: "camera_ray 200 250 (Vec3 0 1 (- 6)) 89 43 = \<lparr>origin = Vec3 0 1 (- 6),
     direction = Vec3 (- (5860601 / 134217728)) (15460189 / 134217728) (16649435 /
     16777216)\<rparr>"
    by (simp add: camera_ray_def adjusted_200_250 view_u_def view_v_def mkRay_def normalize_vec_def)
  show hit: "intersect scene_sphere (camera_ray 200 250 (Vec3 0 1 (- 6)) 89 43) = Some (8524083
     / 1048576, Vec3 (- (5955249 / 16777216)) (8121771 / 4194304) (2167705 / 1048576), Vec3 (-
     (2977621 / 8388608)) (- (4269387 / 67108864)) (- (15648349 / 16777216)))"
    by (simp add: ray intersect_def scene_sphere_def vsub_def vadd_def vscale_def dot_def normalize_vec_def)
  show mag: "magnitude (vsub (Vec3 (- (5955249 / 16777216)) (8121771 / 4194304) (2167705 /
     1048576)) (center scene_sphere)) = 4194309 / 4194304"
    by (simp add: magnitude_def scene_sphere_def vsub_def)
  show mirror: "Vec3 (- (1457465 / 2097152)) (- (207423 / 134217728)) (- (12063383 / 16777216))
     = vsub (direction (camera_ray 200 250 (Vec3 0 1 (- 6)) 89 43)) (vscale (vscale (Vec3 (-
     (2977621 / 8388608)) (- (4269387 / 67108864)) (- (15648349 / 16777216))) 2) (dot
     (direction (camera_ray 200 250 (Vec3 0 1 (- 6)) 89 43)) (Vec3 (- (2977621 / 8388608)) (-
     (4269387 / 67108864)) (- (15648349 / 16777216)))))"
    by (simp add: ray vsub_def vadd_def vscale_def dot_def)
  show dir: "Vec3 (- (11659721 / 16777216)) (- (13275073 / 8589934592)) (- (1507923 / 2097152))
     = normalize_vec (Vec3 (- (1457465 / 2097152)) (- (207423 / 134217728)) (- (12063383 /
     16777216)))"
    by (simp add: normalize_vec_def)
  show quot: "2566101 / 2048 = fdiv (- vy (Vec3 (- (5955249 / 16777216)) (8121771 / 4194304)
     (2167705 / 1048576))) (vy (Vec3 (- (11659721 / 16777216)) (- (13275073 / 8589934592)) (-
     (1507923 / 2097152))))"
    by simp
  have refl: "reflection_ray (camera_ray 200 250 (Vec3 0 1 (- 6)) 89 43) (Vec3 (- (5955249 /
     16777216)) (8121771 / 4194304) (2167705 / 1048576)) (Vec3 (- (2977621 / 8388608)) (-
     (4269387 / 67108864)) (- (15648349 / 16777216))) = \<lparr>origin = Vec3 (- (5955249 /
     16777216)) (8121771 / 4194304) (2167705 / 1048576), direction = Vec3 (- (11659721 /
     16777216)) (- (13275073 / 8589934592)) (- (1507923 / 2097152))\<rparr>"
    by (simp add: ray reflection_ray_def reflectionDir_def mkRay_def vsub_def vadd_def vscale_def dot_def normalize_vec_def)
  have dist: "floor_dist (Vec3 (- (5955249 / 16777216)) (8121771 / 4194304) (2167705 /
     1048576)) (reflection_ray (camera_ray 200 250 (Vec3 0 1 (- 6)) 89 43) (Vec3 (- (5955249 /
     16777216)) (8121771 / 4194304) (2167705 / 1048576)) (Vec3 (- (2977621 / 8388608)) (-
     (4269387 / 67108864)) (- (15648349 / 16777216)))) = 2566101 / 2048"
    by (simp add: refl floor_dist_def)
  show cross: "Vec3 (- (7136397 / 8192)) (- (1 / 8388608)) (- (14727035 / 16384)) = vadd (Vec3
     (- (5955249 / 16777216)) (8121771 / 4194304) (2167705 / 1048576)) (vscale (Vec3 (-
     (11659721 / 16777216)) (- (13275073 / 8589934592)) (- (1507923 / 2097152))) (2566101 /
     2048))"
    by (simp add: vsub_def vadd_def vscale_def dot_def)
  have point: "floor_point (Vec3 (- (5955249 / 16777216)) (8121771 / 4194304) (2167705 /
     1048576)) (reflection_ray (camera_ray 200 250 (Vec3 0 1 (- 6)) 89 43) (Vec3 (- (5955249 /
     16777216)) (8121771 / 4194304) (2167705 / 1048576)) (Vec3 (- (2977621 / 8388608)) (-
     (4269387 / 67108864)) (- (15648349 / 16777216)))) = Vec3 (- (7136397 / 8192)) (- (1 /
     8388608)) (- (14727035 / 16384))"
    by (simp add: refl floor_point_def floor_dist_def vsub_def vadd_def vscale_def dot_def)
  show char: "newChar 200 250 (Vec3 0 1 (- 6)) 89 43 = CHR '' ''"
    by (simp add: newChar_def shade_ray_def hit dist point getShade_def shades_def
        static_cast_int_def isCheckerboard_even float_of_int_6)
qed

text \<open>
  The cell \<open>(100, 57)\<close> of the first frame: the ray misses the sphere and reaches the floor
  just below \<open>z = 106\<close>, on a tile that the program draws blank.
\<close>

lemma first_frame_100_57:
  shows first_frame_100_57_ray: "camera_ray 200 250 (Vec3 0 1 (- 6)) 100 57 = \<lparr>origin =
     Vec3 0 1 (- 6), direction = Vec3 0 (- (9586599 / 1073741824)) (4194137 / 4194304)\<rparr>"
    and first_frame_100_57_miss: "intersect scene_sphere (camera_ray 200 250 (Vec3 0 1 (- 6))
     100 57) = None"
    and first_frame_100_57_down: "vy (direction (camera_ray 200 250 (Vec3 0 1 (- 6)) 100 57)) =
     - (9586599 / 1073741824)"
    and first_frame_100_57_point: "floor_point (Vec3 0 1 (- 6)) (camera_ray 200 250 (Vec3 0 1
     (- 6)) 100 57) = Vec3 0 0 (13893631 / 131072)"
    and first_frame_100_57_char: "newChar 200 250 (Vec3 0 1 (- 6)) 100 57 = CHR '' ''"
proof -
  have [simp]: "float_of_int 200 = 200"
    using round_f32_near [of 7 "200" 13107200] by (simp add: float_of_int_def)
  have [simp]: "float_of_int 250 = 250"
    using round_f32_near [of 7 "250" 16384000] by (simp add: float_of_int_def)
  have [simp]: "fdiv 200 250 = 13421773 / 16777216"
    using round_f32_near [of "- 1" "4 / 5" 13421773] by (simp add: fdiv_def)
  have [simp]: "float_of_int 100 = 100"
    using round_f32_near [of 6 "100" 13107200] by (simp add: float_of_int_def)
  have [simp]: "fdiv 200 2 = 100"
    using round_f32_near [of 6 "100" 13107200] by (simp add: fdiv_def)
  have [simp]: "fsub 100 100 = 0"
    by (simp add: fsub_def round_f32_zero)
  have [simp]: "fdiv 0 200 = 0"
    by (simp add: fdiv_def round_f32_zero)
  have [simp]: "fmul 0 (13421773 / 16777216) = 0"
    by (simp add: fmul_def round_f32_zero)
  have [simp]: "float_of_int 112 = 112"
    using round_f32_near [of 6 "112" 14680064] by (simp add: float_of_int_def)
  have [simp]: "fdiv 112 2 = 56"
    using round_f32_near [of 5 "56" 14680064] by (simp add: fdiv_def)
  have [simp]: "float_of_int 57 = 57"
    using round_f32_near [of 5 "57" 14942208] by (simp add: float_of_int_def)
  have [simp]: "fsub 56 57 = - 1"
    using round_f32_near [of 0 "- 1" "- 8388608"] by (simp add: fsub_def)
  have [simp]: "fdiv (- 1) 112 = - (9586981 / 1073741824)"
    using round_f32_near [of "- 7" "- (1 / 112)" "- 9586981"] by (simp add: fdiv_def)
  have [simp]: "fmul 0 0 = 0"
    by (simp add: fmul_def round_f32_zero)
  have [simp]: "fmul (- (9586981 / 1073741824)) (- (9586981 / 1073741824)) = 5478275 / 68719476736"
    using round_f32_near [of "- 14" "91910204694361 / 1152921504606846976" 10956550] by (simp add: fmul_def)
  have [simp]: "fadd 0 (5478275 / 68719476736) = 5478275 / 68719476736"
    using round_f32_near [of "- 14" "5478275 / 68719476736" 10956550] by (simp add: fadd_def)
  have [simp]: "fmul 1 1 = 1"
    using round_f32_near [of 0 "1" 8388608] by (simp add: fmul_def)
  have [simp]: "fadd (5478275 / 68719476736) 1 = 8389277 / 8388608"
    using round_f32_near [of 0 "68724955011 / 68719476736" 8389277] by (simp add: fadd_def)
  have [simp]: "fsqrt (8389277 / 8388608) = 4194471 / 4194304"
    using fsqrt_near [of 0 8388942 "8389277 / 8388608"] by simp
  have [simp]: "fdiv 0 (4194471 / 4194304) = 0"
    by (simp add: fdiv_def round_f32_zero)
  have [simp]: "fdiv (- (9586981 / 1073741824)) (4194471 / 4194304) = - (9586599 / 1073741824)"
    using round_f32_near [of "- 7" "- (9586981 / 1073784576)" "- 9586599"] by (simp add: fdiv_def)
  have [simp]: "fdiv 1 (4194471 / 4194304) = 4194137 / 4194304"
    using round_f32_near [of "- 1" "4194304 / 4194471" 16776548] by (simp add: fdiv_def)
  have [simp]: "fsub 0 0 = 0"
    by (simp add: fsub_def round_f32_zero)
  have [simp]: "fsub 1 2 = - 1"
    using round_f32_near [of 0 "- 1" "- 8388608"] by (simp add: fsub_def)
  have [simp]: "fsub (- 6) 3 = - 9"
    using round_f32_near [of 3 "- 9" "- 9437184"] by (simp add: fsub_def)
  have [simp]: "fmul (- (9586599 / 1073741824)) (- (9586599 / 1073741824)) = 10955677 / 137438953472"
    using round_f32_near [of "- 14" "91902880386801 / 1152921504606846976" 10955677] by (simp add: fmul_def)
  have [simp]: "fadd 0 (10955677 / 137438953472) = 10955677 / 137438953472"
    using round_f32_near [of "- 14" "10955677 / 137438953472" 10955677] by (simp add: fadd_def)
  have [simp]: "fmul (4194137 / 4194304) (4194137 / 4194304) = 2096985 / 2097152"
    using round_f32_near [of "- 1" "17590785174769 / 17592186044416" 16775880] by (simp add: fmul_def)
  have [simp]: "fadd (10955677 / 137438953472) (2096985 / 2097152) = 8388609 / 8388608"
    using round_f32_near [of 0 "137438964637 / 137438953472" 8388609] by (simp add: fadd_def)
  have [simp]: "fmul (- 1) (- (9586599 / 1073741824)) = 9586599 / 1073741824"
    using round_f32_near [of "- 7" "9586599 / 1073741824" 9586599] by (simp add: fmul_def)
  have [simp]: "fadd 0 (9586599 / 1073741824) = 9586599 / 1073741824"
    using round_f32_near [of "- 7" "9586599 / 1073741824" 9586599] by (simp add: fadd_def)
  have [simp]: "fmul (- 9) (4194137 / 4194304) = - (1179601 / 131072)"
    using round_f32_near [of 3 "- (37747233 / 4194304)" "- 9436808"] by (simp add: fmul_def)
  have [simp]: "fadd (9586599 / 1073741824) (- (1179601 / 131072)) = - (4713723 / 524288)"
    using round_f32_near [of 3 "- (9653704793 / 1073741824)" "- 9427446"] by (simp add: fadd_def)
  have [simp]: "fmul 2 (- (4713723 / 524288)) = - (4713723 / 262144)"
    using round_f32_near [of 4 "- (4713723 / 262144)" "- 9427446"] by (simp add: fmul_def)
  have [simp]: "fmul (- 1) (- 1) = 1"
    using round_f32_near [of 0 "1" 8388608] by (simp add: fmul_def)
  have [simp]: "fadd 0 1 = 1"
    using round_f32_near [of 0 "1" 8388608] by (simp add: fadd_def)
  have [simp]: "fmul (- 9) (- 9) = 81"
    using round_f32_near [of 6 "81" 10616832] by (simp add: fmul_def)
  have [simp]: "fadd 1 81 = 82"
    using round_f32_near [of 6 "82" 10747904] by (simp add: fadd_def)
  have [simp]: "fsub 82 1 = 81"
    using round_f32_near [of 6 "81" 10616832] by (simp add: fsub_def)
  have [simp]: "fmul (- (4713723 / 262144)) (- (4713723 / 262144)) = 10594933 / 32768"
    using round_f32_near [of 8 "22219184520729 / 68719476736" 10594933] by (simp add: fmul_def)
  have [simp]: "fmul 4 (8388609 / 8388608) = 8388609 / 2097152"
    using round_f32_near [of 2 "8388609 / 2097152" 8388609] by (simp add: fmul_def)
  have [simp]: "fmul (8388609 / 2097152) 81 = 10616833 / 32768"
    using round_f32_near [of 8 "679477329 / 2097152" 10616833] by (simp add: fmul_def)
  have [simp]: "fsub (10594933 / 32768) (10616833 / 32768) = - (5475 / 8192)"
    using round_f32_near [of "- 1" "- (5475 / 8192)" "- 11212800"] by (simp add: fsub_def)
  have [simp]: "fdiv (- 1) (- (9586599 / 1073741824)) = 1835081 / 16384"
    using round_f32_near [of 6 "1073741824 / 9586599" 14680648] by (simp add: fdiv_def)
  have [simp]: "fmul 0 (1835081 / 16384) = 0"
    by (simp add: fmul_def round_f32_zero)
  have [simp]: "fmul (- (9586599 / 1073741824)) (1835081 / 16384) = - 1"
    using round_f32_near [of "- 1" "- (17592185679519 / 17592186044416)" "- 16777216"] by (simp add: fmul_def)
  have [simp]: "fmul (4194137 / 4194304) (1835081 / 16384) = 14680063 / 131072"
    using round_f32_near [of 6 "7696581120097 / 68719476736" 14680063] by (simp add: fmul_def)
  have [simp]: "fadd 0 0 = 0"
    by (simp add: fadd_def round_f32_zero)
  have [simp]: "fadd 1 (- 1) = 0"
    by (simp add: fadd_def round_f32_zero)
  have [simp]: "fadd (- 6) (14680063 / 131072) = 13893631 / 131072"
    using round_f32_near [of 6 "13893631 / 131072" 13893631] by (simp add: fadd_def)
  have [simp]: "fmul 1 6 = 6"
    using round_f32_near [of 2 "6" 12582912] by (simp add: fmul_def)
  show ray: "camera_ray 200 250 (Vec3 0 1 (- 6)) 100 57 = \<lparr>origin = Vec3 0 1 (- 6),
     direction = Vec3 0 (- (9586599 / 1073741824)) (4194137 / 4194304)\<rparr>"
    by (simp add: camera_ray_def adjusted_200_250 view_u_def view_v_def mkRay_def normalize_vec_def)
  show miss: "intersect scene_sphere (camera_ray 200 250 (Vec3 0 1 (- 6)) 100 57) = None"
    by (simp add: ray intersect_def scene_sphere_def vsub_def vadd_def vscale_def dot_def normalize_vec_def)
  show down: "vy (direction (camera_ray 200 250 (Vec3 0 1 (- 6)) 100 57)) = - (9586599 /
     1073741824)"
    by (simp add: ray)
  show point: "floor_point (Vec3 0 1 (- 6)) (camera_ray 200 250 (Vec3 0 1 (- 6)) 100 57) = Vec3
     0 0 (13893631 / 131072)"
    by (simp add: ray floor_point_def floor_dist_def vsub_def vadd_def vscale_def dot_def)
  show char: "newChar 200 250 (Vec3 0 1 (- 6)) 100 57 = CHR '' ''"
    by (simp add: newChar_def shade_ray_def miss down point getShade_def shades_def
        static_cast_int_def isCheckerboard_even float_of_int_6)
qed

text \<open>
  The cell \<open>(110, 80)\<close> seen from \<open>(1/4, 5/2, 1345809/1048576)\<close>: the hit distance is the
  binary32 number \<open>13981013/16777216\<close>, whose product with 6 rounds to 5.
\<close>

lemma sky_cell_110_80:
  shows sky_cell_110_80_ray: "camera_ray 200 250 (Vec3 (1 / 4) (5 / 2) (1345809 / 1048576)) 110
     80 = \<lparr>origin = Vec3 (1 / 4) (5 / 2) (1345809 / 1048576), direction = Vec3 (10491053
     / 268435456) (- (14050517 / 67108864)) (8196135 / 8388608)\<rparr>"
    and sky_cell_110_80_hit: "intersect scene_sphere (camera_ray 200 250 (Vec3 (1 / 4) (5 / 2)
     (1345809 / 1048576)) 110 80) = Some (13981013 / 16777216, Vec3 (4740713 / 16777216)
     (4876981 / 2097152) (2199573 / 1048576), Vec3 (4740713 / 16777216) (682677 / 2097152) (-
     (946155 / 1048576)))"
    and sky_cell_110_80_mag: "magnitude (vsub (Vec3 (4740713 / 16777216) (4876981 / 2097152)
     (2199573 / 1048576)) (center scene_sphere)) = 1"
    and sky_cell_110_80_mirror: "Vec3 (597263 / 1048576) (3370491 / 8388608) (- (6014839 /
     8388608)) = vsub (direction (camera_ray 200 250 (Vec3 (1 / 4) (5 / 2) (1345809 / 1048576))
     110 80)) (vscale (vscale (Vec3 (4740713 / 16777216) (682677 / 2097152) (- (946155 /
     1048576))) 2) (dot (direction (camera_ray 200 250 (Vec3 (1 / 4) (5 / 2) (1345809 /
     1048576)) 110 80)) (Vec3 (4740713 / 16777216) (682677 / 2097152) (- (946155 /
     1048576)))))"
    and sky_cell_110_80_dir: "Vec3 (4778103 / 8388608) (13481961 / 33554432) (- (12029675 /
     16777216)) = normalize_vec (Vec3 (597263 / 1048576) (3370491 / 8388608) (- (6014839 /
     8388608)))"
    and sky_cell_110_80_quot: "- (12138021 / 2097152) = fdiv (- vy (Vec3 (4740713 / 16777216)
     (4876981 / 2097152) (2199573 / 1048576))) (vy (Vec3 (4778103 / 8388608) (13481961 /
     33554432) (- (12029675 / 16777216))))"
    and sky_cell_110_80_char: "newChar 200 250 (Vec3 (1 / 4) (5 / 2) (1345809 / 1048576)) 110
     80 = CHR ''+''"
proof -
  have [simp]: "float_of_int 200 = 200"
    using round_f32_near [of 7 "200" 13107200] by (simp add: float_of_int_def)
  have [simp]: "float_of_int 250 = 250"
    using round_f32_near [of 7 "250" 16384000] by (simp add: float_of_int_def)
  have [simp]: "fdiv 200 250 = 13421773 / 16777216"
    using round_f32_near [of "- 1" "4 / 5" 13421773] by (simp add: fdiv_def)
  have [simp]: "float_of_int 110 = 110"
    using round_f32_near [of 6 "110" 14417920] by (simp add: float_of_int_def)
  have [simp]: "fdiv 200 2 = 100"
    using round_f32_near [of 6 "100" 13107200] by (simp add: fdiv_def)
  have [simp]: "fsub 110 100 = 10"
    using round_f32_near [of 3 "10" 10485760] by (simp add: fsub_def)
  have [simp]: "fdiv 10 200 = 13421773 / 268435456"
    using round_f32_near [of "- 5" "1 / 20" 13421773] by (simp add: fdiv_def)
  have [simp]: "fmul (13421773 / 268435456) (13421773 / 16777216) = 10737419 / 268435456"
    using round_f32_near [of "- 5" "180143990463529 / 4503599627370496" 10737419] by (simp add: fmul_def)
  have [simp]: "float_of_int 112 = 112"
    using round_f32_near [of 6 "112" 14680064] by (simp add: float_of_int_def)
  have [simp]: "fdiv 112 2 = 56"
    using round_f32_near [of 5 "56" 14680064] by (simp add: fdiv_def)
  have [simp]: "float_of_int 80 = 80"
    using round_f32_near [of 6 "80" 10485760] by (simp add: float_of_int_def)
  have [simp]: "fsub 56 80 = - 24"
    using round_f32_near [of 4 "- 24" "- 12582912"] by (simp add: fsub_def)
  have [simp]: "fdiv (- 24) 112 = - (14380471 / 67108864)"
    using round_f32_near [of "- 3" "- (3 / 14)" "- 14380471"] by (simp add: fdiv_def)
  have [simp]: "fmul (10737419 / 268435456) (10737419 / 268435456) = 13743897 / 8589934592"
    using round_f32_near [of "- 10" "115292166781561 / 72057594037927936" 13743897] by (simp add: fmul_def)
  have [simp]: "fmul (- (14380471 / 67108864)) (- (14380471 / 67108864)) = 6163059 / 134217728"
    using round_f32_near [of "- 5" "206797946181841 / 4503599627370496" 12326118] by (simp add: fmul_def)
  have [simp]: "fadd (13743897 / 8589934592) (6163059 / 134217728) = 12755615 / 268435456"
    using round_f32_near [of "- 5" "408179673 / 8589934592" 12755615] by (simp add: fadd_def)
  have [simp]: "fmul 1 1 = 1"
    using round_f32_near [of 0 "1" 8388608] by (simp add: fmul_def)
  have [simp]: "fadd (12755615 / 268435456) 1 = 8787221 / 8388608"
    using round_f32_near [of 0 "281191071 / 268435456" 8787221] by (simp add: fadd_def)
  have [simp]: "fsqrt (8787221 / 8388608) = 8585601 / 8388608"
    using fsqrt_near [of 0 8585601 "8787221 / 8388608"] by simp
  have [simp]: "fdiv (10737419 / 268435456) (8585601 / 8388608) = 10491053 / 268435456"
    using round_f32_near [of "- 5" "10737419 / 274739232" 10491053] by (simp add: fdiv_def)
  have [simp]: "fdiv (- (14380471 / 67108864)) (8585601 / 8388608) = - (14050517 / 67108864)"
    using round_f32_near [of "- 3" "- (14380471 / 68684808)" "- 14050517"] by (simp add: fdiv_def)
  have [simp]: "fdiv 1 (8585601 / 8388608) = 8196135 / 8388608"
    using round_f32_near [of "- 1" "8388608 / 8585601" 16392270] by (simp add: fdiv_def)
  have [simp]: "fsub (1 / 4) 0 = 1 / 4"
    using round_f32_near [of "- 2" "1 / 4" 8388608] by (simp add: fsub_def)
  have [simp]: "fsub (5 / 2) 2 = 1 / 2"
    using round_f32_near [of "- 1" "1 / 2" 8388608] by (simp add: fsub_def)
  have [simp]: "fsub (1345809 / 1048576) 3 = - (1799919 / 1048576)"
    using round_f32_near [of 0 "- (1799919 / 1048576)" "- 14399352"] by (simp add: fsub_def)
  have [simp]: "fmul (10491053 / 268435456) (10491053 / 268435456) = 3280109 / 2147483648"
    using round_f32_near [of "- 10" "110062193048809 / 72057594037927936" 13120436] by (simp add: fmul_def)
  have [simp]: "fmul (- (14050517 / 67108864)) (- (14050517 / 67108864)) = 2941743 / 67108864"
    using round_f32_near [of "- 5" "197417027967289 / 4503599627370496" 11766972] by (simp add: fmul_def)
  have [simp]: "fadd (3280109 / 2147483648) (2941743 / 67108864) = 6088493 / 134217728"
    using round_f32_near [of "- 5" "97415885 / 2147483648" 12176986] by (simp add: fadd_def)
  have [simp]: "fmul (8196135 / 8388608) (8196135 / 8388608) = 4004039 / 4194304"
    using round_f32_near [of "- 1" "67176628938225 / 70368744177664" 16016156] by (simp add: fmul_def)
  have [simp]: "fadd (6088493 / 134217728) (4004039 / 4194304) = 8388609 / 8388608"
    using round_f32_near [of 0 "134217741 / 134217728" 8388609] by (simp add: fadd_def)
  have [simp]: "fmul (1 / 4) (10491053 / 268435456) = 10491053 / 1073741824"
    using round_f32_near [of "- 7" "10491053 / 1073741824" 10491053] by (simp add: fmul_def)
  have [simp]: "fmul (1 / 2) (- (14050517 / 67108864)) = - (14050517 / 134217728)"
    using round_f32_near [of "- 4" "- (14050517 / 134217728)" "- 14050517"] by (simp add: fmul_def)
  have [simp]: "fadd (10491053 / 1073741824) (- (14050517 / 134217728)) = - (12739135 / 134217728)"
    using round_f32_near [of "- 4" "- (101913083 / 1073741824)" "- 12739135"] by (simp add: fadd_def)
  have [simp]: "fmul (- (1799919 / 1048576)) (8196135 / 8388608) = - (14068965 / 8388608)"
    using round_f32_near [of 0 "- (14752379113065 / 8796093022208)" "- 14068965"] by (simp add: fmul_def)
  have [simp]: "fadd (- (12739135 / 134217728)) (- (14068965 / 8388608)) = - (14865161 / 8388608)"
    using round_f32_near [of 0 "- (237842575 / 134217728)" "- 14865161"] by (simp add: fadd_def)
  have [simp]: "fmul 2 (- (14865161 / 8388608)) = - (14865161 / 4194304)"
    using round_f32_near [of 1 "- (14865161 / 4194304)" "- 14865161"] by (simp add: fmul_def)
  have [simp]: "fmul (1 / 4) (1 / 4) = 1 / 16"
    using round_f32_near [of "- 4" "1 / 16" 8388608] by (simp add: fmul_def)
  have [simp]: "fmul (1 / 2) (1 / 2) = 1 / 4"
    using round_f32_near [of "- 2" "1 / 4" 8388608] by (simp add: fmul_def)
  have [simp]: "fadd (1 / 16) (1 / 4) = 5 / 16"
    using round_f32_near [of "- 2" "5 / 16" 10485760] by (simp add: fadd_def)
  have [simp]: "fmul (- (1799919 / 1048576)) (- (1799919 / 1048576)) = 12358507 / 4194304"
    using round_f32_near [of 1 "3239708406561 / 1099511627776" 12358507] by (simp add: fmul_def)
  have [simp]: "fadd (5 / 16) (12358507 / 4194304) = 13669227 / 4194304"
    using round_f32_near [of 1 "13669227 / 4194304" 13669227] by (simp add: fadd_def)
  have [simp]: "fsub (13669227 / 4194304) 1 = 9474923 / 4194304"
    using round_f32_near [of 1 "9474923 / 4194304" 9474923] by (simp add: fsub_def)
  have [simp]: "fmul (- (14865161 / 4194304)) (- (14865161 / 4194304)) = 6585509 / 524288"
    using round_f32_near [of 3 "220973011555921 / 17592186044416" 13171018] by (simp add: fmul_def)
  have [simp]: "fmul 4 (8388609 / 8388608) = 8388609 / 2097152"
    using round_f32_near [of 2 "8388609 / 2097152" 8388609] by (simp add: fmul_def)
  have [simp]: "fmul (8388609 / 2097152) (9474923 / 4194304) = 2368731 / 262144"
    using round_f32_near [of 3 "79481424352107 / 8796093022208" 9474924] by (simp add: fmul_def)
  have [simp]: "fsub (6585509 / 524288) (2368731 / 262144) = 1848047 / 524288"
    using round_f32_near [of 1 "1848047 / 524288" 14784376] by (simp add: fsub_def)
  have [simp]: "fsqrt (1848047 / 524288) = 15749307 / 8388608"
    using fsqrt_near [of 0 15749307 "1848047 / 524288"] by simp
  have [simp]: "fsub (14865161 / 4194304) (15749307 / 8388608) = 13981015 / 8388608"
    using round_f32_near [of 0 "13981015 / 8388608" 13981015] by (simp add: fsub_def)
  have [simp]: "fmul 2 (8388609 / 8388608) = 8388609 / 4194304"
    using round_f32_near [of 1 "8388609 / 4194304" 8388609] by (simp add: fmul_def)
  have [simp]: "fdiv (13981015 / 8388608) (8388609 / 4194304) = 13981013 / 16777216"
    using round_f32_near [of "- 1" "5 / 6" 13981013] by (simp add: fdiv_def)
  have [simp]: "fmul (10491053 / 268435456) (13981013 / 16777216) = 546409 / 16777216"
    using round_f32_near [of "- 5" "146675548376689 / 4503599627370496" 8742544] by (simp add: fmul_def)
  have [simp]: "fmul (- (14050517 / 67108864)) (13981013 / 16777216) = - (2927191 / 16777216)"
    using round_f32_near [of "- 3" "- (196440460833721 / 1125899906842624)" "- 11708764"] by (simp add: fmul_def)
  have [simp]: "fmul (8196135 / 8388608) (13981013 / 16777216) = 13660225 / 16777216"
    using round_f32_near [of "- 1" "114590269984755 / 140737488355328" 13660225] by (simp add: fmul_def)
  have [simp]: "fadd (1 / 4) (546409 / 16777216) = 4740713 / 16777216"
    using round_f32_near [of "- 2" "4740713 / 16777216" 9481426] by (simp add: fadd_def)
  have [simp]: "fadd (5 / 2) (- (2927191 / 16777216)) = 4876981 / 2097152"
    using round_f32_near [of 1 "39015849 / 16777216" 9753962] by (simp add: fadd_def)
  have [simp]: "fadd (1345809 / 1048576) (13660225 / 16777216) = 2199573 / 1048576"
    using round_f32_near [of 1 "35193169 / 16777216" 8798292] by (simp add: fadd_def)
  have [simp]: "fsub (4740713 / 16777216) 0 = 4740713 / 16777216"
    using round_f32_near [of "- 2" "4740713 / 16777216" 9481426] by (simp add: fsub_def)
  have [simp]: "fsub (4876981 / 2097152) 2 = 682677 / 2097152"
    using round_f32_near [of "- 2" "682677 / 2097152" 10922832] by (simp add: fsub_def)
  have [simp]: "fsub (2199573 / 1048576) 3 = - (946155 / 1048576)"
    using round_f32_near [of "- 1" "- (946155 / 1048576)" "- 15138480"] by (simp add: fsub_def)
  have [simp]: "fmul (4740713 / 16777216) (4740713 / 16777216) = 5358305 / 67108864"
    using round_f32_near [of "- 4" "22474359748369 / 281474976710656" 10716610] by (simp add: fmul_def)
  have [simp]: "fmul (682677 / 2097152) (682677 / 2097152) = 14222653 / 134217728"
    using round_f32_near [of "- 4" "466047886329 / 4398046511104" 14222653] by (simp add: fmul_def)
  have [simp]: "fadd (5358305 / 67108864) (14222653 / 134217728) = 97419 / 524288"
    using round_f32_tie [of "- 3" "24939263 / 134217728" 12469632] by (simp add: fadd_def)
  have [simp]: "fmul (- (946155 / 1048576)) (- (946155 / 1048576)) = 6829905 / 8388608"
    using round_f32_near [of "- 1" "895209284025 / 1099511627776" 13659810] by (simp add: fmul_def)
  have [simp]: "fadd (97419 / 524288) (6829905 / 8388608) = 8388609 / 8388608"
    using round_f32_near [of 0 "8388609 / 8388608" 8388609] by (simp add: fadd_def)
  have [simp]: "fsqrt (8388609 / 8388608) = 1"
    using fsqrt_near [of 0 8388608 "8388609 / 8388608"] by simp
  have [simp]: "fdiv (4740713 / 16777216) 1 = 4740713 / 16777216"
    using round_f32_near [of "- 2" "4740713 / 16777216" 9481426] by (simp add: fdiv_def)
  have [simp]: "fdiv (682677 / 2097152) 1 = 682677 / 2097152"
    using round_f32_near [of "- 2" "682677 / 2097152" 10922832] by (simp add: fdiv_def)
  have [simp]: "fdiv (- (946155 / 1048576)) 1 = - (946155 / 1048576)"
    using round_f32_near [of "- 1" "- (946155 / 1048576)" "- 15138480"] by (simp add: fdiv_def)
  have [simp]: "fmul (4740713 / 16777216) 2 = 4740713 / 8388608"
    using round_f32_near [of "- 1" "4740713 / 8388608" 9481426] by (simp add: fmul_def)
  have [simp]: "fmul (682677 / 2097152) 2 = 682677 / 1048576"
    using round_f32_near [of "- 1" "682677 / 1048576" 10922832] by (simp add: fmul_def)
  have [simp]: "fmul (- (946155 / 1048576)) 2 = - (946155 / 524288)"
    using round_f32_near [of 0 "- (946155 / 524288)" "- 15138480"] by (simp add: fmul_def)
  have [simp]: "fmul (10491053 / 268435456) (4740713 / 16777216) = 11857765 / 1073741824"
    using round_f32_near [of "- 7" "49735071340789 / 4503599627370496" 11857765] by (simp add: fmul_def)
  have [simp]: "fmul (- (14050517 / 67108864)) (682677 / 2097152) = - (4573805 / 67108864)"
    using round_f32_near [of "- 4" "- (9591964794009 / 140737488355328)" "- 9147610"] by (simp add: fmul_def)
  have [simp]: "fadd (11857765 / 1073741824) (- (4573805 / 67108864)) = - (15330779 / 268435456)"
    using round_f32_near [of "- 5" "- (61323115 / 1073741824)" "- 15330779"] by (simp add: fadd_def)
  have [simp]: "fmul (8196135 / 8388608) (- (946155 / 1048576)) = - (7395567 / 8388608)"
    using round_f32_near [of "- 1" "- (7754814110925 / 8796093022208)" "- 14791134"] by (simp add: fmul_def)
  have [simp]: "fadd (- (15330779 / 268435456)) (- (7395567 / 8388608)) = - (3937327 / 4194304)"
    using round_f32_near [of "- 1" "- (251988923 / 268435456)" "- 15749308"] by (simp add: fadd_def)
  have [simp]: "fmul (4740713 / 8388608) (- (3937327 / 4194304)) = - (8900517 / 16777216)"
    using round_f32_near [of "- 1" "- (18665737294151 / 35184372088832)" "- 8900517"] by (simp add: fmul_def)
  have [simp]: "fmul (682677 / 1048576) (- (3937327 / 4194304)) = - (10253611 / 16777216)"
    using round_f32_near [of "- 1" "- (2687922584379 / 4398046511104)" "- 10253611"] by (simp add: fmul_def)
  have [simp]: "fmul (- (946155 / 524288)) (- (3937327 / 4194304)) = 7105487 / 4194304"
    using round_f32_near [of 0 "3725321627685 / 2199023255552" 14210974] by (simp add: fmul_def)
  have [simp]: "fsub (10491053 / 268435456) (- (8900517 / 16777216)) = 597263 / 1048576"
    using round_f32_near [of "- 1" "152899325 / 268435456" 9556208] by (simp add: fsub_def)
  have [simp]: "fsub (- (14050517 / 67108864)) (- (10253611 / 16777216)) = 3370491 / 8388608"
    using round_f32_tie [of "- 2" "26963927 / 67108864" 13481964] by (simp add: fsub_def)
  have [simp]: "fsub (8196135 / 8388608) (7105487 / 4194304) = - (6014839 / 8388608)"
    using round_f32_near [of "- 1" "- (6014839 / 8388608)" "- 12029678"] by (simp add: fsub_def)
  have [simp]: "fmul (597263 / 1048576) (597263 / 1048576) = 10886325 / 33554432"
    using round_f32_near [of "- 2" "356723091169 / 1099511627776" 10886325] by (simp add: fmul_def)
  have [simp]: "fmul (3370491 / 8388608) (3370491 / 8388608) = 2708485 / 16777216"
    using round_f32_near [of "- 3" "11360209581081 / 70368744177664" 10833940] by (simp add: fmul_def)
  have [simp]: "fadd (10886325 / 33554432) (2708485 / 16777216) = 16303295 / 33554432"
    using round_f32_near [of "- 2" "16303295 / 33554432" 16303295] by (simp add: fadd_def)
  have [simp]: "fmul (- (6014839 / 8388608)) (- (6014839 / 8388608)) = 1078197 / 2097152"
    using round_f32_near [of "- 1" "36178288195921 / 70368744177664" 8625576] by (simp add: fmul_def)
  have [simp]: "fadd (16303295 / 33554432) (1078197 / 2097152) = 2097153 / 2097152"
    using round_f32_near [of 0 "33554447 / 33554432" 8388612] by (simp add: fadd_def)
  have [simp]: "fsqrt (2097153 / 2097152) = 4194305 / 4194304"
    using fsqrt_near [of 0 8388610 "2097153 / 2097152"] by simp
  have [simp]: "fdiv (597263 / 1048576) (4194305 / 4194304) = 4778103 / 8388608"
    using round_f32_near [of "- 1" "2389052 / 4194305" 9556206] by (simp add: fdiv_def)
  have [simp]: "fdiv (3370491 / 8388608) (4194305 / 4194304) = 13481961 / 33554432"
    using round_f32_near [of "- 2" "3370491 / 8388610" 13481961] by (simp add: fdiv_def)
  have [simp]: "fdiv (- (6014839 / 8388608)) (4194305 / 4194304) = - (12029675 / 16777216)"
    using round_f32_near [of "- 1" "- (6014839 / 8388610)" "- 12029675"] by (simp add: fdiv_def)
  have [simp]: "fdiv (- (4876981 / 2097152)) (13481961 / 33554432) = - (12138021 / 2097152)"
    using round_f32_near [of 2 "- (78031696 / 13481961)" "- 12138021"] by (simp add: fdiv_def)
  have [simp]: "fmul (13981013 / 16777216) 6 = 5"
    using round_f32_near [of 2 "41943039 / 8388608" 10485760] by (simp add: fmul_def)
  show ray: "camera_ray 200 250 (Vec3 (1 / 4) (5 / 2) (1345809 / 1048576)) 110 80 =
     \<lparr>origin = Vec3 (1 / 4) (5 / 2) (1345809 / 1048576), direction = Vec3 (10491053 /
     268435456) (- (14050517 / 67108864)) (8196135 / 8388608)\<rparr>"
    by (simp add: camera_ray_def adjusted_200_250 view_u_def view_v_def mkRay_def normalize_vec_def)
  show hit: "intersect scene_sphere (camera_ray 200 250 (Vec3 (1 / 4) (5 / 2) (1345809 /
     1048576)) 110 80) = Some (13981013 / 16777216, Vec3 (4740713 / 16777216) (4876981 /
     2097152) (2199573 / 1048576), Vec3 (4740713 / 16777216) (682677 / 2097152) (- (946155 /
     1048576)))"
    by (simp add: ray intersect_def scene_sphere_def vsub_def vadd_def vscale_def dot_def normalize_vec_def)
  show mag: "magnitude (vsub (Vec3 (4740713 / 16777216) (4876981 / 2097152) (2199573 /
     1048576)) (center scene_sphere)) = 1"
    by (simp add: magnitude_def scene_sphere_def vsub_def)
  show mirror: "Vec3 (597263 / 1048576) (3370491 / 8388608) (- (6014839 / 8388608)) = vsub
     (direction (camera_ray 200 250 (Vec3 (1 / 4) (5 / 2) (1345809 / 1048576)) 110 80)) (vscale
     (vscale (Vec3 (4740713 / 16777216) (682677 / 2097152) (- (946155 / 1048576))) 2) (dot
     (direction (camera_ray 200 250 (Vec3 (1 / 4) (5 / 2) (1345809 / 1048576)) 110 80)) (Vec3
     (4740713 / 16777216) (682677 / 2097152) (- (946155 / 1048576)))))"
    by (simp add: ray vsub_def vadd_def vscale_def dot_def)
  show dir: "Vec3 (4778103 / 8388608) (13481961 / 33554432) (- (12029675 / 16777216)) =
     normalize_vec (Vec3 (597263 / 1048576) (3370491 / 8388608) (- (6014839 / 8388608)))"
    by (simp add: normalize_vec_def)
  show quot: "- (12138021 / 2097152) = fdiv (- vy (Vec3 (4740713 / 16777216) (4876981 /
     2097152) (2199573 / 1048576))) (vy (Vec3 (4778103 / 8388608) (13481961 / 33554432) (-
     (12029675 / 16777216))))"
    by simp
  have refl: "reflection_ray (camera_ray 200 250 (Vec3 (1 / 4) (5 / 2) (1345809 / 1048576)) 110
     80) (Vec3 (4740713 / 16777216) (4876981 / 2097152) (2199573 / 1048576)) (Vec3 (4740713 /
     16777216) (682677 / 2097152) (- (946155 / 1048576))) = \<lparr>origin = Vec3 (4740713 /
     16777216) (4876981 / 2097152) (2199573 / 1048576), direction = Vec3 (4778103 / 8388608)
     (13481961 / 33554432) (- (12029675 / 16777216))\<rparr>"
    by (simp add: ray reflection_ray_def reflectionDir_def mkRay_def vsub_def vadd_def vscale_def dot_def normalize_vec_def)
  have dist: "floor_dist (Vec3 (4740713 / 16777216) (4876981 / 2097152) (2199573 / 1048576))
     (reflection_ray (camera_ray 200 250 (Vec3 (1 / 4) (5 / 2) (1345809 / 1048576)) 110 80)
     (Vec3 (4740713 / 16777216) (4876981 / 2097152) (2199573 / 1048576)) (Vec3 (4740713 /
     16777216) (682677 / 2097152) (- (946155 / 1048576)))) = - (12138021 / 2097152)"
    by (simp add: refl floor_dist_def)
  show char: "newChar 200 250 (Vec3 (1 / 4) (5 / 2) (1345809 / 1048576)) 110 80 = CHR ''+''"
    by (simp add: newChar_def shade_ray_def hit dist getShade_def shades_def
        static_cast_int_def float_of_int_6)
qed

text \<open>
  The ray from \<open>(0, 2, - 8388608)\<close> along \<open>(0, 0, 1)\<close>, which is also the ray of the centre
  cell for a camera there. The squares \<open>8388611\<^sup>2\<close> and \<open>16777222\<^sup>2\<close> are rounded, the
  discriminant comes out as 0, the hit distance as 8388611 and the hit point as the centre
  of the sphere: \<open>hitPoint - center\<close> is the zero vector.
\<close>

lemma far_ray:
  shows far_ray_ray: "mkRay (Vec3 0 2 (- 8388608)) (Vec3 0 0 1) = \<lparr>origin = Vec3 0 2 (-
     8388608), direction = Vec3 0 0 1\<rparr>"
    and far_ray_cell: "camera_ray 200 250 (Vec3 0 2 (- 8388608)) 100 56 = \<lparr>origin = Vec3
     0 2 (- 8388608), direction = Vec3 0 0 1\<rparr>"
    and far_ray_disc: "quad_discriminant scene_sphere (\<lparr>origin = Vec3 0 2 (- 8388608),
     direction = Vec3 0 0 1\<rparr>) = 0"
    and far_ray_hit: "intersect scene_sphere (\<lparr>origin = Vec3 0 2 (- 8388608), direction
     = Vec3 0 0 1\<rparr>) = Some (8388611, Vec3 0 2 3, normalize_vec (Vec3 0 0 0))"
    and far_ray_centre: "vsub (Vec3 0 2 3) (center scene_sphere) = Vec3 0 0 0"
    and far_ray_mag: "magnitude (Vec3 0 0 0) = 0"
proof -
  have [simp]: "fmul 0 0 = 0"
    by (simp add: fmul_def round_f32_zero)
  have [simp]: "fadd 0 0 = 0"
    by (simp add: fadd_def round_f32_zero)
  have [simp]: "fmul 1 1 = 1"
    using round_f32_near [of 0 "1" 8388608] by (simp add: fmul_def)
  have [simp]: "fadd 0 1 = 1"
    using round_f32_near [of 0 "1" 8388608] by (simp add: fadd_def)
  have [simp]: "fsqrt 1 = 1"
    using fsqrt_near [of 0 8388608 "1"] by simp
  have [simp]: "fdiv 0 1 = 0"
    by (simp add: fdiv_def round_f32_zero)
  have [simp]: "fdiv 1 1 = 1"
    using round_f32_near [of 0 "1" 8388608] by (simp add: fdiv_def)
  have [simp]: "fsub 0 0 = 0"
    by (simp add: fsub_def round_f32_zero)
  have [simp]: "fsub 2 2 = 0"
    by (simp add: fsub_def round_f32_zero)
  have [simp]: "fsub (- 8388608) 3 = - 8388611"
    using round_f32_near [of 23 "- 8388611" "- 8388611"] by (simp add: fsub_def)
  have [simp]: "fmul (- 8388611) 1 = - 8388611"
    using round_f32_near [of 23 "- 8388611" "- 8388611"] by (simp add: fmul_def)
  have [simp]: "fadd 0 (- 8388611) = - 8388611"
    using round_f32_near [of 23 "- 8388611" "- 8388611"] by (simp add: fadd_def)
  have [simp]: "fmul 2 (- 8388611) = - 16777222"
    using round_f32_near [of 24 "- 16777222" "- 8388611"] by (simp add: fmul_def)
  have [simp]: "fmul (- 8388611) (- 8388611) = 70368794509312"
    using round_f32_near [of 46 "70368794509321" 8388614] by (simp add: fmul_def)
  have [simp]: "fadd 0 70368794509312 = 70368794509312"
    using round_f32_near [of 46 "70368794509312" 8388614] by (simp add: fadd_def)
  have [simp]: "fsub 70368794509312 1 = 70368794509312"
    using round_f32_near [of 46 "70368794509311" 8388614] by (simp add: fsub_def)
  have [simp]: "fmul (- 16777222) (- 16777222) = 281475178037248"
    using round_f32_near [of 48 "281475178037284" 8388614] by (simp add: fmul_def)
  have [simp]: "fmul 4 1 = 4"
    using round_f32_near [of 2 "4" 8388608] by (simp add: fmul_def)
  have [simp]: "fmul 4 70368794509312 = 281475178037248"
    using round_f32_near [of 48 "281475178037248" 8388614] by (simp add: fmul_def)
  have [simp]: "fsub 281475178037248 281475178037248 = 0"
    by (simp add: fsub_def round_f32_zero)
  have [simp]: "fsqrt 0 = 0"
    by (simp add: fsqrt_def round_f32_zero)
  have [simp]: "fsub 16777222 0 = 16777222"
    using round_f32_near [of 24 "16777222" 8388611] by (simp add: fsub_def)
  have [simp]: "fmul 2 1 = 2"
    using round_f32_near [of 1 "2" 8388608] by (simp add: fmul_def)
  have [simp]: "fdiv 16777222 2 = 8388611"
    using round_f32_near [of 23 "8388611" 8388611] by (simp add: fdiv_def)
  have [simp]: "fmul 0 8388611 = 0"
    by (simp add: fmul_def round_f32_zero)
  have [simp]: "fmul 1 8388611 = 8388611"
    using round_f32_near [of 23 "8388611" 8388611] by (simp add: fmul_def)
  have [simp]: "fadd 2 0 = 2"
    using round_f32_near [of 1 "2" 8388608] by (simp add: fadd_def)
  have [simp]: "fadd (- 8388608) 8388611 = 3"
    using round_f32_near [of 1 "3" 12582912] by (simp add: fadd_def)
  have [simp]: "fsub 3 3 = 0"
    by (simp add: fsub_def round_f32_zero)
  have [simp]: "float_of_int 200 = 200"
    using round_f32_near [of 7 "200" 13107200] by (simp add: float_of_int_def)
  have [simp]: "float_of_int 250 = 250"
    using round_f32_near [of 7 "250" 16384000] by (simp add: float_of_int_def)
  have [simp]: "fdiv 200 250 = 13421773 / 16777216"
    using round_f32_near [of "- 1" "4 / 5" 13421773] by (simp add: fdiv_def)
  have [simp]: "float_of_int 100 = 100"
    using round_f32_near [of 6 "100" 13107200] by (simp add: float_of_int_def)
  have [simp]: "fdiv 200 2 = 100"
    using round_f32_near [of 6 "100" 13107200] by (simp add: fdiv_def)
  have [simp]: "fsub 100 100 = 0"
    by (simp add: fsub_def round_f32_zero)
  have [simp]: "fdiv 0 200 = 0"
    by (simp add: fdiv_def round_f32_zero)
  have [simp]: "fmul 0 (13421773 / 16777216) = 0"
    by (simp add: fmul_def round_f32_zero)
  have [simp]: "float_of_int 112 = 112"
    using round_f32_near [of 6 "112" 14680064] by (simp add: float_of_int_def)
  have [simp]: "fdiv 112 2 = 56"
    using round_f32_near [of 5 "56" 14680064] by (simp add: fdiv_def)
  have [simp]: "float_of_int 56 = 56"
    using round_f32_near [of 5 "56" 14680064] by (simp add: float_of_int_def)
  have [simp]: "fsub 56 56 = 0"
    by (simp add: fsub_def round_f32_zero)
  have [simp]: "fdiv 0 112 = 0"
    by (simp add: fdiv_def round_f32_zero)
  show ray: "mkRay (Vec3 0 2 (- 8388608)) (Vec3 0 0 1) = \<lparr>origin = Vec3 0 2 (- 8388608),
     direction = Vec3 0 0 1\<rparr>"
    by (simp add: mkRay_def normalize_vec_def)
  show cell: "camera_ray 200 250 (Vec3 0 2 (- 8388608)) 100 56 = \<lparr>origin = Vec3 0 2 (-
     8388608), direction = Vec3 0 0 1\<rparr>"
    by (simp add: camera_ray_def adjusted_200_250 view_u_def view_v_def mkRay_def normalize_vec_def)
  show disc: "quad_discriminant scene_sphere (\<lparr>origin = Vec3 0 2 (- 8388608), direction
     = Vec3 0 0 1\<rparr>) = 0"
    by (simp add: quad_discriminant_def quad_a_def quad_b_def quad_c_def scene_sphere_def vsub_def vadd_def vscale_def dot_def)
  show hit: "intersect scene_sphere (\<lparr>origin = Vec3 0 2 (- 8388608), direction = Vec3 0
     0 1\<rparr>) = Some (8388611, Vec3 0 2 3, normalize_vec (Vec3 0 0 0))"
    by (simp add: intersect_def scene_sphere_def vsub_def vadd_def vscale_def dot_def)
  show centre: "vsub (Vec3 0 2 3) (center scene_sphere) = Vec3 0 0 0"
    by (simp add: scene_sphere_def vsub_def)
  show mag: "magnitude (Vec3 0 0 0) = 0"
    by (simp add: magnitude_def)
qed

text \<open>
  The ray from the origin along \<open>(0, 0, 1)\<close> against spheres of radius 1 and 2 centred at
  \<open>(0, 0, 5)\<close>: every operation is exact.
\<close>

lemma axis_ray:
  shows axis_ray_ray: "mkRay (Vec3 0 0 0) (Vec3 0 0 1) = \<lparr>origin = Vec3 0 0 0, direction
     = Vec3 0 0 1\<rparr>"
    and axis_ray_hit: "intersect \<lparr>center = Vec3 0 0 5, radius = 1\<rparr> (mkRay (Vec3 0
     0 0) (Vec3 0 0 1)) = Some (4, Vec3 0 0 4, Vec3 0 0 (- 1))"
    and axis_ray_hit2: "intersect \<lparr>center = Vec3 0 0 5, radius = 2\<rparr> (mkRay (Vec3
     0 0 0) (Vec3 0 0 1)) = Some (3, Vec3 0 0 3, Vec3 0 0 (- 1))"
    and axis_ray_opp: "vscale (direction (mkRay (Vec3 0 0 0) (Vec3 0 0 1))) (- 1) = Vec3 0 0 (-
     1)"
    and axis_ray_unit: "dot (Vec3 0 0 (- 1)) (Vec3 0 0 (- 1)) = 1"
proof -
  have [simp]: "fmul 0 0 = 0"
    by (simp add: fmul_def round_f32_zero)
  have [simp]: "fadd 0 0 = 0"
    by (simp add: fadd_def round_f32_zero)
  have [simp]: "fmul 1 1 = 1"
    using round_f32_near [of 0 "1" 8388608] by (simp add: fmul_def)
  have [simp]: "fadd 0 1 = 1"
    using round_f32_near [of 0 "1" 8388608] by (simp add: fadd_def)
  have [simp]: "fsqrt 1 = 1"
    using fsqrt_near [of 0 8388608 "1"] by simp
  have [simp]: "fdiv 0 1 = 0"
    by (simp add: fdiv_def round_f32_zero)
  have [simp]: "fdiv 1 1 = 1"
    using round_f32_near [of 0 "1" 8388608] by (simp add: fdiv_def)
  have [simp]: "fsub 0 0 = 0"
    by (simp add: fsub_def round_f32_zero)
  have [simp]: "fsub 0 5 = - 5"
    using round_f32_near [of 2 "- 5" "- 10485760"] by (simp add: fsub_def)
  have [simp]: "fmul (- 5) 1 = - 5"
    using round_f32_near [of 2 "- 5" "- 10485760"] by (simp add: fmul_def)
  have [simp]: "fadd 0 (- 5) = - 5"
    using round_f32_near [of 2 "- 5" "- 10485760"] by (simp add: fadd_def)
  have [simp]: "fmul 2 (- 5) = - 10"
    using round_f32_near [of 3 "- 10" "- 10485760"] by (simp add: fmul_def)
  have [simp]: "fmul (- 5) (- 5) = 25"
    using round_f32_near [of 4 "25" 13107200] by (simp add: fmul_def)
  have [simp]: "fadd 0 25 = 25"
    using round_f32_near [of 4 "25" 13107200] by (simp add: fadd_def)
  have [simp]: "fsub 25 1 = 24"
    using round_f32_near [of 4 "24" 12582912] by (simp add: fsub_def)
  have [simp]: "fmul (- 10) (- 10) = 100"
    using round_f32_near [of 6 "100" 13107200] by (simp add: fmul_def)
  have [simp]: "fmul 4 1 = 4"
    using round_f32_near [of 2 "4" 8388608] by (simp add: fmul_def)
  have [simp]: "fmul 4 24 = 96"
    using round_f32_near [of 6 "96" 12582912] by (simp add: fmul_def)
  have [simp]: "fsub 100 96 = 4"
    using round_f32_near [of 2 "4" 8388608] by (simp add: fsub_def)
  have [simp]: "fsqrt 4 = 2"
    using fsqrt_near [of 1 8388608 "4"] by simp
  have [simp]: "fsub 10 2 = 8"
    using round_f32_near [of 3 "8" 8388608] by (simp add: fsub_def)
  have [simp]: "fmul 2 1 = 2"
    using round_f32_near [of 1 "2" 8388608] by (simp add: fmul_def)
  have [simp]: "fdiv 8 2 = 4"
    using round_f32_near [of 2 "4" 8388608] by (simp add: fdiv_def)
  have [simp]: "fmul 0 4 = 0"
    by (simp add: fmul_def round_f32_zero)
  have [simp]: "fmul 1 4 = 4"
    using round_f32_near [of 2 "4" 8388608] by (simp add: fmul_def)
  have [simp]: "fadd 0 4 = 4"
    using round_f32_near [of 2 "4" 8388608] by (simp add: fadd_def)
  have [simp]: "fsub 4 5 = - 1"
    using round_f32_near [of 0 "- 1" "- 8388608"] by (simp add: fsub_def)
  have [simp]: "fmul (- 1) (- 1) = 1"
    using round_f32_near [of 0 "1" 8388608] by (simp add: fmul_def)
  have [simp]: "fdiv (- 1) 1 = - 1"
    using round_f32_near [of 0 "- 1" "- 8388608"] by (simp add: fdiv_def)
  have [simp]: "fmul 2 2 = 4"
    using round_f32_near [of 2 "4" 8388608] by (simp add: fmul_def)
  have [simp]: "fsub 25 4 = 21"
    using round_f32_near [of 4 "21" 11010048] by (simp add: fsub_def)
  have [simp]: "fmul 4 21 = 84"
    using round_f32_near [of 6 "84" 11010048] by (simp add: fmul_def)
  have [simp]: "fsub 100 84 = 16"
    using round_f32_near [of 4 "16" 8388608] by (simp add: fsub_def)
  have [simp]: "fsqrt 16 = 4"
    using fsqrt_near [of 2 8388608 "16"] by simp
  have [simp]: "fsub 10 4 = 6"
    using round_f32_near [of 2 "6" 12582912] by (simp add: fsub_def)
  have [simp]: "fdiv 6 2 = 3"
    using round_f32_near [of 1 "3" 12582912] by (simp add: fdiv_def)
  have [simp]: "fmul 0 3 = 0"
    by (simp add: fmul_def round_f32_zero)
  have [simp]: "fmul 1 3 = 3"
    using round_f32_near [of 1 "3" 12582912] by (simp add: fmul_def)
  have [simp]: "fadd 0 3 = 3"
    using round_f32_near [of 1 "3" 12582912] by (simp add: fadd_def)
  have [simp]: "fsub 3 5 = - 2"
    using round_f32_near [of 1 "- 2" "- 8388608"] by (simp add: fsub_def)
  have [simp]: "fmul (- 2) (- 2) = 4"
    using round_f32_near [of 2 "4" 8388608] by (simp add: fmul_def)
  have [simp]: "fdiv 0 2 = 0"
    by (simp add: fdiv_def round_f32_zero)
  have [simp]: "fdiv (- 2) 2 = - 1"
    using round_f32_near [of 0 "- 1" "- 8388608"] by (simp add: fdiv_def)
  have [simp]: "fmul 0 (- 1) = 0"
    by (simp add: fmul_def round_f32_zero)
  have [simp]: "fmul 1 (- 1) = - 1"
    using round_f32_near [of 0 "- 1" "- 8388608"] by (simp add: fmul_def)
  show ray: "mkRay (Vec3 0 0 0) (Vec3 0 0 1) = \<lparr>origin = Vec3 0 0 0, direction = Vec3 0
     0 1\<rparr>"
    by (simp add: mkRay_def normalize_vec_def)
  show hit: "intersect \<lparr>center = Vec3 0 0 5, radius = 1\<rparr> (mkRay (Vec3 0 0 0)
     (Vec3 0 0 1)) = Some (4, Vec3 0 0 4, Vec3 0 0 (- 1))"
    by (simp add: ray intersect_def vsub_def vadd_def vscale_def dot_def normalize_vec_def)
  show hit2: "intersect \<lparr>center = Vec3 0 0 5, radius = 2\<rparr> (mkRay (Vec3 0 0 0)
     (Vec3 0 0 1)) = Some (3, Vec3 0 0 3, Vec3 0 0 (- 1))"
    by (simp add: ray intersect_def vsub_def vadd_def vscale_def dot_def normalize_vec_def)
  show opp: "vscale (direction (mkRay (Vec3 0 0 0) (Vec3 0 0 1))) (- 1) = Vec3 0 0 (- 1)"
    by (simp add: ray vscale_def)
  show unit: "dot (Vec3 0 0 (- 1)) (Vec3 0 0 (- 1)) = 1"
    by (simp add: dot_def)
qed

text \<open>
  The view-plane coordinates of the cell \<open>(0, 0)\<close> of the program's grid: the aspect ratio
  \<open>200/250\<close> is rounded to \<open>13421773/16777216\<close>, the ratio \<open>200/112\<close> of the sub-rectangle to
  \<open>14979657/8388608\<close>.
\<close>

lemma first_cell:
  shows first_cell_u: "view_u 200 250 200 0 = - (13421773 / 33554432)"
    and first_cell_v: "view_v 112 0 = 1 / 2"
    and first_cell_u_spec: "view_u_spec 200 112 0 = - (14979657 / 16777216)"
proof -
  have [simp]: "float_of_int 200 = 200"
    using round_f32_near [of 7 "200" 13107200] by (simp add: float_of_int_def)
  have [simp]: "float_of_int 250 = 250"
    using round_f32_near [of 7 "250" 16384000] by (simp add: float_of_int_def)
  have [simp]: "fdiv 200 250 = 13421773 / 16777216"
    using round_f32_near [of "- 1" "4 / 5" 13421773] by (simp add: fdiv_def)
  have [simp]: "float_of_int 0 = 0"
    by (simp add: float_of_int_def round_f32_zero)
  have [simp]: "fdiv 200 2 = 100"
    using round_f32_near [of 6 "100" 13107200] by (simp add: fdiv_def)
  have [simp]: "fsub 0 100 = - 100"
    using round_f32_near [of 6 "- 100" "- 13107200"] by (simp add: fsub_def)
  have [simp]: "fdiv (- 100) 200 = - (1 / 2)"
    using round_f32_near [of "- 1" "- (1 / 2)" "- 8388608"] by (simp add: fdiv_def)
  have [simp]: "fmul (- (1 / 2)) (13421773 / 16777216) = - (13421773 / 33554432)"
    using round_f32_near [of "- 2" "- (13421773 / 33554432)" "- 13421773"] by (simp add: fmul_def)
  have [simp]: "float_of_int 112 = 112"
    using round_f32_near [of 6 "112" 14680064] by (simp add: float_of_int_def)
  have [simp]: "fdiv 112 2 = 56"
    using round_f32_near [of 5 "56" 14680064] by (simp add: fdiv_def)
  have [simp]: "fsub 56 0 = 56"
    using round_f32_near [of 5 "56" 14680064] by (simp add: fsub_def)
  have [simp]: "fdiv 56 112 = 1 / 2"
    using round_f32_near [of "- 1" "1 / 2" 8388608] by (simp add: fdiv_def)
  have [simp]: "fdiv 200 112 = 14979657 / 8388608"
    using round_f32_near [of 0 "25 / 14" 14979657] by (simp add: fdiv_def)
  have [simp]: "fmul (- (1 / 2)) (14979657 / 8388608) = - (14979657 / 16777216)"
    using round_f32_near [of "- 1" "- (14979657 / 16777216)" "- 14979657"] by (simp add: fmul_def)
  show u: "view_u 200 250 200 0 = - (13421773 / 33554432)"
    by (simp add: view_u_def)
  show v: "view_v 112 0 = 1 / 2"
    by (simp add: view_v_def)
  show u_spec: "view_u_spec 200 112 0 = - (14979657 / 16777216)"
    by (simp add: view_u_spec_def)
qed

section \<open>The claims\<close>

subsection \<open>C1: the differential display writer\<close>

text \<open>
  C1, as the program has it. On a buffer and a change mask that hold the whole grid,
  \<^verbatim>\<open>displayBuffer\<close> writes, cell by cell in row-major order, nothing for
    a cell whose
  mask entry is false and, for a cell whose mask entry is true, one cursor sequence to the
  1-based position (row + 1, column + 1) followed by one character: an asterisk when the
  buffer holds an asterisk at the cell and a space when it holds anything else. When every
  flagged cell holds an asterisk or a space, that is the character of the buffer.
\<close>

theorem displayBuffer_output:
  assumes "width * height \<le> int (length buffer)" "width * height \<le> int (length changed)"
  shows "displayBuffer width height buffer changed
           = Some (concat (map (cell_update width buffer changed) (grid_cells width height)))
     \<and> ((\<forall>c \<in> set (grid_cells width height).
            changed ! cell_ix width c \<longrightarrow> buffer ! cell_ix width c \<in> {CHR
              ''*'', CHR '' ''})
          \<longrightarrow> displayBuffer width height buffer changed
                = Some (displayBuffer_spec width height buffer changed))"
proof -
  have "\<forall>c \<in> set (grid_cells width height).
          in_frame width (length buffer) c \<and> in_frame width (length changed) c"
    using assms by (simp add: grid_cells_in_frame)
  from display_loop [OF this, of "[]"]
  have d: "displayBuffer width height buffer changed
           = Some (concat (map (cell_update width buffer changed) (grid_cells width height)))"
    by (simp add: displayBuffer_cells)
  show ?thesis
  proof (intro conjI impI)
    show "displayBuffer width height buffer changed
           = Some (concat (map (cell_update width buffer changed) (grid_cells width height)))"
      by (fact d)
  next
    assume "\<forall>c \<in> set (grid_cells width height).
            changed ! cell_ix width c \<longrightarrow> buffer ! cell_ix width c \<in> {CHR
              ''*'', CHR '' ''}"
    then have "map (cell_update width buffer changed) (grid_cells width height)
      = map (cell_update_spec width buffer changed) (grid_cells width height)"
      by (simp add: cell_update_two_chars)
    then show "displayBuffer width height buffer changed
                = Some (displayBuffer_spec width height buffer changed)"
      unfolding d displayBuffer_spec_def by (simp only:)
  qed
qed

text \<open>
  C1 at a grid of two cells in one row, the second one flagged and holding a space: the
  output is the escape character followed by \<open>[1;2H\<close> and a space.
\<close>

theorem displayBuffer_output_witness:
  "2 * 1 \<le> int (length ''* '') \<and> 2 * 1 \<le> int (length [False, True])
   \<and> displayBuffer 2 1 ''* '' [False, True] = Some (CHR 0x1B # ''[1;2H '')
   \<and> displayBuffer_spec 2 1 ''* '' [False, True] = CHR 0x1B # ''[1;2H ''"
  using displayBuffer_output [of 2 1 "''* ''" "[False, True]"]
  by (simp add: grid_cells_def upto.simps cell_update_def cell_ix_def cursor_put_def
      decimal_def displayBuffer_spec_def cell_update_spec_def)

text \<open>
  C1 as stated fails on a buffer that holds another character of the palette: for the
  one-cell grid whose flagged cell holds \<open>=\<close>, the program draws a space.
\<close>

theorem displayBuffer_echo_counterexample:
  "displayBuffer 1 1 ''='' [True] = Some (cursor_put 1 1 CHR '' '')
   \<and> displayBuffer_spec 1 1 ''='' [True] = cursor_put 1 1 CHR ''=''
   \<and> displayBuffer 1 1 ''='' [True] \<noteq> Some (displayBuffer_spec 1 1 ''='' [True])"
  by (simp add: displayBuffer_def display_cell_def displayBuffer_spec_def cell_update_spec_def
      grid_cells_1_1 cell_ix_def upto.simps cursor_put_def)

subsection \<open>C2: a reflection that does not reach the floor\<close>




subsection \<open>C3: shading a reflective surface\<close>

text \<open>
  C3, as the program has it. For every intensity \<open>t\<close> that is a number,
  \<^verbatim>\<open>getShade(t, true)\<close> is the palette character whose index is the
    binary32 product of
  the clamped intensity and 6 with the fraction dropped: the product is first rounded to
  binary32, then truncated, never rounded to the nearest index. The index lies in 0..6,
  inside the palette of 7 characters, and the intensities \<open>-5\<close> and
    \<open>50\<close> give the characters
  of \<open>0\<close> and \<open>1\<close>. At \<open>t = 13981013/16777216\<close> the exact
    product is below 5 and the rounded
  one is 5: the character is the plus sign. (A NaN is not a number: no comparison clamps
  it, and its conversion to \<^verbatim>\<open>int\<close> is undefined.)
\<close>

theorem getShade_reflective_index:
  "getShade t True = shades ! nat \<lfloor>fmul (clamp01 t) 6\<rfloor>
   \<and> 0 \<le> \<lfloor>fmul (clamp01 t) 6\<rfloor>
   \<and> \<lfloor>fmul (clamp01 t) 6\<rfloor> \<le> 6
   \<and> nat \<lfloor>fmul (clamp01 t) 6\<rfloor> < length shades
   \<and> getShade (- 5) True = getShade 0 True \<and> getShade 50 True = getShade 1 True
   \<and> \<lfloor>clamp01 (13981013 / 16777216) * 6\<rfloor> = 4
   \<and> \<lfloor>fmul (clamp01 (13981013 / 16777216)) 6\<rfloor> = 5
   \<and> getShade (13981013 / 16777216) True = CHR ''+''"
proof -
  have r: "0 \<le> fmul (clamp01 t) 6" "fmul (clamp01 t) 6 \<le> 6"
    using clamp01_range [of t] fmul_6_bounds [of "clamp01 t"] by simp_all
  then have f: "\<lfloor>fmul (clamp01 t) 6\<rfloor> \<le> 6" "0 \<le> \<lfloor>fmul (clamp01
    t) 6\<rfloor>"
    by (simp_all add: floor_le_iff)
  then have n: "nat \<lfloor>fmul (clamp01 t) 6\<rfloor> < 7"
    by linarith
  have c: "clamp01 (- 5) = clamp01 0" "clamp01 50 = clamp01 1"
    "clamp01 (13981013 / 16777216) = 13981013 / 16777216"
    by (simp_all add: clamp01_def)
  have l: "length shades = 7"
    by (simp add: shades_def)
  have e: "\<lfloor>(13981013 / 16777216 :: real) * 6\<rfloor> = 4"
    by simp
  have p: "shades ! nat 5 = CHR ''+''"
    by (simp add: shades_def)
  show ?thesis
    unfolding getShade_clamp l c fmul_rounds_up using f n e p by simp
qed

text \<open>
  C3 as stated fails at \<open>t = 5/16\<close>: \<open>6 t = 1.875\<close>, a binary32 number;
    the program takes
  index 1, the period, and rounding takes index 2, the colon.
\<close>

theorem getShade_rounding_counterexample:
  "getShade (5 / 16) True = CHR ''.''
   \<and> getShade_spec (5 / 16) = CHR '':''
   \<and> getShade (5 / 16) True \<noteq> getShade_spec (5 / 16)"
  by (simp add: getShade_clamp getShade_spec_def shades_def clamp01_def round_def
      float_of_int_6 fmul_5_16)

subsection \<open>C4: the camera ray of a cell\<close>

text \<open>
  C4, as the program has it, in binary32. For every cell \<open>(x, y)\<close> of the
    aspect-corrected
  sub-rectangle, with \<open>u = ((x - adjustedWidth/2) / adjustedWidth) \<times> (width /
    height)\<close>,
  the aspect ratio being the one of the whole grid, and
  \<open>v = (adjustedHeight/2 - y) / adjustedHeight\<close>, every operation rounded, the
    camera ray
  starts at the camera with the direction \<open>(u, v, 1)\<close> normalized, and
    \<^verbatim>\<open>render\<close> leaves
  in the buffer, at the cell, the character of that ray.
\<close>

theorem camera_ray_view_plane:
  assumes "width * height \<le> int (length buffer)" "width * height \<le> int (length changed)"
    and c: "0 \<le> x" "x < fst (adjusted width height)" "0 \<le> y" "y < snd (adjusted width
      height)"
    and u: "u = fmul (fdiv (fsub (float_of_int x)
                               (fdiv (float_of_int (fst (adjusted width height))) 2))
                         (float_of_int (fst (adjusted width height))))
                   (fdiv (float_of_int width) (float_of_int height))"
    and v: "v = fdiv (fsub (fdiv (float_of_int (snd (adjusted width height))) 2)
                         (float_of_int y))
                   (float_of_int (snd (adjusted width height)))"
  shows "camera_ray width height camera x y
           = \<lparr>origin = camera, direction = normalize_vec (Vec3 u v 1)\<rparr>
     \<and> (\<exists>buffer' changed'.
          render width height camera (buffer, changed) = Some (buffer', changed')
          \<and> buffer' ! nat (y * width + x)
              = shade_ray camera \<lparr>origin = camera, direction = normalize_vec (Vec3 u v
                1)\<rparr>)"
proof -
  have ray: "camera_ray width height camera x y
           = \<lparr>origin = camera, direction = normalize_vec (Vec3 u v 1)\<rparr>"
    unfolding u v by (simp only: camera_ray_def view_u_def view_v_def mkRay_def Let_def)
  from render_total [OF assms(1,2)] obtain buffer' changed'
    where r: "render width height camera (buffer, changed) = Some (buffer', changed')"
    by blast
  from render_inside [OF r c] have "buffer' ! nat (y * width + x)
      = shade_ray camera \<lparr>origin = camera, direction = normalize_vec (Vec3 u v 1)\<rparr>"
    by (simp add: newChar_def ray)
  with r ray show ?thesis by blast
qed

text \<open>
  C4 at the first cell of the program's grid, 200 by 250 with the sub-rectangle 200 by
  112, from the program's first camera: \<open>u = - 13421773/33554432\<close>, which is
    \<open>- 1/2\<close> times
  the rounded aspect ratio, and \<open>v = 1/2\<close>.
\<close>

theorem camera_ray_view_plane_witness:
  "200 * 250 \<le> int (length (replicate 50000 (CHR 0x00)))
   \<and> 200 * 250 \<le> int (length (replicate 50000 False))
   \<and> (0::int) \<le> 0 \<and> 0 < fst (adjusted 200 250) \<and> (0::int) \<le> 0 \<and> 0 <
     snd (adjusted 200 250)
   \<and> - (13421773 / 33554432)
       = fmul (fdiv (fsub (float_of_int 0) (fdiv (float_of_int (fst (adjusted 200 250))) 2))
                 (float_of_int (fst (adjusted 200 250))))
           (fdiv (float_of_int 200) (float_of_int 250))
   \<and> 1 / 2 = fdiv (fsub (fdiv (float_of_int (snd (adjusted 200 250))) 2) (float_of_int 0))
                (float_of_int (snd (adjusted 200 250)))
   \<and> camera_ray 200 250 (Vec3 0 1 (- 6)) 0 0
       = \<lparr>origin = Vec3 0 1 (- 6),
          direction = normalize_vec (Vec3 (- (13421773 / 33554432)) (1 / 2) 1)\<rparr>
   \<and> (\<exists>buffer' changed'.
        render 200 250 (Vec3 0 1 (- 6)) (replicate 50000 (CHR 0x00), replicate 50000 False)
          = Some (buffer', changed')
        \<and> buffer' ! 0 = shade_ray (Vec3 0 1 (- 6))
            \<lparr>origin = Vec3 0 1 (- 6),
             direction = normalize_vec (Vec3 (- (13421773 / 33554432)) (1 / 2) 1)\<rparr>)"
proof -
  have s: "200 * 250 \<le> int (length (replicate 50000 (CHR 0x00)))"
    "200 * 250 \<le> int (length (replicate 50000 False))"
    by simp_all
  have c: "(0::int) \<le> 0" "0 < fst (adjusted 200 250)" "(0::int) \<le> 0"
    "0 < snd (adjusted 200 250)"
    by (simp_all add: adjusted_200_250)
  have u: "- (13421773 / 33554432)
       = fmul (fdiv (fsub (float_of_int 0) (fdiv (float_of_int (fst (adjusted 200 250))) 2))
                 (float_of_int (fst (adjusted 200 250))))
           (fdiv (float_of_int 200) (float_of_int 250))"
    unfolding adjusted_200_250 fst_conv
    by (rule first_cell_u [unfolded view_u_def Let_def, symmetric])
  have v: "1 / 2 = fdiv (fsub (fdiv (float_of_int (snd (adjusted 200 250))) 2) (float_of_int 0))
                (float_of_int (snd (adjusted 200 250)))"
    unfolding adjusted_200_250 snd_conv
    by (rule first_cell_v [unfolded view_v_def, symmetric])
  have i: "nat (0 * 200 + 0) = 0"
    by simp
  note w = camera_ray_view_plane [OF s c u v, of "Vec3 0 1 (- 6)", unfolded i]
  from s c u v w show ?thesis
    by blast
qed

text \<open>
  C4 as stated fails on that grid, whose aspect ratio \<open>200/250\<close> is not the
  sub-rectangle's \<open>200/112\<close>: at \<open>x = 0\<close> the program's
    \<open>u\<close> is \<open>- 13421773/33554432\<close>,
  about \<open>- 0.4\<close>, and the stated one is \<open>- 14979657/16777216\<close>, about
    \<open>- 0.893\<close>.
\<close>

theorem view_u_aspect_counterexample:
  "view_u 200 250 (fst (adjusted 200 250)) 0 = - (13421773 / 33554432)
   \<and> view_u_spec (fst (adjusted 200 250)) (snd (adjusted 200 250)) 0
       = - (14979657 / 16777216)
   \<and> view_u 200 250 (fst (adjusted 200 250)) 0
       \<noteq> view_u_spec (fst (adjusted 200 250)) (snd (adjusted 200 250)) 0"
  by (simp add: adjusted_200_250 first_cell_u first_cell_u_spec)

subsection \<open>C5: the intersection of a ray and a sphere\<close>



subsection \<open>C6: a reflection that reaches the floor\<close>

text \<open>
  C6, as the program has it, in binary32. Take a camera whose coordinates are below
  \<open>2\<^sup>3\<^sup>0\<close> in absolute value and a cell of the sub-rectangle whose
    camera ray, of
  direction \<open>d\<close>, hits the sphere with the normal \<open>n\<close>, the magnitude of
  \<open>hitPoint - center\<close> being positive. Let \<open>r\<close> be the mirror direction
  \<open>d - (2 n) (d \<sqdot> n)\<close> normalized, which is the direction that the
    reflection ray stores.
  When \<open>floorDist = - hitPoint.y / r.y\<close> is positive and the coordinates of
  \<open>floorPoint = hitPoint + r floorDist\<close> are below \<open>2\<^sup>3\<^sup>0\<close>
    in absolute value (their integer
  parts and the sum of these are values of \<^verbatim>\<open>int\<close>), the character of
    the cell is the
  asterisk when \<open>\<lfloor>floorPoint.x\<rfloor> + \<lfloor>floorPoint.z\<rfloor>\<close>
    is even and the space when it is odd.
\<close>

theorem floor_reflection_char:
  assumes cell: "in_sub_rectangle width height x y"
    and cam: "coords_below (2 ^ 30) camera"
    and hit: "intersect scene_sphere (camera_ray width height camera x y)
                = Some (t, hitPoint, normal)"
    and w: "0 < magnitude (vsub hitPoint (center scene_sphere))"
    and m: "mirror = vsub (direction (camera_ray width height camera x y))
                       (vscale (vscale normal 2)
                          (dot (direction (camera_ray width height camera x y)) normal))"
    and r: "r = normalize_vec mirror"
    and d: "floorDist = fdiv (- vy hitPoint) (vy r)"
    and pos: "0 < floorDist"
    and p: "floorPoint = vadd hitPoint (vscale r floorDist)"
    and rng: "coords_below (2 ^ 30) floorPoint"
  shows "newChar width height camera x y
           = (if even (\<lfloor>vx floorPoint\<rfloor> + \<lfloor>vz floorPoint\<rfloor>) then
             CHR ''*'' else CHR '' '')"
proof -
  have fd: "floor_dist hitPoint
              (reflection_ray (camera_ray width height camera x y) hitPoint normal)
            = floorDist"
    unfolding d r m by (rule floor_dist_reflection)
  have "floor_point hitPoint
          (reflection_ray (camera_ray width height camera x y) hitPoint normal)
        = vadd hitPoint (vscale r (floor_dist hitPoint
            (reflection_ray (camera_ray width height camera x y) hitPoint normal)))"
    unfolding r m by (rule floor_point_reflection)
  then have fp: "floor_point hitPoint
          (reflection_ray (camera_ray width height camera x y) hitPoint normal)
        = floorPoint"
    by (simp only: fd p)
  from pos have "newChar width height camera x y = getShade 1 (isCheckerboard floorPoint)"
    by (simp add: newChar_def shade_ray_hit [OF hit] fd fp)
  then show ?thesis
    by (simp only: getShade_floor_tile)
qed

text \<open>
  C6 at the cell \<open>(100, 45)\<close> of the program's first frame, the camera at
    \<open>(0, 1, - 6)\<close>:
  the reflection reaches the floor after about 5.53 at \<open>(0, 0, - 420293/131072)\<close>, the
  integer parts add up to \<open>- 4\<close>, and the character is the asterisk.
\<close>

theorem floor_reflection_char_witness:
  "in_sub_rectangle 200 250 100 45
   \<and> coords_below (2 ^ 30) (Vec3 0 1 (- 6))
   \<and> intersect scene_sphere (camera_ray 200 250 (Vec3 0 1 (- 6)) 100 45)
       = Some (4226463 / 524288, Vec3 0 (7499195 / 4194304) (2120995 / 1048576), Vec3 0 (-
         (7115281 / 33554432)) (- (16395675 / 16777216)))
   \<and> 0 < magnitude (vsub (Vec3 0 (7499195 / 4194304) (2120995 / 1048576)) (center
     scene_sphere))
   \<and> Vec3 0 (- (10855555 / 33554432)) (- (15874955 / 16777216))
       = vsub (direction (camera_ray 200 250 (Vec3 0 1 (- 6)) 100 45))
           (vscale (vscale (Vec3 0 (- (7115281 / 33554432)) (- (16395675 / 16777216))) 2)
              (dot (direction (camera_ray 200 250 (Vec3 0 1 (- 6)) 100 45)) (Vec3 0 (- (7115281
                / 33554432)) (- (16395675 / 16777216)))))
   \<and> Vec3 0 (- (10855555 / 33554432)) (- (15874955 / 16777216)) = normalize_vec (Vec3 0 (-
     (10855555 / 33554432)) (- (15874955 / 16777216)))
   \<and> 11589975 / 2097152 = fdiv (- vy (Vec3 0 (7499195 / 4194304) (2120995 / 1048576))) (vy
     (Vec3 0 (- (10855555 / 33554432)) (- (15874955 / 16777216))))
   \<and> (0::real) < 11589975 / 2097152
   \<and> Vec3 0 0 (- (420293 / 131072)) = vadd (Vec3 0 (7499195 / 4194304) (2120995 /
     1048576)) (vscale (Vec3 0 (- (10855555 / 33554432)) (- (15874955 / 16777216))) (11589975 /
     2097152))
   \<and> coords_below (2 ^ 30) (Vec3 0 0 (- (420293 / 131072)))
   \<and> \<lfloor>vx (Vec3 0 0 (- (420293 / 131072)))\<rfloor> + \<lfloor>vz (Vec3 0 0 (-
     (420293 / 131072)))\<rfloor> = - 4
   \<and> newChar 200 250 (Vec3 0 1 (- 6)) 100 45 = CHR ''*''"
proof -
  have c: "in_sub_rectangle 200 250 100 45"
    by (simp add: in_sub_rectangle_200_250)
  have b: "coords_below (2 ^ 30) (Vec3 0 1 (- 6))"
    by (simp add: coords_below_def)
  have g: "0 < magnitude (vsub (Vec3 0 (7499195 / 4194304) (2120995 / 1048576)) (center
    scene_sphere))"
    unfolding floor_cell_mag by simp
  have pos: "(0::real) < 11589975 / 2097152"
    by simp
  have rng: "coords_below (2 ^ 30) (Vec3 0 0 (- (420293 / 131072)))"
    by (simp add: coords_below_def)
  have f: "\<lfloor>vx (Vec3 0 0 (- (420293 / 131072)))\<rfloor> + \<lfloor>vz (Vec3 0 0 (-
    (420293 / 131072)))\<rfloor> = - 4"
    by simp
  note w = floor_reflection_char [OF c b floor_cell_hit g floor_cell_mirror floor_cell_dir
      floor_cell_quot pos floor_cell_cross rng]
  have n: "newChar 200 250 (Vec3 0 1 (- 6)) 100 45 = CHR ''*''"
    unfolding w f by simp
  from c b floor_cell_hit g floor_cell_mirror floor_cell_dir floor_cell_quot pos
    floor_cell_cross rng f n show ?thesis
    by (intro conjI)
qed

text \<open>
  C6 as stated, with \<open>floorDist\<close> and \<open>floorPoint\<close> taken along
    \<open>reflectionDir\<close> itself,
  fails at the cell \<open>(92, 40)\<close> seen from \<open>(0, 1, - 4)\<close>. The program
    follows the
  normalized direction and reaches the floor at \<open>z = - 11\<close>: the integer parts
    \<open>- 7\<close> and
  \<open>- 11\<close> add up to an even number and the character is the asterisk. Along
  \<open>reflectionDir\<close> the crossing lies just beyond \<open>z = - 11\<close>, in
    binary32 as in exact
  arithmetic: the integer parts \<open>- 7\<close> and \<open>- 12\<close> add up to an odd
    number.
\<close>

theorem mirror_direction_counterexample:
  "intersect scene_sphere (camera_ray 200 250 (Vec3 0 1 (- 4)) 92 40)
     = Some (12777759 / 2097152, Vec3 (- (3236607 / 16777216)) (1951647 / 1048576) (2127193 /
       1048576), Vec3 (- (12946463 / 67108864)) (- (4656173 / 33554432)) (- (16296605 /
       16777216)))
   \<and> reflectionDir (camera_ray 200 250 (Vec3 0 1 (- 4)) 92 40) (Vec3 (- (12946463 /
     67108864)) (- (4656173 / 33554432)) (- (16296605 / 16777216)))
       = Vec3 (- (13680233 / 33554432)) (- (8666033 / 67108864)) (- (7582779 / 8388608))
   \<and> floor_dist_spec (Vec3 (- (3236607 / 16777216)) (1951647 / 1048576) (2127193 /
     1048576)) (Vec3 (- (13680233 / 33554432)) (- (8666033 / 67108864)) (- (7582779 /
     8388608)))
       = 15113353 / 1048576
   \<and> floor_point_spec (Vec3 (- (3236607 / 16777216)) (1951647 / 1048576) (2127193 /
     1048576)) (Vec3 (- (13680233 / 33554432)) (- (8666033 / 67108864)) (- (7582779 /
     8388608)))
       = Vec3 (- (6364043 / 1048576)) 0 (- (11534337 / 1048576))
   \<and> \<lfloor>vx (Vec3 (- (6364043 / 1048576)) 0 (- (11534337 / 1048576)))\<rfloor> +
     \<lfloor>vz (Vec3 (- (6364043 / 1048576)) 0 (- (11534337 / 1048576)))\<rfloor> = - 19
   \<and> \<lfloor>vx (Vec3 (- (3236607 / 16777216)) (1951647 / 1048576) (2127193 / 1048576)) +
     vx (Vec3 (- (13680233 / 33554432)) (- (8666033 / 67108864)) (- (7582779 / 8388608))) * (-
     vy (Vec3 (- (3236607 / 16777216)) (1951647 / 1048576) (2127193 / 1048576)) / vy (Vec3 (-
     (13680233 / 33554432)) (- (8666033 / 67108864)) (- (7582779 / 8388608))))\<rfloor>
       + \<lfloor>vz (Vec3 (- (3236607 / 16777216)) (1951647 / 1048576) (2127193 / 1048576)) +
         vz (Vec3 (- (13680233 / 33554432)) (- (8666033 / 67108864)) (- (7582779 / 8388608))) *
         (- vy (Vec3 (- (3236607 / 16777216)) (1951647 / 1048576) (2127193 / 1048576)) / vy
         (Vec3 (- (13680233 / 33554432)) (- (8666033 / 67108864)) (- (7582779 /
         8388608))))\<rfloor> = - 19
   \<and> newChar 200 250 (Vec3 0 1 (- 4)) 92 40 = CHR ''*''
   \<and> newChar 200 250 (Vec3 0 1 (- 4)) 92 40
       \<noteq> (if even (\<lfloor>vx (Vec3 (- (6364043 / 1048576)) 0 (- (11534337 /
         1048576)))\<rfloor> + \<lfloor>vz (Vec3 (- (6364043 / 1048576)) 0 (- (11534337 /
         1048576)))\<rfloor>) then CHR ''*'' else CHR '' '')"
proof -
  have m: "reflectionDir (camera_ray 200 250 (Vec3 0 1 (- 4)) 92 40) (Vec3 (- (12946463 /
    67108864)) (- (4656173 / 33554432)) (- (16296605 / 16777216)))
           = Vec3 (- (13680233 / 33554432)) (- (8666033 / 67108864)) (- (7582779 / 8388608))"
    unfolding reflectionDir_def by (rule tile_edge_cell_mirror [symmetric])
  have f: "\<lfloor>vx (Vec3 (- (6364043 / 1048576)) 0 (- (11534337 / 1048576)))\<rfloor> +
    \<lfloor>vz (Vec3 (- (6364043 / 1048576)) 0 (- (11534337 / 1048576)))\<rfloor> = - 19"
    by simp
  have e: "\<lfloor>vx (Vec3 (- (3236607 / 16777216)) (1951647 / 1048576) (2127193 / 1048576))
    + vx (Vec3 (- (13680233 / 33554432)) (- (8666033 / 67108864)) (- (7582779 / 8388608))) * (-
    vy (Vec3 (- (3236607 / 16777216)) (1951647 / 1048576) (2127193 / 1048576)) / vy (Vec3 (-
    (13680233 / 33554432)) (- (8666033 / 67108864)) (- (7582779 / 8388608))))\<rfloor>
       + \<lfloor>vz (Vec3 (- (3236607 / 16777216)) (1951647 / 1048576) (2127193 / 1048576)) +
         vz (Vec3 (- (13680233 / 33554432)) (- (8666033 / 67108864)) (- (7582779 / 8388608))) *
         (- vy (Vec3 (- (3236607 / 16777216)) (1951647 / 1048576) (2127193 / 1048576)) / vy
         (Vec3 (- (13680233 / 33554432)) (- (8666033 / 67108864)) (- (7582779 /
         8388608))))\<rfloor> = - 19"
    by simp
  have n: "newChar 200 250 (Vec3 0 1 (- 4)) 92 40
       \<noteq> (if even (\<lfloor>vx (Vec3 (- (6364043 / 1048576)) 0 (- (11534337 /
         1048576)))\<rfloor> + \<lfloor>vz (Vec3 (- (6364043 / 1048576)) 0 (- (11534337 /
         1048576)))\<rfloor>) then CHR ''*'' else CHR '' '')"
    unfolding f tile_edge_cell_char by simp
  from tile_edge_cell_hit m tile_edge_cell_spec_dist tile_edge_cell_spec_point f e
    tile_edge_cell_char n show ?thesis
    by (intro conjI)
qed

subsection \<open>C7: rendering twice\<close>

text \<open>
  C7. On a buffer and a change mask that hold the whole grid, \<^verbatim>\<open>render\<close>
    returns, and
  a second call with the same camera and grid, started from the result of the first,
  returns the same buffer and a change mask that is false everywhere.
\<close>

theorem render_idempotent:
  assumes "width * height \<le> int (length buffer)" "width * height \<le> int (length changed)"
  shows "\<exists>buffer' changed'.
           render width height camera (buffer, changed) = Some (buffer', changed')
         \<and> render width height camera (buffer', changed')
             = Some (buffer', replicate (length changed) False)"
proof -
  from render_total [OF assms] obtain buffer' changed'
    where r: "render width height camera (buffer, changed) = Some (buffer', changed')"
    by blast
  note len = render_length [OF r]
  have "\<forall>c \<in> set (sub_cells width height). in_frame width (length buffer') c
      \<and> buffer' ! cell_ix width c = newChar width height camera (snd c) (fst c)"
  proof
    fix c assume m: "c \<in> set (sub_cells width height)"
    obtain y x where c: "c = (y, x)" by (cases c)
    from sub_cells_in_frame [OF m assms(1)] len
    have "in_frame width (length buffer') c" by simp
    moreover
    from store_loop_written [OF r [unfolded render_cells] sub_cells_distinct m [unfolded c]]
    have "buffer' ! cell_ix width c = newChar width height camera (snd c) (fst c)"
      by (simp add: c)
    ultimately show "in_frame width (length buffer') c
      \<and> buffer' ! cell_ix width c = newChar width height camera (snd c) (fst c)" ..
  qed
  from store_loop_fixpoint [of "sub_cells width height" width buffer'
      "\<lambda>y x. newChar width height camera x y" "replicate (length changed') False", OF
        this]
  have "render width height camera (buffer', changed')
          = Some (buffer', replicate (length changed) False)"
    by (simp add: render_cells len)
  with r show ?thesis by blast
qed

text \<open>
  C7 at the program's first two frames: the grid 200 by 250, the camera at
  \<open>(0, 1, - 6)\<close>, the 50000 characters zero and the 50000 flags false.
\<close>

theorem render_idempotent_witness:
  "200 * 250 \<le> int (length (replicate 50000 (CHR 0x00)))
   \<and> 200 * 250 \<le> int (length (replicate 50000 False))
   \<and> (\<exists>buffer' changed'.
         render 200 250 (Vec3 0 1 (- 6)) (replicate 50000 (CHR 0x00), replicate 50000 False)
           = Some (buffer', changed')
         \<and> render 200 250 (Vec3 0 1 (- 6)) (buffer', changed')
           = Some (buffer', replicate 50000 False))"
  using render_idempotent [of 200 250 "replicate 50000 (CHR 0x00)" "replicate 50000 False"
      "Vec3 0 1 (- 6)"]
  by simp

subsection \<open>C8: the vectors that are normalized\<close>

text \<open>
  C8, as the program has it, in binary32. For every cell of the sub-rectangle the vector
  that the camera ray passes to \<^verbatim>\<open>normalize\<close> is \<open>(u, v,
    1)\<close>: its third coordinate is
  1, it is not the zero vector, and the magnitude by which \<^verbatim>\<open>normalize\<close>
    divides its
  coordinates is at least 1 after every rounding. Nothing of the kind holds of the two
  other vectors that are normalized, \<open>hitPoint - center\<close> and the mirror direction.
\<close>

theorem normalize_arguments_nonzero:
  assumes cell: "in_sub_rectangle width height x y"
    and u: "u = view_u width height (fst (adjusted width height)) x"
    and v: "v = view_v (snd (adjusted width height)) y"
  shows "camera_ray width height camera x y = mkRay camera (Vec3 u v 1)
     \<and> vz (Vec3 u v 1) = 1
     \<and> Vec3 u v 1 \<noteq> Vec3 0 0 0
     \<and> 1 \<le> magnitude (Vec3 u v 1)
     \<and> direction (camera_ray width height camera x y)
         = Vec3 (fdiv u (magnitude (Vec3 u v 1))) (fdiv v (magnitude (Vec3 u v 1)))
             (fdiv 1 (magnitude (Vec3 u v 1)))"
proof -
  have ray: "camera_ray width height camera x y = mkRay camera (Vec3 u v 1)"
    unfolding u v by (simp add: camera_ray_def Let_def)
  have "direction (mkRay camera (Vec3 u v 1))
         = Vec3 (fdiv u (magnitude (Vec3 u v 1))) (fdiv v (magnitude (Vec3 u v 1)))
             (fdiv 1 (magnitude (Vec3 u v 1)))"
    using normalize_vec_magnitude [of "Vec3 u v 1"] by (simp add: mkRay_def)
  with ray magnitude_forward [of u v] show ?thesis
    by simp
qed

text \<open>
  C8 at the first cell of the program's grid: \<open>u = - 13421773/33554432\<close> and
    \<open>v = 1/2\<close>.
\<close>

theorem normalize_arguments_nonzero_witness:
  "in_sub_rectangle 200 250 0 0
   \<and> - (13421773 / 33554432) = view_u 200 250 (fst (adjusted 200 250)) 0
   \<and> 1 / 2 = view_v (snd (adjusted 200 250)) 0
   \<and> camera_ray 200 250 (Vec3 0 1 (- 6)) 0 0
       = mkRay (Vec3 0 1 (- 6)) (Vec3 (- (13421773 / 33554432)) (1 / 2) 1)
   \<and> 1 \<le> magnitude (Vec3 (- (13421773 / 33554432)) (1 / 2) 1)"
proof -
  have c: "in_sub_rectangle 200 250 0 0"
    by (simp add: in_sub_rectangle_200_250)
  have u: "- (13421773 / 33554432) = view_u 200 250 (fst (adjusted 200 250)) 0"
    unfolding adjusted_200_250 fst_conv by (rule first_cell_u [symmetric])
  have v: "1 / 2 = view_v (snd (adjusted 200 250)) 0"
    unfolding adjusted_200_250 snd_conv by (rule first_cell_v [symmetric])
  note w = normalize_arguments_nonzero [OF c u v, of "Vec3 0 1 (- 6)"]
  from w have r: "camera_ray 200 250 (Vec3 0 1 (- 6)) 0 0
       = mkRay (Vec3 0 1 (- 6)) (Vec3 (- (13421773 / 33554432)) (1 / 2) 1)"
    by (rule conjunct1)
  from w have g: "1 \<le> magnitude (Vec3 (- (13421773 / 33554432)) (1 / 2) 1)"
    by blast
  from c u v r g show ?thesis
    by (intro conjI)
qed

text \<open>
  C8 as stated fails on the program's grid with the camera at \<open>(0, 2, - 8388608)\<close>:
    the
  ray of the centre cell \<open>(100, 56)\<close> runs along \<open>(0, 0, 1)\<close>, the
    computed hit distance is
  8388611 and the hit point is the centre of the sphere, so that
    \<^verbatim>\<open>intersect\<close> passes
  the zero vector, of magnitude 0, to \<^verbatim>\<open>normalize\<close>.
\<close>

theorem hit_point_centre_counterexample:
  "in_sub_rectangle 200 250 100 56
   \<and> intersect scene_sphere (camera_ray 200 250 (Vec3 0 2 (- 8388608)) 100 56)
       = Some (8388611, Vec3 0 2 3, normalize_vec (Vec3 0 0 0))
   \<and> vsub (Vec3 0 2 3) (center scene_sphere) = Vec3 0 0 0
   \<and> magnitude (Vec3 0 0 0) = 0"
  unfolding far_ray_cell far_ray_hit far_ray_centre far_ray_mag
  by (simp add: in_sub_rectangle_200_250)

subsection \<open>C9: the cells outside the sub-rectangle\<close>

text \<open>
  C9. On a buffer and a change mask that hold the whole grid, \<^verbatim>\<open>render\<close>
    returns, and
  at every cell \<open>(x, y)\<close> of the grid outside the aspect-corrected sub-rectangle
  (\<open>x \<ge> adjustedWidth\<close> or \<open>y \<ge> adjustedHeight\<close>) the buffer
    holds what it held before the
  call and the change mask is false.
\<close>

theorem render_outside_untouched:
  assumes "width * height \<le> int (length buffer)" "width * height \<le> int (length changed)"
    and g: "0 \<le> x" "x < width" "0 \<le> y" "y < height"
    and out: "fst (adjusted width height) \<le> x \<or> snd (adjusted width height) \<le> y"
  shows "\<exists>buffer' changed'.
           render width height camera (buffer, changed) = Some (buffer', changed')
         \<and> buffer' ! nat (y * width + x) = buffer ! nat (y * width + x)
         \<and> changed' ! nat (y * width + x) = False"
proof -
  from render_total [OF assms(1,2)] obtain buffer' changed'
    where r: "render width height camera (buffer, changed) = Some (buffer', changed')"
    by blast
  from grid_index_bound [OF g(3,4) g(1,2)] assms(2)
  have "nat (y * width + x) < length changed" by linarith
  then have "replicate (length changed) False ! nat (y * width + x) = False" by simp
  with store_loop_frame [OF r [unfolded render_cells] outside_not_written [OF g(3,4) g(1,2) out]]
  have "buffer' ! nat (y * width + x) = buffer ! nat (y * width + x)
     \<and> changed' ! nat (y * width + x) = False"
    by (simp add: cell_ix_def)
  with r show ?thesis by blast
qed

text \<open>
  C9 at the cell \<open>(7, 112)\<close> of the program's grid, in the first row below the
  sub-rectangle of 200 by 112 cells, with every flag set before the call.
\<close>

theorem render_outside_untouched_witness:
  "200 * 250 \<le> int (length (replicate 50000 (CHR 0x00)))
   \<and> 200 * 250 \<le> int (length (replicate 50000 True))
   \<and> (0::int) \<le> 7 \<and> (7::int) < 200 \<and> (0::int) \<le> 112 \<and> (112::int) < 250
   \<and> (fst (adjusted 200 250) \<le> 7 \<or> snd (adjusted 200 250) \<le> 112)
   \<and> (\<exists>buffer' changed'.
         render 200 250 (Vec3 0 1 (- 6)) (replicate 50000 (CHR 0x00), replicate 50000 True)
           = Some (buffer', changed')
         \<and> buffer' ! 22407 = CHR 0x00 \<and> changed' ! 22407 = False)"
  using render_outside_untouched [of 200 250 "replicate 50000 (CHR 0x00)"
      "replicate 50000 True" 7 112 "Vec3 0 1 (- 6)"]
  by (simp add: adjusted_200_250)

subsection \<open>C10: shading without the reflective flag\<close>

text \<open>
  C10. \<^verbatim>\<open>getShade(t, false)\<close> takes no point; it is the asterisk exactly
    when the
  clamped intensity is below 1, which is when \<open>t < 1\<close>, and the space for every
  \<open>t \<ge> 1\<close>. The checkerboard test is applied to the point \<open>(clamp(t), 0,
    0)\<close>, whose
  floored coordinates add up to 0 when \<open>t < 1\<close> and to 1 otherwise.
\<close>

theorem getShade_matte:
  "getShade t False = (if clamp01 t < 1 then CHR ''*'' else CHR '' '')
   \<and> getShade t False = (if t < 1 then CHR ''*'' else CHR '' '')
   \<and> isCheckerboard (Vec3 (clamp01 t) 0 0) = (clamp01 t < 1)
   \<and> \<lfloor>vx (Vec3 (clamp01 t) 0 0)\<rfloor> + \<lfloor>vz (Vec3 (clamp01 t) 0
     0)\<rfloor>
       = (if clamp01 t < 1 then 0 else 1)"
proof -
  have "\<lfloor>clamp01 t\<rfloor> = (if clamp01 t < 1 then 0 else 1)"
    using clamp01_range [of t] by (auto simp add: floor_eq_iff)
  then show ?thesis
    by (simp add: getShade_clamp isCheckerboard_even) (simp add: clamp01_def)
qed

end
